theory Spec2Isabelle
  imports Main "HOL-Library.AList" "HOL-Library.Sublist"
begin

section \<open>Python values\<close>

text \<open>
  The values the four modules handle: module parameters, the rows a cursor returns and
  the entries of the result dictionary handed to \<^verbatim>\<open>exit_json\<close>.
\<close>

datatype pyval =
    PNone
  | PBool bool
  | PInt int
  | PStr string
  | PTuple "pyval list"
  | PDict "(string \<times> pyval) list"

text \<open>Python truthiness, as used by \<^verbatim>\<open>if x:\<close> and \<^verbatim>\<open>if not x:\<close>.\<close>

fun truthy :: "pyval \<Rightarrow> bool" where
  "truthy PNone = False"
| "truthy (PBool b) = b"
| "truthy (PInt i) = (i \<noteq> 0)"
| "truthy (PStr s) = (s \<noteq> [])"
| "truthy (PTuple xs) = (xs \<noteq> [])"
| "truthy (PDict kvs) = (kvs \<noteq> [])"

text \<open>
  What can end a run early: a \<^verbatim>\<open>MySQLdb.Error\<close> (with its text), the
  \<^verbatim>\<open>SystemExit\<close> of \<^verbatim>\<open>module.fail_json(msg=...)\<close>, and the built-in exceptions
  of the operations used.
\<close>

datatype error =
    MySQLdb_Error string
  | Fail_json string
  | TypeError
  | KeyError
  | ValueError

text \<open>\<^verbatim>\<open>d[key]\<close> on a fetched row, and \<^verbatim>\<open>int(x)\<close>.\<close>

definition subscript :: "pyval \<Rightarrow> string \<Rightarrow> error + pyval" where
  "subscript d k =
     (case d of
        PDict kvs \<Rightarrow> (case map_of kvs k of None \<Rightarrow> Inl KeyError | Some v \<Rightarrow> Inr v)
      | _ \<Rightarrow> Inl TypeError)"

definition digit_of :: "char \<Rightarrow> int option" where
  "digit_of c =
     (if c \<in> set ''0123456789'' then Some (int (of_char c) - 48) else None)"

definition py_int :: "pyval \<Rightarrow> error + int" where
  "py_int v =
     (case v of
        PInt n \<Rightarrow> Inr n
      | PBool b \<Rightarrow> Inr (if b then 1 else 0)
      | PStr s \<Rightarrow>
          (if s \<noteq> [] \<and> list_all (\<lambda>c. digit_of c \<noteq> None) s
           then Inr (foldl (\<lambda>n c. 10 * n + the (digit_of c)) 0 s)
           else Inl ValueError)
      | _ \<Rightarrow> Inl TypeError)"

text \<open>\<^verbatim>\<open>sep.join(words)\<close>.\<close>

fun join :: "string \<Rightarrow> string list \<Rightarrow> string" where
  "join sep [] = []"
| "join sep [w] = w"
| "join sep (w # ws) = w @ sep @ join sep ws"

definition dq :: string where
  "dq = [CHR 0x22]"

section \<open>The admin interface behind the cursor\<close>

text \<open>
  The modules talk to ProxySQL through a \<^verbatim>\<open>MySQLdb\<close> dictionary cursor. The
  store is outside the repository; it is modelled as the staging tables the statements
  read and write, together with three things the modules cannot see into: the column
  defaults a new row gets, the statements the store refuses (with its diagnostic) and
  what a bulk \<^verbatim>\<open>LOAD\<close>/\<^verbatim>\<open>SAVE\<close> command does to the staging tables. The cursor
  keeps every statement sent, the row count and the rows not yet fetched.
\<close>

type_synonym row = "(string \<times> pyval) list"
type_synonym tables = "(string \<times> row list) list"

record cursor =
  tables :: tables
  defaults :: "string \<Rightarrow> row"
  rejects :: "tables \<Rightarrow> string \<Rightarrow> pyval list \<Rightarrow> string option"
  bulk :: "string list \<Rightarrow> tables \<Rightarrow> tables"
  sent :: "(string \<times> pyval list \<times> bool) list"
  rowcount :: int
  fetched :: "row list"

type_synonym 'a io = "cursor \<Rightarrow> (error + 'a) \<times> cursor"

definition return_io :: "'a \<Rightarrow> 'a io" where
  "return_io x c = (Inr x, c)"

definition raise_io :: "error \<Rightarrow> 'a io" where
  "raise_io e c = (Inl e, c)"

definition bind_io :: "'a io \<Rightarrow> ('a \<Rightarrow> 'b io) \<Rightarrow> 'b io" where
  "bind_io m f c = (case m c of (Inl e, c') \<Rightarrow> (Inl e, c') | (Inr x, c') \<Rightarrow> f x c')"

definition lift_io :: "error + 'a \<Rightarrow> 'a io" where
  "lift_io r c = (r, c)"

text \<open>\<^verbatim>\<open>try: ... except MySQLdb.Error: module.fail_json(msg=text % e)\<close>.\<close>

definition except_MySQLdb_Error :: "'a io \<Rightarrow> string \<Rightarrow> 'a io" where
  "except_MySQLdb_Error m text c =
     (case m c of
        (Inl (MySQLdb_Error e), c') \<Rightarrow> (Inl (Fail_json (text @ e)), c')
      | r \<Rightarrow> r)"

subsection \<open>Reading a statement\<close>

text \<open>
  The store reads the statement text: words are separated by blanks and line breaks,
  and parentheses, commas and the equals sign stand alone.
\<close>

definition is_space :: "char \<Rightarrow> bool" where
  "is_space c = (c = CHR '' '' \<or> c = CHR 0x0A)"

definition is_punct :: "char \<Rightarrow> bool" where
  "is_punct c = (c = CHR ''('' \<or> c = CHR '')'' \<or> c = CHR '','' \<or> c = CHR ''='')"

definition flush :: "string \<Rightarrow> string list" where
  "flush w = (if w = [] then [] else [w])"

fun tokenize :: "string \<Rightarrow> string \<Rightarrow> string list" where
  "tokenize w [] = flush w"
| "tokenize w (c # cs) =
     (if is_space c then flush w @ tokenize [] cs
      else if is_punct c then flush w @ [c] # tokenize [] cs
      else tokenize (w @ [c]) cs)"

datatype stmt =
    Select_count string string "(string \<times> pyval) list"
  | Select_rows string "(string \<times> pyval) list"
  | Insert_into string "(string \<times> pyval) list"
  | Update_set string "(string \<times> pyval) list" "(string \<times> pyval) list"
  | Delete_from string "(string \<times> pyval) list"
  | Bulk "string list"

text \<open>
  A \<^verbatim>\<open>WHERE\<close> clause \<^verbatim>\<open>col = %s AND col = %s ...\<close>; each placeholder takes the
  next value of the statement's data.
\<close>

fun conds :: "string list \<Rightarrow> pyval list \<Rightarrow> (string \<times> pyval) list option" where
  "conds [col, eq, ph] [v] = (if eq = ''='' \<and> ph = ''%s'' then Some [(col, v)] else None)"
| "conds (col # eq # ph # k # ts) (v # vs) =
     (if eq = ''='' \<and> ph = ''%s'' \<and> (k = ''AND'' \<or> k = ''and'')
      then map_option ((#) (col, v)) (conds ts vs) else None)"
| "conds _ _ = None"

text \<open>The assignments of an \<^verbatim>\<open>UPDATE\<close>, up to its \<^verbatim>\<open>WHERE\<close>.\<close>

fun assigns ::
  "string list \<Rightarrow> pyval list \<Rightarrow> ((string \<times> pyval) list \<times> string list \<times> pyval list) option"
where
  "assigns (col # eq # ph # k # ts) (v # vs) =
     (if eq = ''='' \<and> ph = ''%s'' then
        (if k = '','' then
           (case assigns ts vs of
              None \<Rightarrow> None
            | Some (as, ts', vs') \<Rightarrow> Some ((col, v) # as, ts', vs'))
         else if k = ''WHERE'' then Some ([(col, v)], ts, vs)
         else None)
      else None)"
| "assigns _ _ = None"

text \<open>A comma-separated list closed by a parenthesis.\<close>

fun idents :: "string list \<Rightarrow> (string list \<times> string list) option" where
  "idents (c # k # ts) =
     (if k = '','' then
        (case idents ts of None \<Rightarrow> None | Some (cs, r) \<Rightarrow> Some (c # cs, r))
      else if k = '')'' then Some ([c], ts)
      else None)"
| "idents _ = None"

definition unquote :: "string \<Rightarrow> string" where
  "unquote s = filter (\<lambda>c. c \<noteq> CHR 0x60) s"

definition select_rows_stmt :: "string list \<Rightarrow> pyval list \<Rightarrow> stmt option" where
  "select_rows_stmt ts d =
     (case ts of
        star # fr # t # wh # cs \<Rightarrow>
          (if star = ''*'' \<and> fr = ''FROM'' \<and> wh = ''WHERE''
           then map_option (Select_rows t) (conds cs d) else None)
      | _ \<Rightarrow> None)"

definition select_count_stmt :: "string list \<Rightarrow> pyval list \<Rightarrow> stmt option" where
  "select_count_stmt ts d =
     (case ts of
        cnt # lp # star # rp # as # alias # fr # t # wh # cs \<Rightarrow>
          (if cnt = ''count'' \<and> lp = ''('' \<and> star = ''*'' \<and> rp = '')'' \<and> as = ''AS''
              \<and> fr = ''FROM'' \<and> wh = ''WHERE''
           then map_option (Select_count (unquote alias) t) (conds cs d) else None)
      | _ \<Rightarrow> None)"

definition insert_stmt :: "string list \<Rightarrow> pyval list \<Rightarrow> stmt option" where
  "insert_stmt ts d =
     (case ts of
        into # t # lp # cs \<Rightarrow>
          (if into = ''INTO'' \<and> lp = ''('' then
             (case idents cs of
                Some (cols, vals # lp' # ps) \<Rightarrow>
                  (if vals = ''VALUES'' \<and> lp' = ''('' then
                     (case idents ps of
                        Some (phs, []) \<Rightarrow>
                          (if list_all (\<lambda>p. p = ''%s'') phs \<and> length phs = length cols
                              \<and> length d = length cols
                           then Some (Insert_into t (zip cols d)) else None)
                      | _ \<Rightarrow> None)
                   else None)
              | _ \<Rightarrow> None)
           else None)
      | _ \<Rightarrow> None)"

definition update_stmt :: "string list \<Rightarrow> pyval list \<Rightarrow> stmt option" where
  "update_stmt ts d =
     (case ts of
        t # kw # as \<Rightarrow>
          (if kw = ''SET'' then
             (case assigns as d of
                None \<Rightarrow> None
              | Some (kvs, cs, d') \<Rightarrow> map_option (Update_set t kvs) (conds cs d'))
           else None)
      | _ \<Rightarrow> None)"

definition delete_stmt :: "string list \<Rightarrow> pyval list \<Rightarrow> stmt option" where
  "delete_stmt ts d =
     (case ts of
        fr # t # wh # cs \<Rightarrow>
          (if fr = ''FROM'' \<and> wh = ''WHERE'' then map_option (Delete_from t) (conds cs d)
           else None)
      | _ \<Rightarrow> None)"

definition statement :: "string list \<Rightarrow> pyval list \<Rightarrow> stmt option" where
  "statement ts d =
     (case ts of
        [] \<Rightarrow> None
      | k # ts' \<Rightarrow>
          (if k = ''SELECT'' then
             (case select_rows_stmt ts' d of
                Some s \<Rightarrow> Some s
              | None \<Rightarrow> select_count_stmt ts' d)
           else if k = ''INSERT'' then insert_stmt ts' d
           else if k = ''UPDATE'' then update_stmt ts' d
           else if k = ''DELETE'' then delete_stmt ts' d
           else if k = ''LOAD'' \<or> k = ''SAVE'' then Some (Bulk ts)
           else None))"

subsection \<open>Running a statement\<close>

text \<open>
  \<^verbatim>\<open>MySQLdb\<close> sends \<^verbatim>\<open>True\<close> and \<^verbatim>\<open>False\<close> as 1 and 0. A condition
  \<^verbatim>\<open>col = v\<close> holds of a row when the column is there, is not null and equals the value.
\<close>

fun literal :: "pyval \<Rightarrow> pyval" where
  "literal (PBool b) = PInt (if b then 1 else 0)"
| "literal v = v"

definition matches :: "(string \<times> pyval) list \<Rightarrow> row \<Rightarrow> bool" where
  "matches cs r =
     list_all (\<lambda>(col, v). case map_of r col of None \<Rightarrow> False | Some x \<Rightarrow> x \<noteq> PNone \<and> x = v) cs"

definition assign :: "(string \<times> pyval) list \<Rightarrow> row \<Rightarrow> row" where
  "assign kvs r = fold (\<lambda>(col, v). AList.update col v) kvs r"

definition no_such_table :: "string \<Rightarrow> unit io" where
  "no_such_table t = raise_io (MySQLdb_Error (''no such table: '' @ t))"

fun run :: "stmt \<Rightarrow> unit io" where
  "run (Select_count alias t cs) c =
     (case map_of (tables c) t of
        None \<Rightarrow> no_such_table t c
      | Some rs \<Rightarrow>
          (Inr (), c\<lparr>rowcount := 1,
                     fetched := [[(alias, PInt (int (length (filter (matches cs) rs))))]]\<rparr>))"
| "run (Select_rows t cs) c =
     (case map_of (tables c) t of
        None \<Rightarrow> no_such_table t c
      | Some rs \<Rightarrow>
          (Inr (), c\<lparr>rowcount := int (length (filter (matches cs) rs)),
                     fetched := filter (matches cs) rs\<rparr>))"
| "run (Insert_into t kvs) c =
     (case map_of (tables c) t of
        None \<Rightarrow> no_such_table t c
      | Some rs \<Rightarrow>
          (Inr (), c\<lparr>tables := AList.update t (rs @ [assign kvs (defaults c t)]) (tables c),
                     rowcount := 1, fetched := []\<rparr>))"
| "run (Update_set t kvs cs) c =
     (case map_of (tables c) t of
        None \<Rightarrow> no_such_table t c
      | Some rs \<Rightarrow>
          (Inr (), c\<lparr>tables :=
                       AList.update t (map (\<lambda>r. if matches cs r then assign kvs r else r) rs)
                         (tables c),
                     rowcount := int (length (filter (matches cs) rs)), fetched := []\<rparr>))"
| "run (Delete_from t cs) c =
     (case map_of (tables c) t of
        None \<Rightarrow> no_such_table t c
      | Some rs \<Rightarrow>
          (Inr (), c\<lparr>tables := AList.update t (filter (\<lambda>r. \<not> matches cs r) rs) (tables c),
                     rowcount := int (length (filter (matches cs) rs)), fetched := []\<rparr>))"
| "run (Bulk ws) c =
     (Inr (), c\<lparr>tables := bulk c ws (tables c), rowcount := 0, fetched := []\<rparr>)"

text \<open>
  What the store does with a statement: it refuses it, cannot read it, or runs it.
\<close>

definition perform :: "string \<Rightarrow> pyval list \<Rightarrow> unit io" where
  "perform query_string query_data c =
     (case rejects c (tables c) query_string query_data of
        Some e \<Rightarrow> (Inl (MySQLdb_Error e), c)
      | None \<Rightarrow>
          (case statement (tokenize [] query_string) (map literal query_data) of
             None \<Rightarrow> (Inl (MySQLdb_Error ''syntax error''), c)
           | Some st \<Rightarrow> run st c))"

definition ran :: "error + 'a \<Rightarrow> bool" where
  "ran r = (case r of Inl _ \<Rightarrow> False | Inr _ \<Rightarrow> True)"

text \<open>
  \<^verbatim>\<open>cursor.execute(query_string, query_data)\<close>: the statement is recorded as sent,
  with whether the store ran it.
\<close>

definition execute :: "string \<Rightarrow> pyval list \<Rightarrow> unit io" where
  "execute query_string query_data c =
     (case perform query_string query_data c of
        (r, c') \<Rightarrow> (r, c'\<lparr>sent := sent c @ [(query_string, query_data, ran r)]\<rparr>))"

definition fetchone :: "pyval io" where
  "fetchone c =
     (case fetched c of
        [] \<Rightarrow> (Inr PNone, c)
      | r # rs \<Rightarrow> (Inr (PDict r), c\<lparr>fetched := rs\<rparr>))"

definition fetchall :: "pyval io" where
  "fetchall c = (Inr (PTuple (map PDict (fetched c))), c\<lparr>fetched := []\<rparr>)"

definition get_rowcount :: "int io" where
  "get_rowcount c = (Inr (rowcount c), c)"

section \<open>What a run of a module leaves behind\<close>

text \<open>
  The result dictionary of \<^verbatim>\<open>exit_json\<close>, and the state of the connection when the
  module exits: \<^verbatim>\<open>mysql_connect\<close> was never called, it raised, or it gave a cursor
  (shown as the module left it).
\<close>

type_synonym result = "string \<rightharpoonup> pyval"

datatype link = Not_connected | Connect_failed | Connected cursor

record ansible_module =
  login_port :: int
  check_mode :: bool
  mysqldb_found :: bool
  hash :: "string \<Rightarrow> nat"

text \<open>
  \<^verbatim>\<open>main\<close> is the same frame in the four modules: the checks, the connection,
  the body on the cursor.
\<close>

definition run_module ::
  "error + unit \<Rightarrow> string + cursor \<Rightarrow> result io \<Rightarrow> (error + result) \<times> link" where
  "run_module checks conn body =
     (case checks of
        Inl e \<Rightarrow> (Inl e, Not_connected)
      | Inr _ \<Rightarrow>
          (case conn of
             Inl e \<Rightarrow>
               (Inl (Fail_json (''unable to connect to ProxySQL Admin Module.. '' @ e)),
                Connect_failed)
           | Inr cursor \<Rightarrow> (case body cursor of (r, c') \<Rightarrow> (r, Connected c'))))"

section \<open>proxysql\_manage\_config\<close>

record config_module = ansible_module +
  action :: string
  config_settings :: "string option"
  direction :: string
  config_layer :: "string option"

definition perform_checks_config :: "config_module \<Rightarrow> error + unit" where
  "perform_checks_config m =
     (if login_port m < 0 \<or> login_port m > 65535 then
        Inl (Fail_json ''login_port must be a valid unix port number (0-65535)'')
      else if config_layer m = Some ''CONFIG''
              \<and> (action m \<noteq> ''LOAD'' \<or> direction m \<noteq> ''FROM'') then
        (if action m \<noteq> ''LOAD'' \<and> direction m \<noteq> ''FROM'' then
           Inl (Fail_json (''Neither the action '' @ dq @ action m @ dq @ '' nor the direction''
             @ '' '' @ dq @ direction m @ dq @ '' are valid combination with the CONFIG''
             @ '' config_layer''))
         else if action m \<noteq> ''LOAD'' then
           Inl (Fail_json (''The action '' @ dq @ action m @ dq @ '' is not a valid combination''
             @ '' with the CONFIG config_layer''))
         else
           Inl (Fail_json (''The direction '' @ dq @ direction m @ dq
             @ '' is not a valid combination'' @ '' with the CONFIG config_layer'')))
      else if \<not> mysqldb_found m then
        Inl (Fail_json ''the python mysqldb module is required'')
      else Inr ())"

definition manage_config :: "string option list \<Rightarrow> bool io" where
  "manage_config manage_config_settings =
     (case those manage_config_settings of
        None \<Rightarrow> raise_io TypeError
      | Some ws \<Rightarrow>
          (let query_string = join '' '' ws in
           bind_io (execute query_string []) (\<lambda>_. return_io True)))"

definition main_config :: "config_module \<Rightarrow> string + cursor \<Rightarrow> (error + result) \<times> link" where
  "main_config m conn =
     run_module (perform_checks_config m) conn
       (let manage_config_settings =
              [Some (action m), config_settings m, Some (direction m), config_layer m] in
        except_MySQLdb_Error
          (bind_io (manage_config manage_config_settings)
             (\<lambda>changed. return_io (Map.empty(''changed'' \<mapsto> PBool changed))))
          ''unable to manage config.. '')"

section \<open>proxysql\_global\_variables\<close>

definition perform_checks :: "'a ansible_module_scheme \<Rightarrow> error + unit" where
  "perform_checks m =
     (if login_port m < 0 \<or> login_port m > 65535 then
        Inl (Fail_json ''login_port must be a valid unix port number (0-65535)'')
      else if \<not> mysqldb_found m then
        Inl (Fail_json ''the python mysqldb module is required'')
      else Inr ())"

definition save_config_to_disk_variables :: "string \<Rightarrow> bool io" where
  "save_config_to_disk_variables variable =
     bind_io
       (if prefix ''admin'' variable then execute ''SAVE ADMIN VARIABLES TO DISK'' []
        else execute ''SAVE MYSQL VARIABLES TO DISK'' [])
       (\<lambda>_. return_io True)"

definition load_config_to_runtime_variables :: "string \<Rightarrow> bool io" where
  "load_config_to_runtime_variables variable =
     bind_io
       (if prefix ''admin'' variable then execute ''LOAD ADMIN VARIABLES TO RUNTIME'' []
        else execute ''LOAD MYSQL VARIABLES TO RUNTIME'' [])
       (\<lambda>_. return_io True)"

definition check_config_query :: string where
  "check_config_query =
     ''SELECT count(*) AS `variable_count`\<newline>'' @
     ''           FROM global_variables\<newline>'' @
     ''           WHERE variable_name = %s and variable_value = %s''"

definition check_config :: "string \<Rightarrow> pyval \<Rightarrow> bool io" where
  "check_config variable value =
     (let query_string = check_config_query;
          query_data = [PStr variable, value] in
      bind_io (execute query_string query_data) (\<lambda>_.
      bind_io fetchone (\<lambda>check_count.
      bind_io (lift_io (subscript check_count ''variable_count'')) (\<lambda>n.
      bind_io (lift_io (py_int n)) (\<lambda>n.
      return_io (n > 0))))))"

definition get_config_query :: string where
  "get_config_query =
     ''SELECT *\<newline>'' @
     ''           FROM global_variables\<newline>'' @
     ''           WHERE variable_name = %s''"

definition get_config :: "string \<Rightarrow> pyval io" where
  "get_config variable =
     (let query_string = get_config_query;
          query_data = [PStr variable] in
      bind_io (execute query_string query_data) (\<lambda>_.
      bind_io get_rowcount (\<lambda>row_count.
      bind_io fetchone (\<lambda>resultset.
      if row_count > 0 then return_io resultset else return_io (PBool False)))))"

definition set_config_query :: string where
  "set_config_query =
     ''UPDATE global_variables\<newline>'' @
     ''           SET variable_value = %s\<newline>'' @
     ''           WHERE variable_name = %s''"

definition set_config :: "string \<Rightarrow> pyval \<Rightarrow> bool io" where
  "set_config variable value =
     (let query_string = set_config_query;
          query_data = [value, PStr variable] in
      bind_io (execute query_string query_data) (\<lambda>_. return_io True))"

definition manage_config_variables :: "string \<Rightarrow> bool \<Rightarrow> bool \<Rightarrow> pyval \<Rightarrow> unit io" where
  "manage_config_variables variable save_to_disk load_to_runtime state =
     (if truthy state then
        bind_io
          (if save_to_disk then
             bind_io (save_config_to_disk_variables variable) (\<lambda>_. return_io ())
           else return_io ())
          (\<lambda>_. if load_to_runtime then
                 bind_io (load_config_to_runtime_variables variable) (\<lambda>_. return_io ())
               else return_io ())
      else return_io ())"

record crud_module = ansible_module +
  save_to_disk :: bool
  load_to_runtime :: bool

text \<open>\<^verbatim>\<open>val\<close> is \<^verbatim>\<open>module.params["value"]\<close>, which the argument spec leaves untyped.\<close>

record variables_module = crud_module +
  variable :: string
  val :: pyval

definition not_found :: "string \<Rightarrow> error" where
  "not_found name = Fail_json (''The variable '' @ dq @ name @ dq @ '' was not found'')"

definition main_variables ::
  "variables_module \<Rightarrow> string + cursor \<Rightarrow> (error + result) \<times> link" where
  "main_variables m conn =
     run_module (perform_checks m) conn
       (let result = Map.empty in
        if \<not> truthy (val m) then
          except_MySQLdb_Error
            (bind_io (get_config (variable m)) (\<lambda>found.
             if truthy found then
               (let result = result(''changed'' \<mapsto> PBool False);
                    result = result(''msg'' \<mapsto>
                      PStr ''Returned the variable and it's current value'') in
                bind_io (get_config (variable m)) (\<lambda>var.
                return_io (result(''var'' \<mapsto> var))))
             else raise_io (not_found (variable m))))
            ''unable to get config.. ''
        else
          except_MySQLdb_Error
            (bind_io (get_config (variable m)) (\<lambda>found.
             if truthy found then
               bind_io (check_config (variable m) (val m)) (\<lambda>same.
               if \<not> same then
                 (if \<not> check_mode m then
                    bind_io (set_config (variable m) (val m)) (\<lambda>changed.
                    let result = result(''changed'' \<mapsto> PBool changed);
                        result = result(''msg'' \<mapsto>
                          PStr ''Set the variable to the supplied value'') in
                    bind_io (get_config (variable m)) (\<lambda>var.
                    let result = result(''var'' \<mapsto> var) in
                    bind_io
                      (manage_config_variables (variable m) (save_to_disk m)
                         (load_to_runtime m) (PBool changed))
                      (\<lambda>_. return_io result)))
                  else
                    return_io (result(''changed'' \<mapsto> PBool True, ''msg'' \<mapsto>
                      PStr (''Variable would have been set to'' @
                            '' the supplied value, however'' @
                            '' check_mode is enabled.''))))
               else
                 (let result = result(''changed'' \<mapsto> PBool False);
                      result = result(''msg'' \<mapsto>
                        PStr (''The variable is already been set to'' @
                              '' the supplied value'')) in
                  bind_io (get_config (variable m)) (\<lambda>var.
                  return_io (result(''var'' \<mapsto> var)))))
             else raise_io (not_found (variable m))))
            ''unable to set config.. '')"

section \<open>proxysql\_mysql\_users\<close>

text \<open>
  \<^verbatim>\<open>config_data\<close> is a Python 2 dictionary, and the methods walk it with
  \<^verbatim>\<open>iteritems()\<close>: the items come in the order of the interpreter's hash table, which
  neither the module nor the order of \<^verbatim>\<open>config_data_keys\<close> fixes. The model keeps
  the dictionary as the list of its items in that order; \<^verbatim>\<open>hash\<close> places each key.
\<close>

definition iteritems :: "(string \<Rightarrow> nat) \<Rightarrow> (string \<times> 'v) list \<Rightarrow> (string \<times> 'v) list" where
  "iteritems h d = sort_key (\<lambda>(k, v). h k) d"

definition save_config_to_disk_users :: "bool io" where
  "save_config_to_disk_users =
     bind_io (execute ''SAVE MYSQL USERS TO DISK'' []) (\<lambda>_. return_io True)"

definition load_config_to_runtime_users :: "bool io" where
  "load_config_to_runtime_users =
     bind_io (execute ''LOAD MYSQL USERS TO RUNTIME'' []) (\<lambda>_. return_io True)"

record state_module = crud_module +
  state :: string

record users_module = state_module +
  username :: string
  password :: "string option"
  active :: "bool option"
  use_ssl :: "bool option"
  default_hostgroup :: "int option"
  default_schema :: "string option"
  transaction_persistent :: "bool option"
  fast_forward :: "bool option"
  backend :: bool
  frontend :: bool
  max_connections :: "int option"

text \<open>
  A \<^verbatim>\<open>ProxySQLUser\<close> holds the parameters \<^verbatim>\<open>__init__\<close> copies from the module and
  the dictionary it builds from the optional ones.
\<close>

record ProxySQLUser = users_module +
  config_data :: "(string \<times> pyval) list"

definition optional :: "('a \<Rightarrow> pyval) \<Rightarrow> 'a option \<Rightarrow> pyval" where
  "optional f x = (case x of None \<Rightarrow> PNone | Some y \<Rightarrow> f y)"

definition ProxySQLUser_init :: "users_module \<Rightarrow> ProxySQLUser" where
  "ProxySQLUser_init m =
     users_module.extend m
       (ProxySQLUser.fields
          (iteritems (hash m)
             [(''password'', optional PStr (password m)),
              (''active'', optional PBool (active m)),
              (''use_ssl'', optional PBool (use_ssl m)),
              (''default_hostgroup'', optional PInt (default_hostgroup m)),
              (''default_schema'', optional PStr (default_schema m)),
              (''transaction_persistent'', optional PBool (transaction_persistent m)),
              (''fast_forward'', optional PBool (fast_forward m)),
              (''max_connections'', optional PInt (max_connections m))]))"

definition user_count_query :: string where
  "user_count_query =
     ''SELECT count(*) AS `user_count`\<newline>'' @
     ''               FROM mysql_users\<newline>'' @
     ''               WHERE username = %s\<newline>'' @
     ''                 AND backend = %s\<newline>'' @
     ''                 AND frontend = %s''"

definition check_user_config_exists :: "ProxySQLUser \<Rightarrow> bool io" where
  "check_user_config_exists self =
     (let query_string = user_count_query;
          query_data = [PStr (username self), PBool (backend self), PBool (frontend self)] in
      bind_io (execute query_string query_data) (\<lambda>_.
      bind_io fetchone (\<lambda>check_count.
      bind_io (lift_io (subscript check_count ''user_count'')) (\<lambda>n.
      bind_io (lift_io (py_int n)) (\<lambda>n.
      return_io (n > 0))))))"

text \<open>
  The loop \<^verbatim>\<open>for col, val in self.config_data.iteritems(): if val is not None: ...\<close>
  that adds a condition for every attribute given.
\<close>

definition and_conditions ::
  "(string \<times> pyval) list \<Rightarrow> string \<times> pyval list \<Rightarrow> string \<times> pyval list" where
  "and_conditions items start =
     fold (\<lambda>(col, val) (query_string, query_data).
             if val \<noteq> PNone
             then (query_string @ ''\<newline>  AND '' @ col @ '' = %s'', query_data @ [val])
             else (query_string, query_data))
          items start"

definition check_user_privs_request :: "ProxySQLUser \<Rightarrow> string \<times> pyval list" where
  "check_user_privs_request self =
     (let query_string = user_count_query;
          query_data = [PStr (username self), PBool (backend self), PBool (frontend self)] in
      and_conditions (config_data self) (query_string, query_data))"

definition check_user_privs :: "ProxySQLUser \<Rightarrow> bool io" where
  "check_user_privs self =
     (case check_user_privs_request self of (query_string, query_data) \<Rightarrow>
      bind_io (execute query_string query_data) (\<lambda>_.
      bind_io fetchone (\<lambda>check_count.
      bind_io (lift_io (subscript check_count ''user_count'')) (\<lambda>n.
      bind_io (lift_io (py_int n)) (\<lambda>n.
      return_io (n > 0))))))"

definition get_user_config_query :: string where
  "get_user_config_query =
     ''SELECT *\<newline>'' @
     ''               FROM mysql_users\<newline>'' @
     ''               WHERE username = %s\<newline>'' @
     ''                 AND backend = %s\<newline>'' @
     ''                 AND frontend = %s''"

definition get_user_config :: "ProxySQLUser \<Rightarrow> pyval io" where
  "get_user_config self =
     (let query_string = get_user_config_query;
          query_data = [PStr (username self), PBool (backend self), PBool (frontend self)] in
      bind_io (execute query_string query_data) (\<lambda>_. fetchone))"

definition create_user_config_request :: "ProxySQLUser \<Rightarrow> string \<times> pyval list" where
  "create_user_config_request self =
     (let query_string =
            ''INSERT INTO mysql_users (\<newline>'' @
            ''               username,\<newline>'' @
            ''               backend,\<newline>'' @
            ''               frontend'';
          cols = (3 :: nat);
          query_data = [PStr (username self), PBool (backend self), PBool (frontend self)] in
      case fold (\<lambda>(col, val) (cols, query_string, query_data).
                   if val \<noteq> PNone
                   then (cols + 1, query_string @ '',\<newline>'' @ col, query_data @ [val])
                   else (cols, query_string, query_data))
                (config_data self) (cols, query_string, query_data)
      of (cols, query_string, query_data) \<Rightarrow>
        (let query_string =
               query_string @ ('')\<newline>'' @ ''VALUES ('' @ concat (replicate cols ''%s ,''));
             query_string = take (length query_string - 2) query_string;
             query_string = query_string @ '')'' in
         (query_string, query_data)))"

definition create_user_config :: "ProxySQLUser \<Rightarrow> bool io" where
  "create_user_config self =
     (case create_user_config_request self of (query_string, query_data) \<Rightarrow>
      bind_io (execute query_string query_data) (\<lambda>_. return_io True))"

definition update_user_config_request :: "ProxySQLUser \<Rightarrow> string \<times> pyval list" where
  "update_user_config_request self =
     (let query_string = ''UPDATE mysql_users'';
          cols = (0 :: nat);
          query_data = [] in
      case fold (\<lambda>(col, val) (cols, query_string, query_data).
                   if val \<noteq> PNone then
                     (let cols = cols + 1;
                          query_data = query_data @ [val] in
                      if cols = 1
                      then (cols, query_string @ ''\<newline>SET '' @ col @ ''= %s,'', query_data)
                      else (cols, query_string @ ''\<newline>    '' @ col @ '' = %s,'', query_data))
                   else (cols, query_string, query_data))
                (config_data self) (cols, query_string, query_data)
      of (cols, query_string, query_data) \<Rightarrow>
        (let query_string = take (length query_string - 1) query_string;
             query_string =
               query_string @ (''\<newline>WHERE username = %s\<newline>  AND backend = %s'' @
                               ''\<newline>  AND frontend = %s'');
             query_data = query_data @ [PStr (username self)];
             query_data = query_data @ [PBool (backend self)];
             query_data = query_data @ [PBool (frontend self)] in
         (query_string, query_data)))"

definition update_user_config :: "ProxySQLUser \<Rightarrow> bool io" where
  "update_user_config self =
     (case update_user_config_request self of (query_string, query_data) \<Rightarrow>
      bind_io (execute query_string query_data) (\<lambda>_. return_io True))"

definition delete_user_config_query :: string where
  "delete_user_config_query =
     ''DELETE FROM mysql_users\<newline>'' @
     ''               WHERE username = %s\<newline>'' @
     ''                 AND backend = %s\<newline>'' @
     ''                 AND frontend = %s''"

definition delete_user_config :: "ProxySQLUser \<Rightarrow> bool io" where
  "delete_user_config self =
     (let query_string = delete_user_config_query;
          query_data = [PStr (username self), PBool (backend self), PBool (frontend self)] in
      bind_io (execute query_string query_data) (\<lambda>_. return_io True))"

definition manage_config_users :: "ProxySQLUser \<Rightarrow> pyval \<Rightarrow> unit io" where
  "manage_config_users self changed =
     (if truthy changed then
        bind_io
          (if save_to_disk self then
             bind_io save_config_to_disk_users (\<lambda>_. return_io ())
           else return_io ())
          (\<lambda>_. if load_to_runtime self then
                 bind_io load_config_to_runtime_users (\<lambda>_. return_io ())
               else return_io ())
      else return_io ())"

definition create_user :: "ProxySQLUser \<Rightarrow> bool \<Rightarrow> result \<Rightarrow> result io" where
  "create_user self check_mode' result =
     (if \<not> check_mode' then
        bind_io (create_user_config self) (\<lambda>changed.
        let result = result(''changed'' \<mapsto> PBool changed);
            result = result(''msg'' \<mapsto> PStr ''Added user to mysql_users'') in
        bind_io (get_user_config self) (\<lambda>user.
        let result = result(''user'' \<mapsto> user) in
        bind_io (manage_config_users self (PBool changed)) (\<lambda>_.
        return_io result)))
      else
        return_io (result(''changed'' \<mapsto> PBool True, ''msg'' \<mapsto>
          PStr (''User would have been added to'' @
                '' mysql_users, however check_mode'' @
                '' is enabled.''))))"

definition update_user :: "ProxySQLUser \<Rightarrow> bool \<Rightarrow> result \<Rightarrow> result io" where
  "update_user self check_mode' result =
     (if \<not> check_mode' then
        bind_io (update_user_config self) (\<lambda>changed.
        let result = result(''changed'' \<mapsto> PBool changed);
            result = result(''msg'' \<mapsto> PStr ''Updated user in mysql_users'') in
        bind_io (get_user_config self) (\<lambda>user.
        let result = result(''user'' \<mapsto> user) in
        bind_io (manage_config_users self (PBool changed)) (\<lambda>_.
        return_io result)))
      else
        return_io (result(''changed'' \<mapsto> PBool True, ''msg'' \<mapsto>
          PStr (''User would have been updated in'' @
                '' mysql_users, however check_mode'' @
                '' is enabled.''))))"

definition delete_user :: "ProxySQLUser \<Rightarrow> bool \<Rightarrow> result \<Rightarrow> result io" where
  "delete_user self check_mode' result =
     (if \<not> check_mode' then
        bind_io (get_user_config self) (\<lambda>user.
        let result = result(''user'' \<mapsto> user) in
        bind_io (delete_user_config self) (\<lambda>changed.
        let result = result(''changed'' \<mapsto> PBool changed);
            result = result(''msg'' \<mapsto> PStr ''Deleted user from mysql_users'') in
        bind_io (manage_config_users self (PBool changed)) (\<lambda>_.
        return_io result)))
      else
        return_io (result(''changed'' \<mapsto> PBool True, ''msg'' \<mapsto>
          PStr (''User would have been deleted from'' @
                '' mysql_users, however check_mode is'' @
                '' enabled.''))))"

definition main_users :: "users_module \<Rightarrow> string + cursor \<Rightarrow> (error + result) \<times> link" where
  "main_users m conn =
     run_module (perform_checks m) conn
       (let proxysql_user = ProxySQLUser_init m;
            result = Map.empty;
            result = result(''state'' \<mapsto> PStr (state proxysql_user));
            result = (if username proxysql_user \<noteq> []
                      then result(''username'' \<mapsto> PStr (username proxysql_user))
                      else result) in
        if state proxysql_user = ''present'' then
          except_MySQLdb_Error
            (bind_io (check_user_privs proxysql_user) (\<lambda>privs.
             if \<not> privs then
               bind_io (check_user_config_exists proxysql_user) (\<lambda>exists.
               if \<not> exists then create_user proxysql_user (check_mode m) result
               else update_user proxysql_user (check_mode m) result)
             else
               (let result = result(''changed'' \<mapsto> PBool False);
                    result = result(''msg'' \<mapsto>
                      PStr (''The user already exists in mysql_users'' @
                            '' and doesn't need to be updated.'')) in
                bind_io (get_user_config proxysql_user) (\<lambda>user.
                return_io (result(''user'' \<mapsto> user))))))
            ''unable to modify user.. ''
        else if state proxysql_user = ''absent'' then
          except_MySQLdb_Error
            (bind_io (check_user_config_exists proxysql_user) (\<lambda>exists.
             if exists then delete_user proxysql_user (check_mode m) result
             else
               return_io (result(''changed'' \<mapsto> PBool False, ''msg'' \<mapsto>
                 PStr (''The user is already absent from the'' @
                       '' mysql_users memory configuration'')))))
            ''unable to remove user.. ''
        else return_io result)"

section \<open>proxysql\_scheduler\<close>

definition save_config_to_disk_scheduler :: "bool io" where
  "save_config_to_disk_scheduler =
     bind_io (execute ''SAVE SCHEDULER TO DISK'' []) (\<lambda>_. return_io True)"

definition load_config_to_runtime_scheduler :: "bool io" where
  "load_config_to_runtime_scheduler =
     bind_io (execute ''LOAD SCHEDULER TO RUNTIME'' []) (\<lambda>_. return_io True)"

record scheduler_module = state_module +
  force_delete :: bool
  active :: bool
  interval_ms :: int
  filename :: string
  arg1 :: "string option"
  arg2 :: "string option"
  arg3 :: "string option"
  arg4 :: "string option"
  arg5 :: "string option"
  comment :: "string option"

record ProxySQLSchedule = scheduler_module +
  config_data :: "(string \<times> pyval) list"

definition perform_checks_scheduler :: "scheduler_module \<Rightarrow> error + unit" where
  "perform_checks_scheduler m =
     (if login_port m < 0 \<or> login_port m > 65535 then
        Inl (Fail_json ''login_port must be a valid unix port number (0-65535)'')
      else if interval_ms m < 100 \<or> interval_ms m > 100000000 then
        Inl (Fail_json ''interval_ms must between 100ms & 100000000ms'')
      else if \<not> mysqldb_found m then
        Inl (Fail_json ''the python mysqldb module is required'')
      else Inr ())"

definition ProxySQLSchedule_init :: "scheduler_module \<Rightarrow> ProxySQLSchedule" where
  "ProxySQLSchedule_init m =
     scheduler_module.extend m
       (ProxySQLSchedule.fields
          (iteritems (hash m)
             [(''arg1'', optional PStr (arg1 m)),
              (''arg2'', optional PStr (arg2 m)),
              (''arg3'', optional PStr (arg3 m)),
              (''arg4'', optional PStr (arg4 m)),
              (''arg5'', optional PStr (arg5 m)),
              (''comment'', optional PStr (comment m))]))"

definition schedule_count_query :: string where
  "schedule_count_query =
     ''SELECT count(*) AS `schedule_count`\<newline>'' @
     ''               FROM scheduler\<newline>'' @
     ''               WHERE active = %s\<newline>'' @
     ''                 AND interval_ms = %s\<newline>'' @
     ''                 AND filename = %s''"

definition check_schedule_config_request :: "ProxySQLSchedule \<Rightarrow> string \<times> pyval list" where
  "check_schedule_config_request self =
     (let query_string = schedule_count_query;
          query_data = [PBool (active self), PInt (interval_ms self), PStr (filename self)] in
      and_conditions (config_data self) (query_string, query_data))"

definition check_schedule_config :: "ProxySQLSchedule \<Rightarrow> int io" where
  "check_schedule_config self =
     (case check_schedule_config_request self of (query_string, query_data) \<Rightarrow>
      bind_io (execute query_string query_data) (\<lambda>_.
      bind_io fetchone (\<lambda>check_count.
      bind_io (lift_io (subscript check_count ''schedule_count'')) (\<lambda>n.
      lift_io (py_int n)))))"

definition get_schedule_config_query :: string where
  "get_schedule_config_query =
     ''SELECT *\<newline>'' @
     ''               FROM scheduler\<newline>'' @
     ''               WHERE active = %s\<newline>'' @
     ''                 AND interval_ms = %s\<newline>'' @
     ''                 AND filename = %s''"

definition get_schedule_config_request :: "ProxySQLSchedule \<Rightarrow> string \<times> pyval list" where
  "get_schedule_config_request self =
     (let query_string = get_schedule_config_query;
          query_data = [PBool (active self), PInt (interval_ms self), PStr (filename self)] in
      and_conditions (config_data self) (query_string, query_data))"

definition get_schedule_config :: "ProxySQLSchedule \<Rightarrow> pyval io" where
  "get_schedule_config self =
     (case get_schedule_config_request self of (query_string, query_data) \<Rightarrow>
      bind_io (execute query_string query_data) (\<lambda>_. fetchall))"

definition create_schedule_config_request :: "ProxySQLSchedule \<Rightarrow> string \<times> pyval list" where
  "create_schedule_config_request self =
     (let query_string =
            ''INSERT INTO scheduler (\<newline>'' @
            ''               active,\<newline>'' @
            ''               interval_ms,\<newline>'' @
            ''               filename'';
          cols = (0 :: nat);
          query_data = [PBool (active self), PInt (interval_ms self), PStr (filename self)] in
      case fold (\<lambda>(col, val) (cols, query_string, query_data).
                   if val \<noteq> PNone
                   then (cols + 1, query_string @ '',\<newline>'' @ col, query_data @ [val])
                   else (cols, query_string, query_data))
                (config_data self) (cols, query_string, query_data)
      of (cols, query_string, query_data) \<Rightarrow>
        (let query_string =
               query_string @
               ('')\<newline>'' @ ''VALUES (%s, %s, %s'' @ concat (replicate cols '', %s'') @ '')'') in
         (query_string, query_data)))"

definition create_schedule_config :: "ProxySQLSchedule \<Rightarrow> bool io" where
  "create_schedule_config self =
     (case create_schedule_config_request self of (query_string, query_data) \<Rightarrow>
      bind_io (execute query_string query_data) (\<lambda>_. return_io True))"

definition delete_schedule_config_query :: string where
  "delete_schedule_config_query =
     ''DELETE FROM scheduler\<newline>'' @
     ''               WHERE active = %s\<newline>'' @
     ''                 AND interval_ms = %s\<newline>'' @
     ''                 AND filename = %s''"

definition delete_schedule_config_request :: "ProxySQLSchedule \<Rightarrow> string \<times> pyval list" where
  "delete_schedule_config_request self =
     (let query_string = delete_schedule_config_query;
          query_data = [PBool (active self), PInt (interval_ms self), PStr (filename self)] in
      and_conditions (config_data self) (query_string, query_data))"

text \<open>\<^verbatim>\<open>return True, int(check_count)\<close>: the method returns a pair.\<close>

definition delete_schedule_config :: "ProxySQLSchedule \<Rightarrow> pyval io" where
  "delete_schedule_config self =
     (case delete_schedule_config_request self of (query_string, query_data) \<Rightarrow>
      bind_io (execute query_string query_data) (\<lambda>_.
      bind_io get_rowcount (\<lambda>check_count.
      return_io (PTuple [PBool True, PInt check_count]))))"

definition manage_config_scheduler :: "ProxySQLSchedule \<Rightarrow> pyval \<Rightarrow> unit io" where
  "manage_config_scheduler self changed =
     (if truthy changed then
        bind_io
          (if save_to_disk self then
             bind_io save_config_to_disk_scheduler (\<lambda>_. return_io ())
           else return_io ())
          (\<lambda>_. if load_to_runtime self then
                 bind_io load_config_to_runtime_scheduler (\<lambda>_. return_io ())
               else return_io ())
      else return_io ())"

definition create_schedule :: "ProxySQLSchedule \<Rightarrow> bool \<Rightarrow> result \<Rightarrow> result io" where
  "create_schedule self check_mode' result =
     (if \<not> check_mode' then
        bind_io (create_schedule_config self) (\<lambda>changed.
        let result = result(''changed'' \<mapsto> PBool changed);
            result = result(''msg'' \<mapsto> PStr ''Added schedule to scheduler'') in
        bind_io (get_schedule_config self) (\<lambda>schedules.
        let result = result(''schedules'' \<mapsto> schedules) in
        bind_io (manage_config_scheduler self (PBool changed)) (\<lambda>_.
        return_io result)))
      else
        return_io (result(''changed'' \<mapsto> PBool True, ''msg'' \<mapsto>
          PStr (''Schedule would have been added to'' @
                '' scheduler, however check_mode'' @
                '' is enabled.''))))"

definition delete_schedule :: "ProxySQLSchedule \<Rightarrow> bool \<Rightarrow> result \<Rightarrow> result io" where
  "delete_schedule self check_mode' result =
     (if \<not> check_mode' then
        bind_io (get_schedule_config self) (\<lambda>schedules.
        let result = result(''schedules'' \<mapsto> schedules) in
        bind_io (delete_schedule_config self) (\<lambda>changed.
        let result = result(''changed'' \<mapsto> changed);
            result = result(''msg'' \<mapsto> PStr ''Deleted schedule from scheduler'') in
        bind_io (manage_config_scheduler self changed) (\<lambda>_.
        return_io result)))
      else
        return_io (result(''changed'' \<mapsto> PBool True, ''msg'' \<mapsto>
          PStr (''Schedule would have been deleted from'' @
                '' scheduler, however check_mode is'' @
                '' enabled.''))))"

definition main_scheduler ::
  "scheduler_module \<Rightarrow> string + cursor \<Rightarrow> (error + result) \<times> link" where
  "main_scheduler m conn =
     run_module (perform_checks_scheduler m) conn
       (let proxysql_schedule = ProxySQLSchedule_init m;
            result = Map.empty;
            result = result(''state'' \<mapsto> PStr (state proxysql_schedule));
            result = result(''filename'' \<mapsto> PStr (filename proxysql_schedule)) in
        if state proxysql_schedule = ''present'' then
          except_MySQLdb_Error
            (bind_io (check_schedule_config proxysql_schedule) (\<lambda>n.
             if \<not> n > 0 then create_schedule proxysql_schedule (check_mode m) result
             else
               (let result = result(''changed'' \<mapsto> PBool False);
                    result = result(''msg'' \<mapsto>
                      PStr (''The schedule already exists and doesn't'' @
                            '' need to be updated.'')) in
                bind_io (get_schedule_config proxysql_schedule) (\<lambda>schedules.
                return_io (result(''schedules'' \<mapsto> schedules))))))
            ''unable to modify schedule.. ''
        else if state proxysql_schedule = ''absent'' then
          except_MySQLdb_Error
            (bind_io (check_schedule_config proxysql_schedule) (\<lambda>existing_schedules.
             if existing_schedules > 0 then
               (if existing_schedules = 1 \<or> force_delete proxysql_schedule then
                  delete_schedule proxysql_schedule (check_mode m) result
                else
                  raise_io (Fail_json (''Operation would delete multiple records'' @
                                       '' use force_delete to override this'')))
             else
               return_io (result(''changed'' \<mapsto> PBool False, ''msg'' \<mapsto>
                 PStr (''The schedule is already absent from the'' @
                       '' memory configuration'')))))
            ''unable to remove schedule.. ''
        else return_io result)"

section \<open>Notions used in the statements\<close>

text \<open>
  The attributes a caller gave are the items of \<^verbatim>\<open>config_data\<close> that are not
  \<^verbatim>\<open>None\<close>; the store sees their values as \<^verbatim>\<open>MySQLdb\<close> sends them.
\<close>

definition given :: "(string \<times> pyval) list \<Rightarrow> (string \<times> pyval) list" where
  "given items = filter (\<lambda>(col, val). val \<noteq> PNone) items"

definition sql :: "(string \<times> pyval) list \<Rightarrow> (string \<times> pyval) list" where
  "sql items = map (\<lambda>(col, val). (col, literal val)) items"

definition user_key :: "ProxySQLUser \<Rightarrow> (string \<times> pyval) list" where
  "user_key self =
     [(''username'', PStr (username self)), (''backend'', PBool (backend self)),
      (''frontend'', PBool (frontend self))]"

definition schedule_key :: "ProxySQLSchedule \<Rightarrow> (string \<times> pyval) list" where
  "schedule_key self =
     [(''active'', PBool (active self)), (''interval_ms'', PInt (interval_ms self)),
      (''filename'', PStr (filename self))]"

text \<open>A column name the store reads as one word.\<close>

definition wordy :: "string \<Rightarrow> bool" where
  "wordy s = (s \<noteq> [] \<and> list_all (\<lambda>c. \<not> is_space c \<and> \<not> is_punct c) s)"

definition and_text :: "(string \<times> pyval) list \<Rightarrow> string" where
  "and_text ps = concat (map (\<lambda>(col, val). ''\<newline>  AND '' @ col @ '' = %s'') ps)"

definition and_tokens :: "(string \<times> pyval) list \<Rightarrow> string list" where
  "and_tokens ps = concat (map (\<lambda>(col, val). [''AND'', col, ''='', ''%s'']) ps)"

definition comma_text :: "(string \<times> pyval) list \<Rightarrow> string" where
  "comma_text ps = concat (map (\<lambda>(col, val). '',\<newline>'' @ col) ps)"

definition comma_tokens :: "string list \<Rightarrow> string list" where
  "comma_tokens xs = concat (map (\<lambda>x. ['','', x]) xs)"

definition set_text :: "(string \<times> pyval) list \<Rightarrow> string" where
  "set_text ps = concat (map (\<lambda>(col, val). '',\<newline>    '' @ col @ '' = %s'') ps)"

definition set_tokens :: "(string \<times> pyval) list \<Rightarrow> string list" where
  "set_tokens ps = concat (map (\<lambda>(col, val). ['','', col, ''='', ''%s'']) ps)"

text \<open>The first word of a statement, and the statements a run added to the cursor's record.\<close>

definition verb :: "string \<Rightarrow> string" where
  "verb q = takeWhile (\<lambda>c. \<not> is_space c) q"

definition added :: "cursor \<Rightarrow> cursor \<Rightarrow> (string \<times> pyval list \<times> bool) list" where
  "added c c' = drop (length (sent c)) (sent c')"

text \<open>
  The cursor after the store ran a request: the tables it left, the request recorded,
  the row count and the rows still to fetch.
\<close>

definition replied ::
  "string \<times> pyval list \<Rightarrow> tables \<Rightarrow> int \<Rightarrow> row list \<Rightarrow> cursor \<Rightarrow> cursor" where
  "replied req tbls n rows c =
     c\<lparr>tables := tbls, sent := sent c @ [(fst req, snd req, True)], rowcount := n,
       fetched := rows\<rparr>"

text \<open>The rows of a table that satisfy conditions, and a table with its rows replaced.\<close>

definition found :: "(string \<times> pyval) list \<Rightarrow> row list \<Rightarrow> row list" where
  "found cs rs = filter (matches cs) rs"

definition with_rows :: "string \<Rightarrow> row list \<Rightarrow> cursor \<Rightarrow> tables" where
  "with_rows t rs c = AList.update t rs (tables c)"

text \<open>
  The cursor after the two propagation commands, each sent only when its toggle is set,
  the save first.
\<close>

definition save_then_load ::
  "string \<Rightarrow> string \<Rightarrow> bool \<Rightarrow> bool \<Rightarrow> cursor \<Rightarrow> cursor" where
  "save_then_load save load s l c =
     (let c1 = (if s then replied (save, []) (bulk c (tokenize [] save) (tables c)) 0 [] c else c)
      in if l then replied (load, []) (bulk c (tokenize [] load) (tables c1)) 0 [] c1 else c1)"

text \<open>
  The first row of a result, as \<^verbatim>\<open>fetchone\<close> gives it, and what \<^verbatim>\<open>main\<close> puts in
  the result dictionary before it looks at the store.
\<close>

definition first_row :: "row list \<Rightarrow> pyval" where
  "first_row rows = (case rows of [] \<Rightarrow> PNone | r # _ \<Rightarrow> PDict r)"

definition users_result :: "users_module \<Rightarrow> result" where
  "users_result m =
     (if username m \<noteq> []
      then [''state'' \<mapsto> PStr (state m), ''username'' \<mapsto> PStr (username m)]
      else [''state'' \<mapsto> PStr (state m)])"

definition scheduler_result :: "scheduler_module \<Rightarrow> result" where
  "scheduler_result m = [''state'' \<mapsto> PStr (state m), ''filename'' \<mapsto> PStr (filename m)]"

text \<open>
  What a call asks the store for: the conditions on the key columns, and those together with
  the attributes that were given. The words that start the statements of a run, and the
  words of the propagation a call opted into.
\<close>

definition keyed_user :: "users_module \<Rightarrow> (string \<times> pyval) list" where
  "keyed_user m = sql (user_key (ProxySQLUser_init m))"

definition desired_user :: "users_module \<Rightarrow> (string \<times> pyval) list" where
  "desired_user m =
     sql (user_key (ProxySQLUser_init m) @ given (ProxySQLUser.config_data (ProxySQLUser_init m)))"

definition desired_schedule :: "scheduler_module \<Rightarrow> (string \<times> pyval) list" where
  "desired_schedule m =
     sql (schedule_key (ProxySQLSchedule_init m) @ given (config_data (ProxySQLSchedule_init m)))"

definition named_variable :: "variables_module \<Rightarrow> (string \<times> pyval) list" where
  "named_variable m = [(''variable_name'', PStr (variable m))]"

definition desired_variable :: "variables_module \<Rightarrow> (string \<times> pyval) list" where
  "desired_variable m =
     [(''variable_name'', PStr (variable m)), (''variable_value'', literal (val m))]"

definition verbs :: "cursor \<Rightarrow> cursor \<Rightarrow> string list" where
  "verbs c c' = map (verb \<circ> fst) (added c c')"

definition propagation :: "bool \<Rightarrow> bool \<Rightarrow> string list" where
  "propagation s l = (if s then [''SAVE''] else []) @ (if l then [''LOAD''] else [])"

(*DEFS-END*)

section \<open>Example stores and calls\<close>

definition store0 :: cursor where
  "store0 =
     \<lparr>tables = [], defaults = (\<lambda>_. []), rejects = (\<lambda>_ _ _. None), bulk = (\<lambda>_ t. t),
      sent = [], rowcount = 0, fetched = []\<rparr>"

definition config_call :: "string \<Rightarrow> string \<Rightarrow> string \<Rightarrow> config_module" where
  "config_call a d l =
     \<lparr>login_port = 6032, check_mode = False, mysqldb_found = True, hash = (\<lambda>_. 0),
      action = a, config_settings = Some ''MYSQL USERS'', direction = d,
      config_layer = Some l\<rparr>"

definition variable_call :: "string \<Rightarrow> pyval \<Rightarrow> variables_module" where
  "variable_call name x =
     \<lparr>login_port = 6032, check_mode = False, mysqldb_found = True, hash = (\<lambda>_. 0),
      save_to_disk = True, load_to_runtime = True, variable = name, val = x\<rparr>"

definition variables_store :: cursor where
  "variables_store =
     store0\<lparr>tables :=
       [(''global_variables'',
         [[(''variable_name'', PStr ''mysql-max_connections''),
           (''variable_value'', PStr ''2000'')]])]\<rparr>"

definition user_call :: "string \<Rightarrow> string option \<Rightarrow> users_module" where
  "user_call st pw =
     \<lparr>login_port = 6032, check_mode = False, mysqldb_found = True, hash = (\<lambda>_. 0),
      save_to_disk = True, load_to_runtime = True, state = st, username = ''app'',
      password = pw, users_module.active = None, use_ssl = None, default_hostgroup = None,
      default_schema = None, transaction_persistent = None, fast_forward = None,
      backend = True, frontend = True, max_connections = Some 100\<rparr>"

definition user_row :: "string \<Rightarrow> int \<Rightarrow> row" where
  "user_row pw n =
     [(''username'', PStr ''app''), (''password'', PStr pw), (''active'', PInt 1),
      (''backend'', PInt 1), (''frontend'', PInt 1), (''max_connections'', PInt n)]"

definition users_store :: "row list \<Rightarrow> cursor" where
  "users_store rs =
     store0\<lparr>tables := [(''mysql_users'', rs)],
            defaults := (\<lambda>_. [(''username'', PNone), (''password'', PNone), (''active'', PInt 1)])\<rparr>"

definition schedule_call :: "string \<Rightarrow> string option \<Rightarrow> scheduler_module" where
  "schedule_call st a1 =
     \<lparr>login_port = 6032, check_mode = False, mysqldb_found = True, hash = (\<lambda>_. 0),
      save_to_disk = True, load_to_runtime = True, state = st, force_delete = False,
      active = True, interval_ms = 10000, filename = ''/opt/test.py'', arg1 = a1,
      arg2 = None, arg3 = None, arg4 = None, arg5 = None, comment = None\<rparr>"

definition schedule_row :: "int \<Rightarrow> string \<Rightarrow> row" where
  "schedule_row i a1 =
     [(''id'', PInt i), (''active'', PInt 1), (''interval_ms'', PInt 10000),
      (''filename'', PStr ''/opt/test.py''), (''arg1'', PStr a1)]"

definition scheduler_store :: "row list \<Rightarrow> cursor" where
  "scheduler_store rs =
     store0\<lparr>tables := [(''scheduler'', rs)],
            defaults := (\<lambda>_. [(''id'', PNone), (''active'', PInt 1), (''arg1'', PNone)])\<rparr>"

(*FIXTURES-END*)

section \<open>Reading the statements the modules write\<close>

lemma tokenize_append_space: "is_space c \<Longrightarrow> tokenize w (a @ c # b) = tokenize w a @ tokenize [] b"
  by (induction a arbitrary: w) (auto simp: flush_def)

lemma tokenize_word:
  "list_all (\<lambda>c. \<not> is_space c \<and> \<not> is_punct c) col \<Longrightarrow>
   tokenize w (col @ rest) = tokenize (w @ col) rest"
  by (induction col arbitrary: w) auto

lemma and_conditions_eq:
  "and_conditions items (qs, qd) = (qs @ and_text (given items), qd @ map snd (given items))"
  by (induction items arbitrary: qs qd) (auto simp: and_conditions_def given_def and_text_def)

lemma tokenize_flush_and_text: "tokenize w (and_text ps) = flush w @ tokenize [] (and_text ps)"
  by (cases ps) (auto simp: and_text_def is_space_def flush_def)

lemma tokenize_and_text:
  "list_all (\<lambda>(col, val). wordy col) ps \<Longrightarrow> tokenize [] (and_text ps) = and_tokens ps"
proof (induction ps)
  case Nil
  then show ?case by (simp add: and_text_def and_tokens_def flush_def)
next
  case (Cons p ps)
  obtain col val where p: "p = (col, val)" by (cases p)
  from Cons.prems p have w: "col \<noteq> []" "list_all (\<lambda>c. \<not> is_space c \<and> \<not> is_punct c) col"
    and rest: "list_all (\<lambda>(col, val). wordy col) ps" by (auto simp: wordy_def)
  have t: "and_text (p # ps) = ''\<newline>  AND '' @ col @ '' = %s'' @ and_text ps"
    by (simp add: and_text_def p)
  have "tokenize [] (and_text (p # ps)) = ''AND'' # tokenize [] (col @ '' = %s'' @ and_text ps)"
    unfolding t by (simp add: is_space_def is_punct_def flush_def)
  also have "tokenize [] (col @ '' = %s'' @ and_text ps) = tokenize col ('' = %s'' @ and_text ps)"
    using tokenize_word [OF w(2), of "[]"] by simp
  also have "\<dots> = col # ''='' # tokenize ''%s'' (and_text ps)"
    using w(1) by (simp add: is_space_def is_punct_def flush_def)
  also have "tokenize ''%s'' (and_text ps) = ''%s'' # and_tokens ps"
    using tokenize_flush_and_text [of "''%s''" ps] Cons.IH [OF rest] by (simp add: flush_def)
  finally show ?case by (simp add: and_tokens_def p)
qed

lemma tokenize_base_and_text:
  assumes "list_all (\<lambda>(col, val). wordy col) ps"
  shows "tokenize [] (base @ and_text ps) = tokenize [] base @ and_tokens ps"
proof (cases ps)
  case Nil
  then show ?thesis by (simp add: and_text_def and_tokens_def)
next
  case (Cons p qs)
  obtain rest where r: "and_text ps = CHR 0x0A # rest"
    using Cons by (cases p) (auto simp: and_text_def)
  have "tokenize [] (base @ and_text ps) = tokenize [] base @ tokenize [] rest"
    unfolding r by (rule tokenize_append_space) (simp add: is_space_def)
  moreover have "tokenize [] (and_text ps) = tokenize [] rest"
    unfolding r by (simp add: is_space_def flush_def)
  ultimately show ?thesis using tokenize_and_text [OF assms] by simp
qed

lemma and_tokens_sql: "and_tokens (sql ps) = and_tokens ps"
  by (induction ps) (auto simp: and_tokens_def sql_def)

lemma and_tokens_append: "and_tokens (ps @ qs) = and_tokens ps @ and_tokens qs"
  by (simp add: and_tokens_def)

lemma map_snd_sql: "map snd (sql ps) = map literal (map snd ps)"
  by (induction ps) (auto simp: sql_def)

lemma map_fst_sql: "map fst (sql ps) = map fst ps"
  by (induction ps) (auto simp: sql_def)

lemma conds_items: "ps \<noteq> [] \<Longrightarrow> conds (tl (and_tokens ps)) (map snd ps) = Some ps"
proof (induction ps)
  case Nil
  then show ?case by simp
next
  case (Cons p ps)
  obtain col val where p: "p = (col, val)" by (cases p)
  show ?case
  proof (cases ps)
    case Nil
    then show ?thesis by (simp add: and_tokens_def p)
  next
    case (Cons q qs)
    obtain col' val' where q: "q = (col', val')" by (cases q)
    have "conds (tl (and_tokens ps)) (map snd ps) = Some ps"
      using Cons.IH Cons by simp
    then show ?thesis
      using Cons by (simp add: and_tokens_def p q)
  qed
qed

text \<open>A statement whose text ends in the conditions of \<open>keys\<close> and of the attributes given.\<close>

lemma where_clause:
  assumes "keys \<noteq> []" and "list_all (\<lambda>(col, val). wordy col) ps"
    and "tokenize [] base = pre @ tl (and_tokens keys)"
  shows "tokenize [] (base @ and_text ps) = pre @ tl (and_tokens (sql (keys @ ps)))"
    and "conds (tl (and_tokens (sql (keys @ ps)))) (map literal (map snd keys @ map snd ps))
           = Some (sql (keys @ ps))"
proof -
  have "tl (and_tokens keys) @ and_tokens ps = tl (and_tokens (keys @ ps))"
    using assms(1) by (cases keys) (auto simp: and_tokens_def)
  then show "tokenize [] (base @ and_text ps) = pre @ tl (and_tokens (sql (keys @ ps)))"
    using tokenize_base_and_text [OF assms(2), of base] assms(3) by (simp add: and_tokens_sql)
  have "sql (keys @ ps) \<noteq> []" using assms(1) by (simp add: sql_def)
  from conds_items [OF this]
  show "conds (tl (and_tokens (sql (keys @ ps)))) (map literal (map snd keys @ map snd ps))
           = Some (sql (keys @ ps))"
    by (simp add: map_snd_sql)
qed

lemma parse_select_count:
  "conds body d = Some cs \<Longrightarrow>
   statement ([''SELECT'', ''count'', ''('', ''*'', '')'', ''AS'', alias, ''FROM'', t, ''WHERE''] @ body) d
     = Some (Select_count (unquote alias) t cs)"
  by (simp add: statement_def select_rows_stmt_def select_count_stmt_def)

lemma parse_select_rows:
  "conds body d = Some cs \<Longrightarrow>
   statement ([''SELECT'', ''*'', ''FROM'', t, ''WHERE''] @ body) d = Some (Select_rows t cs)"
  by (simp add: statement_def select_rows_stmt_def)

lemma parse_delete:
  "conds body d = Some cs \<Longrightarrow>
   statement ([''DELETE'', ''FROM'', t, ''WHERE''] @ body) d = Some (Delete_from t cs)"
  by (simp add: statement_def delete_stmt_def)

lemmas reading = is_space_def is_punct_def flush_def unquote_def and_tokens_def

lemma tokenize_user_count_query:
  "tokenize [] user_count_query =
     [''SELECT'', ''count'', ''('', ''*'', '')'', ''AS'', ''`user_count`'', ''FROM'', ''mysql_users'', ''WHERE'']
     @ tl (and_tokens (user_key self))"
  by (simp add: user_count_query_def user_key_def reading)

lemma tokenize_get_user_config_query:
  "tokenize [] get_user_config_query =
     [''SELECT'', ''*'', ''FROM'', ''mysql_users'', ''WHERE''] @ tl (and_tokens (user_key self))"
  by (simp add: get_user_config_query_def user_key_def reading)

lemma tokenize_delete_user_config_query:
  "tokenize [] delete_user_config_query =
     [''DELETE'', ''FROM'', ''mysql_users'', ''WHERE''] @ tl (and_tokens (user_key self))"
  by (simp add: delete_user_config_query_def user_key_def reading)

lemma tokenize_schedule_count_query:
  "tokenize [] schedule_count_query =
     [''SELECT'', ''count'', ''('', ''*'', '')'', ''AS'', ''`schedule_count`'', ''FROM'', ''scheduler'', ''WHERE'']
     @ tl (and_tokens (schedule_key self))"
  by (simp add: schedule_count_query_def schedule_key_def reading)

lemma tokenize_get_schedule_config_query:
  "tokenize [] get_schedule_config_query =
     [''SELECT'', ''*'', ''FROM'', ''scheduler'', ''WHERE''] @ tl (and_tokens (schedule_key self))"
  by (simp add: get_schedule_config_query_def schedule_key_def reading)

lemma tokenize_delete_schedule_config_query:
  "tokenize [] delete_schedule_config_query =
     [''DELETE'', ''FROM'', ''scheduler'', ''WHERE''] @ tl (and_tokens (schedule_key self))"
  by (simp add: delete_schedule_config_query_def schedule_key_def reading)

lemma user_key_data:
  "[PStr (username self), PBool (backend self), PBool (frontend self)] = map snd (user_key self)"
  by (simp add: user_key_def)

lemma schedule_key_data:
  "[PBool (active self), PInt (interval_ms self), PStr (filename self)] = map snd (schedule_key self)"
  by (simp add: schedule_key_def)

lemma parse_check_user_privs:
  assumes "list_all (\<lambda>(col, val). wordy col) (given (ProxySQLUser.config_data self))"
  shows "case check_user_privs_request self of (q, d) \<Rightarrow>
           statement (tokenize [] q) (map literal d) =
             Some (Select_count ''user_count'' ''mysql_users''
                     (sql (user_key self @ given (ProxySQLUser.config_data self))))"
proof -
  have k: "user_key self \<noteq> []" by (simp add: user_key_def)
  note w = where_clause [OF k assms tokenize_user_count_query]
  show ?thesis
    unfolding check_user_privs_request_def Let_def and_conditions_eq user_key_data
    using parse_select_count [OF w(2)] by (simp add: w(1) unquote_def)
qed


section \<open>INSERT\<close>

lemma comma_tokens_Cons: "comma_tokens (x # xs) = '','' # x # comma_tokens xs"
  by (simp add: comma_tokens_def)

lemma comma_tokens_append: "comma_tokens (xs @ ys) = comma_tokens xs @ comma_tokens ys"
  by (simp add: comma_tokens_def)

lemma insert_loop:
  "fold (\<lambda>(col, val) (cols, query_string, query_data).
           if val \<noteq> PNone
           then (cols + 1, query_string @ '',\<newline>'' @ col, query_data @ [val])
           else (cols, query_string, query_data))
        items (n, qs, qd)
   = (n + length (given items), qs @ comma_text (given items), qd @ map snd (given items))"
  by (induction items arbitrary: n qs qd) (auto simp: given_def comma_text_def)

lemma concat_replicate_Suc: "concat (replicate (Suc k) x) = concat (replicate k x) @ x"
  by (induction k) auto

lemma tokenize_comma_text:
  "list_all (\<lambda>(col, val). wordy col) ps \<Longrightarrow>
   tokenize w (comma_text ps @ CHR '')'' # R) =
     flush w @ comma_tokens (map fst ps) @ '')'' # tokenize [] R"
proof (induction ps arbitrary: w)
  case Nil
  then show ?case by (simp add: comma_text_def comma_tokens_def is_space_def is_punct_def)
next
  case (Cons p ps)
  obtain col val where p: "p = (col, val)" by (cases p)
  from Cons.prems p have w: "col \<noteq> []" "list_all (\<lambda>c. \<not> is_space c \<and> \<not> is_punct c) col"
    and rest: "list_all (\<lambda>(col, val). wordy col) ps" by (auto simp: wordy_def)
  have t: "comma_text (p # ps) = '',\<newline>'' @ col @ comma_text ps"
    by (simp add: comma_text_def p)
  have "tokenize w (comma_text (p # ps) @ CHR '')'' # R) =
        flush w @ '','' # tokenize [] (col @ comma_text ps @ CHR '')'' # R)"
    unfolding t by (simp add: is_space_def is_punct_def flush_def)
  also have "tokenize [] (col @ comma_text ps @ CHR '')'' # R) =
             tokenize col (comma_text ps @ CHR '')'' # R)"
    using tokenize_word [OF w(2), of "[]"] by simp
  also have "\<dots> = col # comma_tokens (map fst ps) @ '')'' # tokenize [] R"
    using Cons.IH [OF rest, of col] w(1) by (simp add: flush_def)
  finally show ?case by (simp add: p comma_tokens_Cons)
qed

lemma tokenize_user_placeholders:
  "tokenize [] (concat (replicate k ''%s ,'') @ ''%s)'') =
     ''%s'' # comma_tokens (replicate k ''%s'') @ ['')'']"
  by (induction k) (simp_all add: comma_tokens_def is_space_def is_punct_def flush_def)

lemma tokenize_schedule_placeholders:
  "tokenize ''%s'' (concat (replicate k '', %s'') @ '')'') =
     ''%s'' # comma_tokens (replicate k ''%s'') @ ['')'']"
  by (induction k) (simp_all add: comma_tokens_def is_space_def is_punct_def flush_def)

lemma idents_comma_tokens:
  "idents (c # comma_tokens xs @ '')'' # rest) = Some (c # xs, rest)"
  by (induction xs arbitrary: c) (simp_all add: comma_tokens_def)

lemma zip_sql: "zip (map fst ps) (map literal (map snd ps)) = sql ps"
  by (induction ps) (auto simp: sql_def)

lemma parse_insert:
  assumes "cols = c # cs" and "length d = length cols"
  shows "statement ([''INSERT'', ''INTO'', t, ''('', c] @ comma_tokens cs @
                    ['')'', ''VALUES'', ''('', ''%s''] @ comma_tokens (replicate (length cs) ''%s'') @ ['')'']) d
         = Some (Insert_into t (zip cols d))"
  using assms idents_comma_tokens [of c cs]
    idents_comma_tokens [of "''%s''" "replicate (length cs) ''%s''" "[]"]
  by (simp add: statement_def insert_stmt_def list_all_iff)

lemma take_all_but_two: "take (length (A @ [x, y]) - 2) (A @ [x, y]) = A"
  by simp

lemma create_user_config_request_eq:
  "create_user_config_request self =
     ((''INSERT INTO mysql_users (\<newline>'' @
       ''               username,\<newline>'' @
       ''               backend,\<newline>'' @
       ''               frontend'') @ comma_text (given (ProxySQLUser.config_data self)) @
      '')\<newline>VALUES ('' @
      concat (replicate (2 + length (given (ProxySQLUser.config_data self))) ''%s ,'') @ ''%s)'',
      map snd (user_key self) @ map snd (given (ProxySQLUser.config_data self)))"
proof -
  define ps where "ps = given (ProxySQLUser.config_data self)"
  define base where "base = ''INSERT INTO mysql_users (\<newline>'' @
       ''               username,\<newline>'' @
       ''               backend,\<newline>'' @
       ''               frontend''"
  define A where "A = (base @ comma_text ps) @ '')\<newline>VALUES ('' @
      concat (replicate (2 + length ps) ''%s ,'') @ ''%s''"
  have three: "3 + n = Suc (2 + n)" for n :: nat by simp
  have "concat (replicate (3 + length ps) ''%s ,'') =
        concat (replicate (2 + length ps) ''%s ,'') @ ''%s ,''"
    by (simp only: three concat_replicate_Suc)
  then have e: "(base @ comma_text ps) @ ('')\<newline>'' @ ''VALUES ('' @
                   concat (replicate (3 + length ps) ''%s ,'')) = A @ [CHR '' '', CHR '','']"
    by (simp add: A_def)
  have "create_user_config_request self = (A @ '')'', map snd (user_key self) @ map snd ps)"
    unfolding create_user_config_request_def Let_def insert_loop prod.case
      ps_def [symmetric] base_def [symmetric] user_key_data e take_all_but_two
    by simp
  then show ?thesis by (simp add: A_def ps_def base_def)
qed

lemma parse_create_user:
  assumes "list_all (\<lambda>(col, val). wordy col) (given (ProxySQLUser.config_data self))"
  shows "case create_user_config_request self of (q, d) \<Rightarrow>
           statement (tokenize [] q) (map literal d) =
             Some (Insert_into ''mysql_users''
                     (sql (user_key self @ given (ProxySQLUser.config_data self))))"
proof -
  define ps where "ps = given (ProxySQLUser.config_data self)"
  define R where "R = ''\<newline>VALUES ('' @ concat (replicate (2 + length ps) ''%s ,'') @ ''%s)''"
  have w: "list_all (\<lambda>(col, val). wordy col) ps" using assms by (simp add: ps_def)
  have R: "tokenize [] R =
     [''VALUES'', ''('', ''%s''] @ comma_tokens (replicate (2 + length ps) ''%s'') @ ['')'']"
    unfolding R_def using tokenize_user_placeholders [of "2 + length ps"]
    by (simp add: is_space_def is_punct_def flush_def)
  have "tokenize []
          ((''INSERT INTO mysql_users (\<newline>'' @
            ''               username,\<newline>'' @
            ''               backend,\<newline>'' @
            ''               frontend'') @ comma_text ps @ CHR '')'' # R)
        = [''INSERT'', ''INTO'', ''mysql_users'', ''('', ''username'', '','', ''backend'', '','']
          @ tokenize ''frontend'' (comma_text ps @ CHR '')'' # R)"
    by (simp add: is_space_def is_punct_def flush_def)
  also have "tokenize ''frontend'' (comma_text ps @ CHR '')'' # R) =
             ''frontend'' # comma_tokens (map fst ps) @ '')'' # tokenize [] R"
    using tokenize_comma_text [OF w, of "''frontend''" R] by (simp add: flush_def)
  finally have toks:
    "tokenize []
          ((''INSERT INTO mysql_users (\<newline>'' @
            ''               username,\<newline>'' @
            ''               backend,\<newline>'' @
            ''               frontend'') @ comma_text ps @ CHR '')'' # R)
     = [''INSERT'', ''INTO'', ''mysql_users'', ''('', ''username'']
       @ comma_tokens (map fst (tl (user_key self) @ ps))
       @ ['')'', ''VALUES'', ''('', ''%s'']
       @ comma_tokens (replicate (length (map fst (tl (user_key self) @ ps))) ''%s'') @ ['')'']"
    by (simp add: R user_key_def comma_tokens_def)
  have cols: "map fst (user_key self @ ps) = ''username'' # map fst (tl (user_key self) @ ps)"
    by (simp add: user_key_def)
  have len: "length (map literal (map snd (user_key self) @ map snd ps)) =
             length (map fst (user_key self @ ps))" by simp
  have "statement (tokenize []
          ((''INSERT INTO mysql_users (\<newline>'' @
            ''               username,\<newline>'' @
            ''               backend,\<newline>'' @
            ''               frontend'') @ comma_text ps @ CHR '')'' # R))
          (map literal (map snd (user_key self) @ map snd ps))
        = Some (Insert_into ''mysql_users''
            (zip (map fst (user_key self @ ps)) (map literal (map snd (user_key self) @ map snd ps))))"
    unfolding toks by (rule parse_insert [OF cols len])
  then show ?thesis
    unfolding create_user_config_request_eq
    using zip_sql [of "user_key self @ ps"] by (simp add: ps_def R_def)
qed


section \<open>The statements with a WHERE clause\<close>

lemma select_count_where:
  assumes "keys \<noteq> []" and "list_all (\<lambda>(col, val). wordy col) ps"
    and "tokenize [] base =
           [''SELECT'', ''count'', ''('', ''*'', '')'', ''AS'', alias, ''FROM'', t, ''WHERE'']
           @ tl (and_tokens keys)"
  shows "statement (tokenize [] (base @ and_text ps)) (map literal (map snd keys @ map snd ps))
           = Some (Select_count (unquote alias) t (sql (keys @ ps)))"
  using where_clause [OF assms] parse_select_count by simp

lemma select_rows_where:
  assumes "keys \<noteq> []" and "list_all (\<lambda>(col, val). wordy col) ps"
    and "tokenize [] base = [''SELECT'', ''*'', ''FROM'', t, ''WHERE''] @ tl (and_tokens keys)"
  shows "statement (tokenize [] (base @ and_text ps)) (map literal (map snd keys @ map snd ps))
           = Some (Select_rows t (sql (keys @ ps)))"
  using where_clause [OF assms] parse_select_rows by simp

lemma delete_where:
  assumes "keys \<noteq> []" and "list_all (\<lambda>(col, val). wordy col) ps"
    and "tokenize [] base = [''DELETE'', ''FROM'', t, ''WHERE''] @ tl (and_tokens keys)"
  shows "statement (tokenize [] (base @ and_text ps)) (map literal (map snd keys @ map snd ps))
           = Some (Delete_from t (sql (keys @ ps)))"
  using where_clause [OF assms] parse_delete by simp

lemma user_key_nonempty: "user_key self \<noteq> []"
  by (simp add: user_key_def)

lemma schedule_key_nonempty: "schedule_key self \<noteq> []"
  by (simp add: schedule_key_def)

lemma parse_user_exists:
  "statement (tokenize [] user_count_query) (map literal (map snd (user_key self)))
     = Some (Select_count ''user_count'' ''mysql_users'' (sql (user_key self)))"
  using select_count_where [OF user_key_nonempty _ tokenize_user_count_query, of "[]" self]
  by (simp add: and_text_def unquote_def)

lemma parse_get_user_config:
  "statement (tokenize [] get_user_config_query) (map literal (map snd (user_key self)))
     = Some (Select_rows ''mysql_users'' (sql (user_key self)))"
  using select_rows_where [OF user_key_nonempty _ tokenize_get_user_config_query, of "[]" self]
  by (simp add: and_text_def)

lemma parse_delete_user_config:
  "statement (tokenize [] delete_user_config_query) (map literal (map snd (user_key self)))
     = Some (Delete_from ''mysql_users'' (sql (user_key self)))"
  using delete_where [OF user_key_nonempty _ tokenize_delete_user_config_query, of "[]" self]
  by (simp add: and_text_def)

lemma parse_check_schedule_config:
  assumes "list_all (\<lambda>(col, val). wordy col) (given (config_data self))"
  shows "case check_schedule_config_request self of (q, d) \<Rightarrow>
           statement (tokenize [] q) (map literal d) =
             Some (Select_count ''schedule_count'' ''scheduler''
                     (sql (schedule_key self @ given (config_data self))))"
  unfolding check_schedule_config_request_def Let_def and_conditions_eq schedule_key_data
  using select_count_where [OF schedule_key_nonempty assms tokenize_schedule_count_query]
  by (simp add: unquote_def)

lemma parse_get_schedule_config:
  assumes "list_all (\<lambda>(col, val). wordy col) (given (config_data self))"
  shows "case get_schedule_config_request self of (q, d) \<Rightarrow>
           statement (tokenize [] q) (map literal d) =
             Some (Select_rows ''scheduler'' (sql (schedule_key self @ given (config_data self))))"
  unfolding get_schedule_config_request_def Let_def and_conditions_eq schedule_key_data
  using select_rows_where [OF schedule_key_nonempty assms tokenize_get_schedule_config_query]
  by simp

lemma parse_delete_schedule_config:
  assumes "list_all (\<lambda>(col, val). wordy col) (given (config_data self))"
  shows "case delete_schedule_config_request self of (q, d) \<Rightarrow>
           statement (tokenize [] q) (map literal d) =
             Some (Delete_from ''scheduler'' (sql (schedule_key self @ given (config_data self))))"
  unfolding delete_schedule_config_request_def Let_def and_conditions_eq schedule_key_data
  using delete_where [OF schedule_key_nonempty assms tokenize_delete_schedule_config_query]
  by simp

lemma create_schedule_config_request_eq:
  "create_schedule_config_request self =
     ((''INSERT INTO scheduler (\<newline>'' @
       ''               active,\<newline>'' @
       ''               interval_ms,\<newline>'' @
       ''               filename'') @ comma_text (given (config_data self)) @
      '')\<newline>VALUES (%s, %s, %s'' @
      concat (replicate (length (given (config_data self))) '', %s'') @ '')'',
      map snd (schedule_key self) @ map snd (given (config_data self)))"
  unfolding create_schedule_config_request_def Let_def insert_loop prod.case schedule_key_data
  by simp

lemma parse_create_schedule:
  assumes "list_all (\<lambda>(col, val). wordy col) (given (config_data self))"
  shows "case create_schedule_config_request self of (q, d) \<Rightarrow>
           statement (tokenize [] q) (map literal d) =
             Some (Insert_into ''scheduler'' (sql (schedule_key self @ given (config_data self))))"
proof -
  define ps where "ps = given (config_data self)"
  define R where "R = ''\<newline>VALUES (%s, %s, %s'' @ concat (replicate (length ps) '', %s'') @ '')''"
  have w: "list_all (\<lambda>(col, val). wordy col) ps" using assms by (simp add: ps_def)
  have R: "tokenize [] R =
     [''VALUES'', ''('', ''%s'', '','', ''%s'', '','', ''%s''] @ comma_tokens (replicate (length ps) ''%s'') @ ['')'']"
    unfolding R_def using tokenize_schedule_placeholders [of "length ps"]
    by (simp add: is_space_def is_punct_def flush_def)
  have "tokenize []
          ((''INSERT INTO scheduler (\<newline>'' @
            ''               active,\<newline>'' @
            ''               interval_ms,\<newline>'' @
            ''               filename'') @ comma_text ps @ CHR '')'' # R)
        = [''INSERT'', ''INTO'', ''scheduler'', ''('', ''active'', '','', ''interval_ms'', '','']
          @ tokenize ''filename'' (comma_text ps @ CHR '')'' # R)"
    by (simp add: is_space_def is_punct_def flush_def)
  also have "tokenize ''filename'' (comma_text ps @ CHR '')'' # R) =
             ''filename'' # comma_tokens (map fst ps) @ '')'' # tokenize [] R"
    using tokenize_comma_text [OF w, of "''filename''" R] by (simp add: flush_def)
  finally have toks:
    "tokenize []
          ((''INSERT INTO scheduler (\<newline>'' @
            ''               active,\<newline>'' @
            ''               interval_ms,\<newline>'' @
            ''               filename'') @ comma_text ps @ CHR '')'' # R)
     = [''INSERT'', ''INTO'', ''scheduler'', ''('', ''active'']
       @ comma_tokens (map fst (tl (schedule_key self) @ ps))
       @ ['')'', ''VALUES'', ''('', ''%s'']
       @ comma_tokens (replicate (length (map fst (tl (schedule_key self) @ ps))) ''%s'') @ ['')'']"
    by (simp add: R schedule_key_def comma_tokens_def)
  have cols: "map fst (schedule_key self @ ps) = ''active'' # map fst (tl (schedule_key self) @ ps)"
    by (simp add: schedule_key_def)
  have len: "length (map literal (map snd (schedule_key self) @ map snd ps)) =
             length (map fst (schedule_key self @ ps))" by simp
  have "statement (tokenize []
          ((''INSERT INTO scheduler (\<newline>'' @
            ''               active,\<newline>'' @
            ''               interval_ms,\<newline>'' @
            ''               filename'') @ comma_text ps @ CHR '')'' # R))
          (map literal (map snd (schedule_key self) @ map snd ps))
        = Some (Insert_into ''scheduler''
            (zip (map fst (schedule_key self @ ps))
               (map literal (map snd (schedule_key self) @ map snd ps))))"
    unfolding toks by (rule parse_insert [OF cols len])
  then show ?thesis
    unfolding create_schedule_config_request_eq
    using zip_sql [of "schedule_key self @ ps"] by (simp add: ps_def R_def)
qed

section \<open>UPDATE\<close>

lemma update_loop_later:
  "0 < n \<Longrightarrow>
   fold (\<lambda>(col, val) (cols, query_string, query_data).
           if val \<noteq> PNone then
             (let cols = cols + 1;
                  query_data = query_data @ [val] in
              if cols = 1
              then (cols, query_string @ ''\<newline>SET '' @ col @ ''= %s,'', query_data)
              else (cols, query_string @ ''\<newline>    '' @ col @ '' = %s,'', query_data))
           else (cols, query_string, query_data))
        items (n, qs @ '','', qd)
   = (n + length (given items), qs @ set_text (given items) @ '','', qd @ map snd (given items))"
proof (induction items arbitrary: n qs qd)
  case Nil
  then show ?case by (simp add: given_def set_text_def)
next
  case (Cons i items)
  obtain c v where i: "i = (c, v)" by (cases i)
  show ?case
  proof (cases "v = PNone")
    case True
    then show ?thesis using Cons i by (simp add: given_def)
  next
    case False
    have e: "(qs @ '','') @ ''\<newline>    '' @ c @ '' = %s,'' =
             (qs @ '',\<newline>    '' @ c @ '' = %s'') @ '',''" by simp
    have n: "Suc n \<noteq> 1" "n + 1 \<noteq> 1" using Cons.prems by simp_all
    show ?thesis
      using Cons.IH [of "Suc n" "qs @ '',\<newline>    '' @ c @ '' = %s''" "qd @ [v]"] False n
      unfolding i fold_Cons comp_def prod.case Let_def
      by (simp only: e if_True if_False Suc_eq_plus1 [symmetric] refl)
         (simp add: given_def set_text_def)
  qed
qed

lemma update_loop:
  "given items = (col, x) # rest \<Longrightarrow>
   fold (\<lambda>(col, val) (cols, query_string, query_data).
           if val \<noteq> PNone then
             (let cols = cols + 1;
                  query_data = query_data @ [val] in
              if cols = 1
              then (cols, query_string @ ''\<newline>SET '' @ col @ ''= %s,'', query_data)
              else (cols, query_string @ ''\<newline>    '' @ col @ '' = %s,'', query_data))
           else (cols, query_string, query_data))
        items (0, qs, [])
   = (Suc (length rest), (qs @ ''\<newline>SET '' @ col @ ''= %s'' @ set_text rest) @ '','',
      x # map snd rest)"
proof (induction items)
  case Nil
  then show ?case by (simp add: given_def)
next
  case (Cons i items)
  obtain c v where i: "i = (c, v)" by (cases i)
  show ?case
  proof (cases "v = PNone")
    case True
    then show ?thesis using Cons i by (simp add: given_def)
  next
    case False
    then have g: "c = col" "v = x" "given items = rest"
      using Cons.prems i by (auto simp: given_def)
    show ?thesis
      using update_loop_later [of 1 items "qs @ ''\<newline>SET '' @ col @ ''= %s''" "[x]"] False g i
      by (simp add: Let_def)
  qed
qed

lemma tokenize_set_text:
  "list_all (\<lambda>(col, val). wordy col) ps \<Longrightarrow>
   tokenize ''%s'' (set_text ps @ CHR 0x0A # R) = ''%s'' # set_tokens ps @ tokenize [] R"
proof (induction ps)
  case Nil
  then show ?case by (simp add: set_text_def set_tokens_def is_space_def flush_def)
next
  case (Cons p ps)
  obtain col x where p: "p = (col, x)" by (cases p)
  from Cons.prems p have w: "col \<noteq> []" "list_all (\<lambda>c. \<not> is_space c \<and> \<not> is_punct c) col"
    and rest: "list_all (\<lambda>(col, val). wordy col) ps" by (auto simp: wordy_def)
  have t: "set_text (p # ps) = '',\<newline>    '' @ col @ '' = %s'' @ set_text ps"
    by (simp add: set_text_def p)
  have "tokenize ''%s'' (set_text (p # ps) @ CHR 0x0A # R) =
        ''%s'' # '','' # tokenize [] (col @ '' = %s'' @ set_text ps @ CHR 0x0A # R)"
    unfolding t by (simp add: is_space_def is_punct_def flush_def)
  also have "tokenize [] (col @ '' = %s'' @ set_text ps @ CHR 0x0A # R) =
             tokenize col ('' = %s'' @ set_text ps @ CHR 0x0A # R)"
    using tokenize_word [OF w(2), of "[]"] by simp
  also have "\<dots> = col # ''='' # tokenize ''%s'' (set_text ps @ CHR 0x0A # R)"
    using w(1) by (simp add: is_space_def is_punct_def flush_def)
  finally show ?case using Cons.IH [OF rest] by (simp add: set_tokens_def p)
qed

lemma set_tokens_sql: "set_tokens (sql ps) = set_tokens ps"
  by (induction ps) (auto simp: set_tokens_def sql_def)

lemma assigns_set_tokens:
  "assigns (c # ''='' # ''%s'' # set_tokens rest @ ''WHERE'' # ts) (v # map snd rest @ vs)
     = Some ((c, v) # rest, ts, vs)"
  by (induction rest arbitrary: c v) (auto simp: set_tokens_def)

lemma update_user_config_request_eq:
  assumes "given (ProxySQLUser.config_data self) = (col, x) # rest"
  shows "update_user_config_request self =
     (''UPDATE mysql_users\<newline>SET '' @ col @ ''= %s'' @ set_text rest @
      ''\<newline>WHERE username = %s\<newline>  AND backend = %s\<newline>  AND frontend = %s'',
      (x # map snd rest) @ map snd (user_key self))"
  unfolding update_user_config_request_def Let_def update_loop [OF assms, unfolded Let_def]
    prod.case butlast_conv_take [symmetric] butlast_snoc
  by (simp add: user_key_def)

lemma parse_update_user:
  assumes "list_all (\<lambda>(col, val). wordy col) (given (ProxySQLUser.config_data self))"
    and "given (ProxySQLUser.config_data self) \<noteq> []"
  shows "case update_user_config_request self of (q, d) \<Rightarrow>
           statement (tokenize [] q) (map literal d) =
             Some (Update_set ''mysql_users'' (sql (given (ProxySQLUser.config_data self)))
                     (sql (user_key self)))"
proof -
  obtain col x rest where g: "given (ProxySQLUser.config_data self) = (col, x) # rest"
    using assms(2) by (cases "given (ProxySQLUser.config_data self)") auto
  from assms(1) g have w: "col \<noteq> []" "list_all (\<lambda>c. \<not> is_space c \<and> \<not> is_punct c) col"
    and rest: "list_all (\<lambda>(col, val). wordy col) rest" by (auto simp: wordy_def)
  define R where "R = ''WHERE username = %s\<newline>  AND backend = %s\<newline>  AND frontend = %s''"
  have R: "tokenize [] R = ''WHERE'' # tl (and_tokens (user_key self))"
    by (simp add: R_def user_key_def reading)
  have "tokenize [] (''UPDATE mysql_users\<newline>SET '' @ col @ ''= %s'' @ set_text rest @ CHR 0x0A # R)
        = [''UPDATE'', ''mysql_users'', ''SET'']
          @ tokenize [] (col @ ''= %s'' @ set_text rest @ CHR 0x0A # R)"
    by (simp add: is_space_def is_punct_def flush_def)
  also have "tokenize [] (col @ ''= %s'' @ set_text rest @ CHR 0x0A # R) =
             tokenize col (''= %s'' @ set_text rest @ CHR 0x0A # R)"
    using tokenize_word [OF w(2), of "[]"] by simp
  also have "\<dots> = col # ''='' # tokenize ''%s'' (set_text rest @ CHR 0x0A # R)"
    using w(1) by (simp add: is_space_def is_punct_def flush_def)
  also have "tokenize ''%s'' (set_text rest @ CHR 0x0A # R) =
             ''%s'' # set_tokens rest @ ''WHERE'' # tl (and_tokens (user_key self))"
    using tokenize_set_text [OF rest, of R] R by simp
  finally have t1:
    "tokenize [] (''UPDATE mysql_users\<newline>SET '' @ col @ ''= %s'' @ set_text rest @ CHR 0x0A # R)
     = [''UPDATE'', ''mysql_users'', ''SET''] @ col # ''='' # ''%s'' # set_tokens rest @
       ''WHERE'' # tl (and_tokens (user_key self))" .
  have toks:
    "tokenize [] (''UPDATE mysql_users\<newline>SET '' @ col @ ''= %s'' @ set_text rest @ CHR 0x0A # R)
     = ''UPDATE'' # ''mysql_users'' # ''SET'' # col # ''='' # ''%s'' # set_tokens (sql rest) @
       ''WHERE'' # tl (and_tokens (sql (user_key self)))"
    unfolding t1 by (simp add: and_tokens_sql set_tokens_sql)
  have a: "assigns (col # ''='' # ''%s'' # set_tokens (sql rest) @
                    ''WHERE'' # tl (and_tokens (sql (user_key self))))
             (literal x # map snd (sql rest) @ map snd (sql (user_key self)))
           = Some ((col, literal x) # sql rest, tl (and_tokens (sql (user_key self))),
                   map snd (sql (user_key self)))"
    by (rule assigns_set_tokens)
  have c: "conds (tl (and_tokens (sql (user_key self)))) (map snd (sql (user_key self)))
           = Some (sql (user_key self))"
    by (rule conds_items) (simp add: sql_def user_key_def)
  have P: "statement
          (tokenize [] (''UPDATE mysql_users\<newline>SET '' @ col @ ''= %s'' @ set_text rest @ CHR 0x0A # R))
          (literal x # map snd (sql rest) @ map snd (sql (user_key self)))
        = Some (Update_set ''mysql_users'' ((col, literal x) # sql rest) (sql (user_key self)))"
    unfolding toks by (simp add: statement_def update_stmt_def a c)
  have req: "update_user_config_request self =
      (''UPDATE mysql_users\<newline>SET '' @ col @ ''= %s'' @ set_text rest @ CHR 0x0A # R,
       (x # map snd rest) @ map snd (user_key self))"
    unfolding update_user_config_request_eq [OF g] R_def by simp
  have data: "map literal ((x # map snd rest) @ map snd (user_key self)) =
              literal x # map snd (sql rest) @ map snd (sql (user_key self))"
    by (simp add: map_snd_sql)
  show ?thesis
    unfolding req prod.case data P by (simp add: g sql_def)
qed

section \<open>What the store answers\<close>

lemma replied_simps [simp]:
  "tables (replied req tbls n rows c) = tbls"
  "sent (replied req tbls n rows c) = sent c @ [(fst req, snd req, True)]"
  "rowcount (replied req tbls n rows c) = n"
  "fetched (replied req tbls n rows c) = rows"
  "rejects (replied req tbls n rows c) = rejects c"
  "defaults (replied req tbls n rows c) = defaults c"
  "bulk (replied req tbls n rows c) = bulk c"
  by (simp_all add: replied_def)

lemma replied_fetched [simp]:
  "replied req tbls n rows c\<lparr>fetched := rows'\<rparr> = replied req tbls n rows' c"
  by (simp add: replied_def)

lemma execute_select_count:
  assumes "rejects c = (\<lambda>_ _ _. None)" and "map_of (tables c) t = Some rs"
    and "statement (tokenize [] q) (map literal d) = Some (Select_count alias t cs)"
  shows "execute q d c =
           (Inr (), replied (q, d) (tables c) 1 [[(alias, PInt (int (length (found cs rs))))]] c)"
  using assms by (simp add: execute_def perform_def ran_def replied_def found_def)

lemma execute_select_rows:
  assumes "rejects c = (\<lambda>_ _ _. None)" and "map_of (tables c) t = Some rs"
    and "statement (tokenize [] q) (map literal d) = Some (Select_rows t cs)"
  shows "execute q d c =
           (Inr (), replied (q, d) (tables c) (int (length (found cs rs))) (found cs rs) c)"
  using assms by (simp add: execute_def perform_def ran_def replied_def found_def)

lemma execute_insert:
  assumes "rejects c = (\<lambda>_ _ _. None)" and "map_of (tables c) t = Some rs"
    and "statement (tokenize [] q) (map literal d) = Some (Insert_into t kvs)"
  shows "execute q d c =
           (Inr (), replied (q, d) (with_rows t (rs @ [assign kvs (defaults c t)]) c) 1 [] c)"
  using assms by (simp add: execute_def perform_def ran_def replied_def with_rows_def)

lemma execute_update:
  assumes "rejects c = (\<lambda>_ _ _. None)" and "map_of (tables c) t = Some rs"
    and "statement (tokenize [] q) (map literal d) = Some (Update_set t kvs cs)"
  shows "execute q d c =
           (Inr (), replied (q, d)
              (with_rows t (map (\<lambda>r. if matches cs r then assign kvs r else r) rs) c)
              (int (length (found cs rs))) [] c)"
  using assms by (simp add: execute_def perform_def ran_def replied_def with_rows_def found_def)

lemma execute_delete:
  assumes "rejects c = (\<lambda>_ _ _. None)" and "map_of (tables c) t = Some rs"
    and "statement (tokenize [] q) (map literal d) = Some (Delete_from t cs)"
  shows "execute q d c =
           (Inr (), replied (q, d) (with_rows t (filter (\<lambda>r. \<not> matches cs r) rs) c)
              (int (length (found cs rs))) [] c)"
  using assms by (simp add: execute_def perform_def ran_def replied_def with_rows_def found_def)

lemma execute_bulk:
  assumes "rejects c = (\<lambda>_ _ _. None)" and "tokenize [] q = k # ws" and "k = ''LOAD'' \<or> k = ''SAVE''"
  shows "execute q [] c = (Inr (), replied (q, []) (bulk c (k # ws) (tables c)) 0 [] c)"
  using assms by (auto simp: execute_def perform_def ran_def replied_def statement_def)

text \<open>A count query followed by \<^verbatim>\<open>fetchone\<close>, the subscript and \<^verbatim>\<open>int\<close>.\<close>

lemma count_answer:
  assumes "rejects c = (\<lambda>_ _ _. None)" and "map_of (tables c) t = Some rs"
    and "statement (tokenize [] q) (map literal d) = Some (Select_count alias t cs)"
  shows "bind_io (execute q d) (\<lambda>_.
         bind_io fetchone (\<lambda>check_count.
         bind_io (lift_io (subscript check_count alias)) (\<lambda>n.
         bind_io (lift_io (py_int n)) k))) c
         = k (int (length (found cs rs))) (replied (q, d) (tables c) 1 [] c)"
  by (simp add: bind_io_def execute_select_count [OF assms] fetchone_def lift_io_def
        subscript_def py_int_def)

section \<open>The users module on a store that answers\<close>

lemma check_user_privs_answer:
  assumes "rejects c = (\<lambda>_ _ _. None)" and "map_of (tables c) ''mysql_users'' = Some rs"
    and "list_all (\<lambda>(col, val). wordy col) (given (ProxySQLUser.config_data self))"
  shows "check_user_privs self c =
           (Inr (found (sql (user_key self @ given (ProxySQLUser.config_data self))) rs \<noteq> []),
            replied (check_user_privs_request self) (tables c) 1 [] c)"
proof -
  obtain q d where r: "check_user_privs_request self = (q, d)" by (cases "check_user_privs_request self")
  from parse_check_user_privs [OF assms(3)] r
  have p: "statement (tokenize [] q) (map literal d) =
            Some (Select_count ''user_count'' ''mysql_users''
                    (sql (user_key self @ given (ProxySQLUser.config_data self))))" by simp
  show ?thesis
    unfolding check_user_privs_def r prod.case count_answer [OF assms(1,2) p]
    by (simp add: return_io_def)
qed

lemma check_user_config_exists_answer:
  assumes "rejects c = (\<lambda>_ _ _. None)" and "map_of (tables c) ''mysql_users'' = Some rs"
  shows "check_user_config_exists self c =
           (Inr (found (sql (user_key self)) rs \<noteq> []),
            replied (user_count_query, map snd (user_key self)) (tables c) 1 [] c)"
  unfolding check_user_config_exists_def Let_def user_key_data
    count_answer [OF assms parse_user_exists]
  by (simp add: return_io_def)

lemma get_user_config_answer:
  assumes "rejects c = (\<lambda>_ _ _. None)" and "map_of (tables c) ''mysql_users'' = Some rs"
  shows "get_user_config self c =
           (Inr (case found (sql (user_key self)) rs of [] \<Rightarrow> PNone | r # _ \<Rightarrow> PDict r),
            replied (get_user_config_query, map snd (user_key self)) (tables c)
              (int (length (found (sql (user_key self)) rs))) (tl (found (sql (user_key self)) rs)) c)"
  unfolding get_user_config_def Let_def user_key_data
  by (simp add: bind_io_def execute_select_rows [OF assms parse_get_user_config] fetchone_def
        split: list.splits)

lemma create_user_config_answer:
  assumes "rejects c = (\<lambda>_ _ _. None)" and "map_of (tables c) ''mysql_users'' = Some rs"
    and "list_all (\<lambda>(col, val). wordy col) (given (ProxySQLUser.config_data self))"
  shows "create_user_config self c =
           (Inr True,
            replied (create_user_config_request self)
              (with_rows ''mysql_users''
                 (rs @ [assign (sql (user_key self @ given (ProxySQLUser.config_data self)))
                          (defaults c ''mysql_users'')]) c) 1 [] c)"
proof -
  obtain q d where r: "create_user_config_request self = (q, d)"
    by (cases "create_user_config_request self")
  from parse_create_user [OF assms(3)] r
  have p: "statement (tokenize [] q) (map literal d) =
            Some (Insert_into ''mysql_users''
                    (sql (user_key self @ given (ProxySQLUser.config_data self))))" by simp
  show ?thesis
    unfolding create_user_config_def r prod.case
    by (simp add: bind_io_def execute_insert [OF assms(1,2) p] return_io_def)
qed

lemma update_user_config_answer:
  assumes "rejects c = (\<lambda>_ _ _. None)" and "map_of (tables c) ''mysql_users'' = Some rs"
    and "list_all (\<lambda>(col, val). wordy col) (given (ProxySQLUser.config_data self))"
    and "given (ProxySQLUser.config_data self) \<noteq> []"
  shows "update_user_config self c =
           (Inr True,
            replied (update_user_config_request self)
              (with_rows ''mysql_users''
                 (map (\<lambda>r. if matches (sql (user_key self)) r
                            then assign (sql (given (ProxySQLUser.config_data self))) r else r) rs) c)
              (int (length (found (sql (user_key self)) rs))) [] c)"
proof -
  obtain q d where r: "update_user_config_request self = (q, d)"
    by (cases "update_user_config_request self")
  from parse_update_user [OF assms(3,4)] r
  have p: "statement (tokenize [] q) (map literal d) =
            Some (Update_set ''mysql_users'' (sql (given (ProxySQLUser.config_data self)))
                    (sql (user_key self)))" by simp
  show ?thesis
    unfolding update_user_config_def r prod.case
    by (simp add: bind_io_def execute_update [OF assms(1,2) p] return_io_def)
qed

lemma delete_user_config_answer:
  assumes "rejects c = (\<lambda>_ _ _. None)" and "map_of (tables c) ''mysql_users'' = Some rs"
  shows "delete_user_config self c =
           (Inr True,
            replied (delete_user_config_query, map snd (user_key self))
              (with_rows ''mysql_users'' (filter (\<lambda>r. \<not> matches (sql (user_key self)) r) rs) c)
              (int (length (found (sql (user_key self)) rs))) [] c)"
  unfolding delete_user_config_def Let_def user_key_data
  by (simp add: bind_io_def execute_delete [OF assms parse_delete_user_config] return_io_def)

section \<open>The scheduler module on a store that answers\<close>

lemma check_schedule_config_answer:
  assumes "rejects c = (\<lambda>_ _ _. None)" and "map_of (tables c) ''scheduler'' = Some rs"
    and "list_all (\<lambda>(col, val). wordy col) (given (config_data self))"
  shows "check_schedule_config self c =
           (Inr (int (length (found (sql (schedule_key self @ given (config_data self))) rs))),
            replied (check_schedule_config_request self) (tables c) 1 [] c)"
proof -
  obtain q d where r: "check_schedule_config_request self = (q, d)"
    by (cases "check_schedule_config_request self")
  from parse_check_schedule_config [OF assms(3)] r
  have p: "statement (tokenize [] q) (map literal d) =
            Some (Select_count ''schedule_count'' ''scheduler''
                    (sql (schedule_key self @ given (config_data self))))" by simp
  have "check_schedule_config self c =
          bind_io (execute q d) (\<lambda>_.
          bind_io fetchone (\<lambda>check_count.
          bind_io (lift_io (subscript check_count ''schedule_count'')) (\<lambda>n.
          bind_io (lift_io (py_int n)) return_io))) c"
    unfolding check_schedule_config_def r prod.case
    by (simp add: bind_io_def lift_io_def return_io_def split: prod.splits sum.splits)
  then show ?thesis
    unfolding count_answer [OF assms(1,2) p] by (simp add: return_io_def r)
qed

lemma get_schedule_config_answer:
  assumes "rejects c = (\<lambda>_ _ _. None)" and "map_of (tables c) ''scheduler'' = Some rs"
    and "list_all (\<lambda>(col, val). wordy col) (given (config_data self))"
  shows "get_schedule_config self c =
           (Inr (PTuple (map PDict (found (sql (schedule_key self @ given (config_data self))) rs))),
            replied (get_schedule_config_request self) (tables c)
              (int (length (found (sql (schedule_key self @ given (config_data self))) rs))) [] c)"
proof -
  obtain q d where r: "get_schedule_config_request self = (q, d)"
    by (cases "get_schedule_config_request self")
  from parse_get_schedule_config [OF assms(3)] r
  have p: "statement (tokenize [] q) (map literal d) =
            Some (Select_rows ''scheduler'' (sql (schedule_key self @ given (config_data self))))"
    by simp
  show ?thesis
    unfolding get_schedule_config_def r prod.case
    by (simp add: bind_io_def execute_select_rows [OF assms(1,2) p] fetchall_def)
qed

lemma create_schedule_config_answer:
  assumes "rejects c = (\<lambda>_ _ _. None)" and "map_of (tables c) ''scheduler'' = Some rs"
    and "list_all (\<lambda>(col, val). wordy col) (given (config_data self))"
  shows "create_schedule_config self c =
           (Inr True,
            replied (create_schedule_config_request self)
              (with_rows ''scheduler''
                 (rs @ [assign (sql (schedule_key self @ given (config_data self)))
                          (defaults c ''scheduler'')]) c) 1 [] c)"
proof -
  obtain q d where r: "create_schedule_config_request self = (q, d)"
    by (cases "create_schedule_config_request self")
  from parse_create_schedule [OF assms(3)] r
  have p: "statement (tokenize [] q) (map literal d) =
            Some (Insert_into ''scheduler'' (sql (schedule_key self @ given (config_data self))))"
    by simp
  show ?thesis
    unfolding create_schedule_config_def r prod.case
    by (simp add: bind_io_def execute_insert [OF assms(1,2) p] return_io_def)
qed

lemma delete_schedule_config_answer:
  assumes "rejects c = (\<lambda>_ _ _. None)" and "map_of (tables c) ''scheduler'' = Some rs"
    and "list_all (\<lambda>(col, val). wordy col) (given (config_data self))"
  shows "delete_schedule_config self c =
           (Inr (PTuple [PBool True,
                   PInt (int (length (found (sql (schedule_key self @ given (config_data self))) rs)))]),
            replied (delete_schedule_config_request self)
              (with_rows ''scheduler''
                 (filter (\<lambda>r. \<not> matches (sql (schedule_key self @ given (config_data self))) r) rs) c)
              (int (length (found (sql (schedule_key self @ given (config_data self))) rs))) [] c)"
proof -
  obtain q d where r: "delete_schedule_config_request self = (q, d)"
    by (cases "delete_schedule_config_request self")
  from parse_delete_schedule_config [OF assms(3)] r
  have p: "statement (tokenize [] q) (map literal d) =
            Some (Delete_from ''scheduler'' (sql (schedule_key self @ given (config_data self))))"
    by simp
  show ?thesis
    unfolding delete_schedule_config_def r prod.case
    by (simp add: bind_io_def execute_delete [OF assms(1,2) p] return_io_def get_rowcount_def)
qed

section \<open>The variables module on a store that answers\<close>

lemma parse_get_config:
  "statement (tokenize [] get_config_query) (map literal [PStr name]) =
     Some (Select_rows ''global_variables'' [(''variable_name'', PStr name)])"
  by (simp add: get_config_query_def statement_def select_rows_stmt_def reading)

lemma parse_check_config:
  "statement (tokenize [] check_config_query) (map literal [PStr name, x]) =
     Some (Select_count ''variable_count'' ''global_variables''
             [(''variable_name'', PStr name), (''variable_value'', literal x)])"
  by (simp add: check_config_query_def statement_def select_rows_stmt_def select_count_stmt_def
        reading)

lemma parse_set_config:
  "statement (tokenize [] set_config_query) (map literal [x, PStr name]) =
     Some (Update_set ''global_variables'' [(''variable_value'', literal x)]
             [(''variable_name'', PStr name)])"
  by (simp add: set_config_query_def statement_def update_stmt_def reading)

lemma get_config_answer:
  assumes "rejects c = (\<lambda>_ _ _. None)" and "map_of (tables c) ''global_variables'' = Some rs"
  shows "get_config name c =
           (Inr (case found [(''variable_name'', PStr name)] rs of
                   [] \<Rightarrow> PBool False | r # _ \<Rightarrow> PDict r),
            replied (get_config_query, [PStr name]) (tables c)
              (int (length (found [(''variable_name'', PStr name)] rs)))
              (tl (found [(''variable_name'', PStr name)] rs)) c)"
  unfolding get_config_def Let_def
  by (simp add: bind_io_def execute_select_rows [OF assms parse_get_config] fetchone_def
        get_rowcount_def return_io_def split: list.splits)

lemma check_config_answer:
  assumes "rejects c = (\<lambda>_ _ _. None)" and "map_of (tables c) ''global_variables'' = Some rs"
  shows "check_config name x c =
           (Inr (found [(''variable_name'', PStr name), (''variable_value'', literal x)] rs \<noteq> []),
            replied (check_config_query, [PStr name, x]) (tables c) 1 [] c)"
  unfolding check_config_def Let_def count_answer [OF assms parse_check_config]
  by (simp add: return_io_def)

lemma set_config_answer:
  assumes "rejects c = (\<lambda>_ _ _. None)" and "map_of (tables c) ''global_variables'' = Some rs"
  shows "set_config name x c =
           (Inr True,
            replied (set_config_query, [x, PStr name])
              (with_rows ''global_variables''
                 (map (\<lambda>r. if matches [(''variable_name'', PStr name)] r
                            then assign [(''variable_value'', literal x)] r else r) rs) c)
              (int (length (found [(''variable_name'', PStr name)] rs))) [] c)"
  unfolding set_config_def Let_def
  by (simp add: bind_io_def execute_update [OF assms parse_set_config] return_io_def)

section \<open>Propagation on a store that answers\<close>

lemma execute_propagation:
  assumes "rejects c = (\<lambda>_ _ _. None)"
    and "q \<in> {''SAVE MYSQL USERS TO DISK'', ''LOAD MYSQL USERS TO RUNTIME'',
               ''SAVE SCHEDULER TO DISK'', ''LOAD SCHEDULER TO RUNTIME'',
               ''SAVE MYSQL VARIABLES TO DISK'', ''LOAD MYSQL VARIABLES TO RUNTIME'',
               ''SAVE ADMIN VARIABLES TO DISK'', ''LOAD ADMIN VARIABLES TO RUNTIME''}"
  shows "execute q [] c = (Inr (), replied (q, []) (bulk c (tokenize [] q) (tables c)) 0 [] c)"
  using assms(2)
  by (auto simp: execute_def perform_def ran_def replied_def statement_def assms(1)
        is_space_def is_punct_def flush_def)

lemma manage_config_users_answer:
  assumes "rejects c = (\<lambda>_ _ _. None)"
  shows "manage_config_users self (PBool True) c =
           (Inr (), save_then_load ''SAVE MYSQL USERS TO DISK'' ''LOAD MYSQL USERS TO RUNTIME''
                      (save_to_disk self) (load_to_runtime self) c)"
  by (simp add: manage_config_users_def save_config_to_disk_users_def
        load_config_to_runtime_users_def bind_io_def return_io_def save_then_load_def
        execute_propagation assms)

lemma manage_config_scheduler_answer:
  assumes "rejects c = (\<lambda>_ _ _. None)" and "truthy changed"
  shows "manage_config_scheduler self changed c =
           (Inr (), save_then_load ''SAVE SCHEDULER TO DISK'' ''LOAD SCHEDULER TO RUNTIME''
                      (save_to_disk self) (load_to_runtime self) c)"
  by (simp add: manage_config_scheduler_def save_config_to_disk_scheduler_def
        load_config_to_runtime_scheduler_def bind_io_def return_io_def save_then_load_def
        execute_propagation assms)

lemma manage_config_variables_answer:
  assumes "rejects c = (\<lambda>_ _ _. None)"
  shows "manage_config_variables name s l (PBool True) c =
           (Inr (), save_then_load
                      (if prefix ''admin'' name then ''SAVE ADMIN VARIABLES TO DISK''
                       else ''SAVE MYSQL VARIABLES TO DISK'')
                      (if prefix ''admin'' name then ''LOAD ADMIN VARIABLES TO RUNTIME''
                       else ''LOAD MYSQL VARIABLES TO RUNTIME'') s l c)"
  by (simp add: manage_config_variables_def save_config_to_disk_variables_def
        load_config_to_runtime_variables_def bind_io_def return_io_def save_then_load_def
        execute_propagation assms)

section \<open>Rows and conditions\<close>

lemma matches_append: "matches (a @ b) r = (matches a r \<and> matches b r)"
  by (simp add: matches_def)

lemma map_of_assign:
  "map_of (assign kvs r) k =
     (case map_of (rev kvs) k of None \<Rightarrow> map_of r k | Some v \<Rightarrow> Some v)"
proof (induction kvs arbitrary: r)
  case Nil
  then show ?case by (simp add: assign_def)
next
  case (Cons p kvs)
  obtain c v where p: "p = (c, v)" by (cases p)
  have "assign (p # kvs) r = assign kvs (AList.update c v r)"
    by (simp add: assign_def p)
  then show ?case
    using Cons.IH [of "AList.update c v r"]
    by (auto simp: p update_conv' map_add_def split: option.splits)
qed

lemma matches_assign_self:
  assumes "distinct (map fst kvs)" and "list_all (\<lambda>(col, v). v \<noteq> PNone) kvs"
  shows "matches kvs (assign kvs r)"
proof -
  have "map_of (rev kvs) k = Some v" if "(k, v) \<in> set kvs" for k v
    using that assms(1) by (simp add: distinct_rev rev_map [symmetric])
  then show ?thesis
    using assms(2) by (auto simp: matches_def list_all_iff map_of_assign)
qed

lemma matches_assign_other:
  assumes "fst ` set kvs \<inter> fst ` set cs = {}"
  shows "matches cs (assign kvs r) = matches cs r"
proof -
  have "map_of (rev kvs) k = None" if "(k, v) \<in> set cs" for k v
  proof -
    have "k \<notin> fst ` set kvs" using that assms by force
    then show ?thesis by (simp add: map_of_eq_None_iff)
  qed
  then show ?thesis
    by (auto simp: matches_def list_all_iff map_of_assign split: option.splits)
qed

lemma literal_not_None: "v \<noteq> PNone \<Longrightarrow> literal v \<noteq> PNone"
  by (cases v) auto

lemma sql_given_not_None: "list_all (\<lambda>(col, v). v \<noteq> PNone) (sql (given items))"
  by (auto simp: sql_def given_def list_all_iff literal_not_None)

lemma sql_append: "sql (a @ b) = sql a @ sql b"
  by (simp add: sql_def)

lemma fst_set_sql: "fst ` set (sql ps) = fst ` set ps"
  by (force simp: sql_def)

lemma fst_set_given: "fst ` set (given items) \<subseteq> fst ` set items"
  by (auto simp: given_def)

lemma distinct_fst_given: "distinct (map fst items) \<Longrightarrow> distinct (map fst (given items))"
  unfolding given_def by (rule distinct_map_filter)

lemma found_Nil_iff: "(found cs rs = []) = (\<forall>r \<in> set rs. \<not> matches cs r)"
  by (simp add: found_def filter_empty_conv)

lemma map_of_with_rows [simp]: "map_of (with_rows t rs c) t = Some rs"
  by (simp add: with_rows_def update_conv')

lemma map_of_with_rows_other: "t' \<noteq> t \<Longrightarrow> map_of (with_rows t rs c) t' = map_of (tables c) t'"
  by (simp add: with_rows_def update_conv')

section \<open>The dictionary of a descriptor\<close>

lemma distinct_fst_insort_key:
  "distinct (map fst (insort_key f x xs)) = (fst x \<notin> fst ` set xs \<and> distinct (map fst xs))"
  by (induction xs) (auto simp: set_insort_key image_iff)

lemma distinct_fst_sort_key: "distinct (map fst (sort_key f xs)) = distinct (map fst xs)"
  by (induction xs) (auto simp: distinct_fst_insort_key)

lemma iteritems_set [simp]: "set (iteritems h d) = set d"
  by (simp add: iteritems_def)

lemma iteritems_distinct [simp]: "distinct (map fst (iteritems h d)) = distinct (map fst d)"
  by (simp add: iteritems_def distinct_fst_sort_key)

lemma ProxySQLUser_init_fields [simp]:
  "username (ProxySQLUser_init m) = username m"
  "backend (ProxySQLUser_init m) = backend m"
  "frontend (ProxySQLUser_init m) = frontend m"
  "state (ProxySQLUser_init m) = state m"
  "save_to_disk (ProxySQLUser_init m) = save_to_disk m"
  "load_to_runtime (ProxySQLUser_init m) = load_to_runtime m"
  by (simp_all add: ProxySQLUser_init_def users_module.defs state_module.defs crud_module.defs
        ansible_module.defs ProxySQLUser.defs)

lemma ProxySQLSchedule_init_fields [simp]:
  "active (ProxySQLSchedule_init m) = active m"
  "interval_ms (ProxySQLSchedule_init m) = interval_ms m"
  "filename (ProxySQLSchedule_init m) = filename m"
  "force_delete (ProxySQLSchedule_init m) = force_delete m"
  "state (ProxySQLSchedule_init m) = state m"
  "save_to_disk (ProxySQLSchedule_init m) = save_to_disk m"
  "load_to_runtime (ProxySQLSchedule_init m) = load_to_runtime m"
  by (simp_all add: ProxySQLSchedule_init_def scheduler_module.defs state_module.defs
        crud_module.defs ansible_module.defs ProxySQLSchedule.defs)

lemma users_config_data:
  "ProxySQLUser.config_data (ProxySQLUser_init m) =
     iteritems (hash m)
       [(''password'', optional PStr (password m)),
        (''active'', optional PBool (users_module.active m)),
        (''use_ssl'', optional PBool (use_ssl m)),
        (''default_hostgroup'', optional PInt (default_hostgroup m)),
        (''default_schema'', optional PStr (default_schema m)),
        (''transaction_persistent'', optional PBool (transaction_persistent m)),
        (''fast_forward'', optional PBool (fast_forward m)),
        (''max_connections'', optional PInt (max_connections m))]"
  by (simp add: ProxySQLUser_init_def users_module.defs state_module.defs crud_module.defs
        ansible_module.defs ProxySQLUser.defs)

lemma schedule_config_data:
  "config_data (ProxySQLSchedule_init m) =
     iteritems (hash m)
       [(''arg1'', optional PStr (arg1 m)),
        (''arg2'', optional PStr (arg2 m)),
        (''arg3'', optional PStr (arg3 m)),
        (''arg4'', optional PStr (arg4 m)),
        (''arg5'', optional PStr (arg5 m)),
        (''comment'', optional PStr (comment m))]"
  by (simp add: ProxySQLSchedule_init_def scheduler_module.defs state_module.defs
        crud_module.defs ansible_module.defs ProxySQLSchedule.defs)

lemma users_columns:
  "list_all (\<lambda>(col, val). wordy col) (given (ProxySQLUser.config_data (ProxySQLUser_init m)))"
  "distinct (map fst (ProxySQLUser.config_data (ProxySQLUser_init m)))"
  "fst ` set (ProxySQLUser.config_data (ProxySQLUser_init m)) \<inter>
     fst ` set (user_key (ProxySQLUser_init m)) = {}"
  by (auto simp: users_config_data given_def list_all_iff wordy_def is_space_def
        is_punct_def user_key_def)

lemma schedule_columns:
  "list_all (\<lambda>(col, val). wordy col) (given (config_data (ProxySQLSchedule_init m)))"
  "distinct (map fst (config_data (ProxySQLSchedule_init m)))"
  "fst ` set (config_data (ProxySQLSchedule_init m)) \<inter>
     fst ` set (schedule_key (ProxySQLSchedule_init m)) = {}"
  by (auto simp: schedule_config_data given_def list_all_iff wordy_def is_space_def
        is_punct_def schedule_key_def)

lemma user_key_columns:
  "distinct (map fst (user_key self))"
  "list_all (\<lambda>(col, v). v \<noteq> PNone) (sql (user_key self))"
  by (simp_all add: user_key_def sql_def)

lemma schedule_key_columns:
  "distinct (map fst (schedule_key self))"
  "list_all (\<lambda>(col, v). v \<noteq> PNone) (sql (schedule_key self))"
  by (simp_all add: schedule_key_def sql_def)

section \<open>The methods of ProxySQLUser on a store that answers\<close>

lemma sent_save_then_load:
  "sent (save_then_load save load s l c) =
     sent c @ (if s then [(save, [], True)] else []) @ (if l then [(load, [], True)] else [])"
  by (simp add: save_then_load_def)

lemma save_then_load_simps [simp]:
  "rejects (save_then_load save load s l c) = rejects c"
  "defaults (save_then_load save load s l c) = defaults c"
  "bulk (save_then_load save load s l c) = bulk c"
  by (simp_all add: save_then_load_def)

lemma tables_save_then_load:
  assumes "bulk c (tokenize [] save) = id" and "bulk c (tokenize [] load) = id"
  shows "tables (save_then_load save load s l c) = tables c"
  using assms by (simp add: save_then_load_def)

lemma get_user_config_first:
  assumes "rejects c = (\<lambda>_ _ _. None)" and "map_of (tables c) ''mysql_users'' = Some rs"
  shows "get_user_config self c =
           (Inr (first_row (found (sql (user_key self)) rs)),
            replied (get_user_config_query, map snd (user_key self)) (tables c)
              (int (length (found (sql (user_key self)) rs))) (tl (found (sql (user_key self)) rs)) c)"
  unfolding get_user_config_answer [OF assms] first_row_def ..

lemma create_user_live:
  assumes "rejects c = (\<lambda>_ _ _. None)" and "map_of (tables c) ''mysql_users'' = Some rs"
    and "list_all (\<lambda>(col, val). wordy col) (given (ProxySQLUser.config_data self))"
  defines "rs' \<equiv> rs @ [assign (sql (user_key self @ given (ProxySQLUser.config_data self)))
                          (defaults c ''mysql_users'')]"
  shows "create_user self False result c =
           (Inr (result(''changed'' \<mapsto> PBool True, ''msg'' \<mapsto> PStr ''Added user to mysql_users'',
                        ''user'' \<mapsto> first_row (found (sql (user_key self)) rs'))),
            save_then_load ''SAVE MYSQL USERS TO DISK'' ''LOAD MYSQL USERS TO RUNTIME''
              (save_to_disk self) (load_to_runtime self)
              (replied (get_user_config_query, map snd (user_key self))
                 (with_rows ''mysql_users'' rs' c)
                 (int (length (found (sql (user_key self)) rs')))
                 (tl (found (sql (user_key self)) rs'))
                 (replied (create_user_config_request self)
                    (with_rows ''mysql_users'' rs' c) 1 [] c)))"
proof -
  define c1 where "c1 = replied (create_user_config_request self)
                          (with_rows ''mysql_users'' rs' c) 1 [] c"
  have ins: "create_user_config self c = (Inr True, c1)"
    unfolding c1_def rs'_def by (rule create_user_config_answer [OF assms(1-3)])
  have a1: "rejects c1 = (\<lambda>_ _ _. None)" and t1: "map_of (tables c1) ''mysql_users'' = Some rs'"
    by (simp_all add: c1_def assms(1))
  note get = get_user_config_first [OF a1 t1, of self]
  define c2 where "c2 = replied (get_user_config_query, map snd (user_key self)) (tables c1)
              (int (length (found (sql (user_key self)) rs'))) (tl (found (sql (user_key self)) rs')) c1"
  have a2: "rejects c2 = (\<lambda>_ _ _. None)" by (simp add: c2_def a1)
  have get': "get_user_config self c1 = (Inr (first_row (found (sql (user_key self)) rs')), c2)"
    using get by (simp add: c2_def)
  note mc = manage_config_users_answer [OF a2, of self]
  have "create_user self False result c =
          (Inr (result(''changed'' \<mapsto> PBool True, ''msg'' \<mapsto> PStr ''Added user to mysql_users'',
                       ''user'' \<mapsto> first_row (found (sql (user_key self)) rs'))),
           save_then_load ''SAVE MYSQL USERS TO DISK'' ''LOAD MYSQL USERS TO RUNTIME''
             (save_to_disk self) (load_to_runtime self) c2)"
    unfolding create_user_def by (simp add: bind_io_def ins get' mc Let_def return_io_def)
  then show ?thesis by (simp add: c2_def c1_def)
qed

lemma update_user_live:
  assumes "rejects c = (\<lambda>_ _ _. None)" and "map_of (tables c) ''mysql_users'' = Some rs"
    and "list_all (\<lambda>(col, val). wordy col) (given (ProxySQLUser.config_data self))"
    and "given (ProxySQLUser.config_data self) \<noteq> []"
  defines "rs' \<equiv> map (\<lambda>r. if matches (sql (user_key self)) r
                            then assign (sql (given (ProxySQLUser.config_data self))) r else r) rs"
  shows "update_user self False result c =
           (Inr (result(''changed'' \<mapsto> PBool True, ''msg'' \<mapsto> PStr ''Updated user in mysql_users'',
                        ''user'' \<mapsto> first_row (found (sql (user_key self)) rs'))),
            save_then_load ''SAVE MYSQL USERS TO DISK'' ''LOAD MYSQL USERS TO RUNTIME''
              (save_to_disk self) (load_to_runtime self)
              (replied (get_user_config_query, map snd (user_key self))
                 (with_rows ''mysql_users'' rs' c)
                 (int (length (found (sql (user_key self)) rs')))
                 (tl (found (sql (user_key self)) rs'))
                 (replied (update_user_config_request self)
                    (with_rows ''mysql_users'' rs' c)
                    (int (length (found (sql (user_key self)) rs))) [] c)))"
proof -
  define c1 where "c1 = replied (update_user_config_request self)
                          (with_rows ''mysql_users'' rs' c)
                          (int (length (found (sql (user_key self)) rs))) [] c"
  have upd: "update_user_config self c = (Inr True, c1)"
    unfolding c1_def rs'_def by (rule update_user_config_answer [OF assms(1-4)])
  have a1: "rejects c1 = (\<lambda>_ _ _. None)" and t1: "map_of (tables c1) ''mysql_users'' = Some rs'"
    by (simp_all add: c1_def assms(1))
  note get = get_user_config_first [OF a1 t1, of self]
  define c2 where "c2 = replied (get_user_config_query, map snd (user_key self)) (tables c1)
              (int (length (found (sql (user_key self)) rs'))) (tl (found (sql (user_key self)) rs')) c1"
  have a2: "rejects c2 = (\<lambda>_ _ _. None)" by (simp add: c2_def a1)
  have get': "get_user_config self c1 = (Inr (first_row (found (sql (user_key self)) rs')), c2)"
    using get by (simp add: c2_def)
  note mc = manage_config_users_answer [OF a2, of self]
  have "update_user self False result c =
          (Inr (result(''changed'' \<mapsto> PBool True, ''msg'' \<mapsto> PStr ''Updated user in mysql_users'',
                       ''user'' \<mapsto> first_row (found (sql (user_key self)) rs'))),
           save_then_load ''SAVE MYSQL USERS TO DISK'' ''LOAD MYSQL USERS TO RUNTIME''
             (save_to_disk self) (load_to_runtime self) c2)"
    unfolding update_user_def by (simp add: bind_io_def upd get' mc Let_def return_io_def)
  then show ?thesis by (simp add: c2_def c1_def)
qed

lemma delete_user_live:
  fixes self :: ProxySQLUser
  assumes "rejects c = (\<lambda>_ _ _. None)" and "map_of (tables c) ''mysql_users'' = Some rs"
  defines "rs' \<equiv> filter (\<lambda>r. \<not> matches (sql (user_key self)) r) rs"
  shows "delete_user self False result c =
           (Inr (result(''user'' \<mapsto> first_row (found (sql (user_key self)) rs),
                        ''changed'' \<mapsto> PBool True,
                        ''msg'' \<mapsto> PStr ''Deleted user from mysql_users'')),
            save_then_load ''SAVE MYSQL USERS TO DISK'' ''LOAD MYSQL USERS TO RUNTIME''
              (save_to_disk self) (load_to_runtime self)
              (replied (delete_user_config_query, map snd (user_key self))
                 (with_rows ''mysql_users'' rs'
                    (replied (get_user_config_query, map snd (user_key self)) (tables c)
                       (int (length (found (sql (user_key self)) rs)))
                       (tl (found (sql (user_key self)) rs)) c))
                 (int (length (found (sql (user_key self)) rs))) []
                 (replied (get_user_config_query, map snd (user_key self)) (tables c)
                    (int (length (found (sql (user_key self)) rs)))
                    (tl (found (sql (user_key self)) rs)) c)))"
proof -
  define c1 where "c1 = replied (get_user_config_query, map snd (user_key self)) (tables c)
                    (int (length (found (sql (user_key self)) rs)))
                    (tl (found (sql (user_key self)) rs)) c"
  have get: "get_user_config self c = (Inr (first_row (found (sql (user_key self)) rs)), c1)"
    unfolding c1_def by (rule get_user_config_first [OF assms(1,2)])
  have a1: "rejects c1 = (\<lambda>_ _ _. None)" and t1: "map_of (tables c1) ''mysql_users'' = Some rs"
    by (simp_all add: c1_def assms(1,2))
  note del = delete_user_config_answer [OF a1 t1, of self]
  define c2 where "c2 = replied (delete_user_config_query, map snd (user_key self))
              (with_rows ''mysql_users'' rs' c1) (int (length (found (sql (user_key self)) rs))) [] c1"
  have a2: "rejects c2 = (\<lambda>_ _ _. None)" by (simp add: c2_def a1)
  have del': "delete_user_config self c1 = (Inr True, c2)"
    using del by (simp add: c2_def rs'_def)
  note mc = manage_config_users_answer [OF a2, of self]
  have "delete_user self False result c =
          (Inr (result(''user'' \<mapsto> first_row (found (sql (user_key self)) rs),
                       ''changed'' \<mapsto> PBool True,
                       ''msg'' \<mapsto> PStr ''Deleted user from mysql_users'')),
           save_then_load ''SAVE MYSQL USERS TO DISK'' ''LOAD MYSQL USERS TO RUNTIME''
             (save_to_disk self) (load_to_runtime self) c2)"
    unfolding delete_user_def by (simp add: bind_io_def get del' mc Let_def return_io_def)
  then show ?thesis by (simp add: c2_def c1_def)
qed

section \<open>main of proxysql\_mysql\_users on a store that answers\<close>

lemma users_run_module:
  "perform_checks m = Inr () \<Longrightarrow>
   run_module (perform_checks m) (Inr c) body = (case body c of (r, c') \<Rightarrow> (r, Connected c'))"
  by (simp add: run_module_def)

lemma bind_io_ok: "m c = (Inr x, c1) \<Longrightarrow> bind_io m f c = f x c1"
  by (simp add: bind_io_def)

lemma bind_io_failed: "m c = (Inl e, c1) \<Longrightarrow> bind_io m f c = (Inl e, c1)"
  by (simp add: bind_io_def)

lemma except_bind_ok:
  "m c = (Inr x, c1) \<Longrightarrow>
   except_MySQLdb_Error (bind_io m f) text c = except_MySQLdb_Error (f x) text c1"
  by (simp add: except_MySQLdb_Error_def bind_io_def)

lemma except_return [simp]: "except_MySQLdb_Error (return_io x) text c = (Inr x, c)"
  by (simp add: except_MySQLdb_Error_def return_io_def)

lemma except_fail_json [simp]:
  "except_MySQLdb_Error (raise_io (Fail_json e)) text c = (Inl (Fail_json e), c)"
  by (simp add: except_MySQLdb_Error_def raise_io_def)

lemma users_present_decision:
  fixes m :: users_module
  assumes "perform_checks m = Inr ()" and "rejects c = (\<lambda>_ _ _. None)"
    and "map_of (tables c) ''mysql_users'' = Some rs" and "state m = ''present''"
  defines "u \<equiv> ProxySQLUser_init m"
  defines "c1 \<equiv> replied (check_user_privs_request u) (tables c) 1 [] c"
  defines "c2 \<equiv> replied (user_count_query, map snd (user_key u)) (tables c) 1 [] c1"
  shows "main_users m (Inr c) =
     (if found (sql (user_key u @ given (ProxySQLUser.config_data u))) rs \<noteq> [] then
        (Inr ((users_result m)(''changed'' \<mapsto> PBool False, ''msg'' \<mapsto>
                PStr ''The user already exists in mysql_users and doesn't need to be updated.'',
                ''user'' \<mapsto> first_row (found (sql (user_key u)) rs))),
         Connected (replied (get_user_config_query, map snd (user_key u)) (tables c)
                      (int (length (found (sql (user_key u)) rs)))
                      (tl (found (sql (user_key u)) rs)) c1))
      else if found (sql (user_key u)) rs = [] then
        (case except_MySQLdb_Error (create_user u (check_mode m) (users_result m))
                ''unable to modify user.. '' c2 of (r, c') \<Rightarrow> (r, Connected c'))
      else
        (case except_MySQLdb_Error (update_user u (check_mode m) (users_result m))
                ''unable to modify user.. '' c2 of (r, c') \<Rightarrow> (r, Connected c')))"
proof -
  have privs: "check_user_privs u c =
      (Inr (found (sql (user_key u @ given (ProxySQLUser.config_data u))) rs \<noteq> []), c1)"
    unfolding c1_def u_def
    by (rule check_user_privs_answer [OF assms(2,3) users_columns(1)])
  have a1: "rejects c1 = (\<lambda>_ _ _. None)" and t1: "map_of (tables c1) ''mysql_users'' = Some rs"
    by (simp_all add: c1_def assms(2,3))
  have ex: "check_user_config_exists u c1 = (Inr (found (sql (user_key u)) rs \<noteq> []), c2)"
    using check_user_config_exists_answer [OF a1 t1, of u] by (simp add: c2_def c1_def)
  have get: "get_user_config u c1 =
      (Inr (first_row (found (sql (user_key u)) rs)),
       replied (get_user_config_query, map snd (user_key u)) (tables c)
         (int (length (found (sql (user_key u)) rs))) (tl (found (sql (user_key u)) rs)) c1)"
    using get_user_config_first [OF a1 t1, of u] by (simp add: c1_def)
  have res: "(if username u \<noteq> []
              then [''state'' \<mapsto> PStr (state u)](''username'' \<mapsto> PStr (username u))
              else [''state'' \<mapsto> PStr (state u)]) = users_result m"
    by (simp add: users_result_def u_def)
  have st: "state u = ''present''" using assms(4) by (simp add: u_def)
  show ?thesis
  proof (cases "found (sql (user_key u @ given (ProxySQLUser.config_data u))) rs \<noteq> []")
    case True
    then show ?thesis
      unfolding main_users_def users_run_module [OF assms(1)] Let_def u_def [symmetric] res
      by (simp add: st except_bind_ok [of "check_user_privs u" c, OF privs]
            except_bind_ok [of "get_user_config u" c1, OF get])
  next
    case False
    then show ?thesis
      unfolding main_users_def users_run_module [OF assms(1)] Let_def u_def [symmetric] res
      by (simp add: st except_bind_ok [of "check_user_privs u" c, OF privs]
            except_bind_ok [of "check_user_config_exists u" c1, OF ex])
  qed
qed

lemma users_absent_decision:
  fixes m :: users_module
  assumes "perform_checks m = Inr ()" and "rejects c = (\<lambda>_ _ _. None)"
    and "map_of (tables c) ''mysql_users'' = Some rs" and "state m = ''absent''"
  defines "u \<equiv> ProxySQLUser_init m"
  defines "c1 \<equiv> replied (user_count_query, map snd (user_key u)) (tables c) 1 [] c"
  shows "main_users m (Inr c) =
     (if found (sql (user_key u)) rs \<noteq> [] then
        (case except_MySQLdb_Error (delete_user u (check_mode m) (users_result m))
                ''unable to remove user.. '' c1 of (r, c') \<Rightarrow> (r, Connected c'))
      else
        (Inr ((users_result m)(''changed'' \<mapsto> PBool False, ''msg'' \<mapsto>
                PStr ''The user is already absent from the mysql_users memory configuration'')),
         Connected c1))"
proof -
  have ex: "check_user_config_exists u c = (Inr (found (sql (user_key u)) rs \<noteq> []), c1)"
    using check_user_config_exists_answer [OF assms(2,3), of u] by (simp add: c1_def)
  have res: "(if username u \<noteq> []
              then [''state'' \<mapsto> PStr (state u)](''username'' \<mapsto> PStr (username u))
              else [''state'' \<mapsto> PStr (state u)]) = users_result m"
    by (simp add: users_result_def u_def)
  have st: "state u = ''absent''" using assms(4) by (simp add: u_def)
  show ?thesis
    unfolding main_users_def users_run_module [OF assms(1)] Let_def u_def [symmetric] res
    by (simp add: st except_bind_ok [of "check_user_config_exists u" c, OF ex])
qed

section \<open>proxysql\_scheduler on a store that answers\<close>

lemma create_schedule_live:
  assumes "rejects c = (\<lambda>_ _ _. None)" and "map_of (tables c) ''scheduler'' = Some rs"
    and "list_all (\<lambda>(col, val). wordy col) (given (config_data self))"
  defines "full \<equiv> sql (schedule_key self @ given (config_data self))"
  defines "rs' \<equiv> rs @ [assign full (defaults c ''scheduler'')]"
  shows "create_schedule self False result c =
           (Inr (result(''changed'' \<mapsto> PBool True, ''msg'' \<mapsto> PStr ''Added schedule to scheduler'',
                        ''schedules'' \<mapsto> PTuple (map PDict (found full rs')))),
            save_then_load ''SAVE SCHEDULER TO DISK'' ''LOAD SCHEDULER TO RUNTIME''
              (save_to_disk self) (load_to_runtime self)
              (replied (get_schedule_config_request self) (with_rows ''scheduler'' rs' c)
                 (int (length (found full rs'))) []
                 (replied (create_schedule_config_request self)
                    (with_rows ''scheduler'' rs' c) 1 [] c)))"
proof -
  define c1 where "c1 = replied (create_schedule_config_request self)
                          (with_rows ''scheduler'' rs' c) 1 [] c"
  have ins: "create_schedule_config self c = (Inr True, c1)"
    unfolding c1_def rs'_def full_def by (rule create_schedule_config_answer [OF assms(1-3)])
  have a1: "rejects c1 = (\<lambda>_ _ _. None)" and t1: "map_of (tables c1) ''scheduler'' = Some rs'"
    by (simp_all add: c1_def assms(1))
  define c2 where "c2 = replied (get_schedule_config_request self) (tables c1)
                          (int (length (found full rs'))) [] c1"
  have get: "get_schedule_config self c1 = (Inr (PTuple (map PDict (found full rs'))), c2)"
    unfolding c2_def full_def by (rule get_schedule_config_answer [OF a1 t1 assms(3)])
  have a2: "rejects c2 = (\<lambda>_ _ _. None)" by (simp add: c2_def a1)
  have mc: "manage_config_scheduler self (PBool True) c2 =
              (Inr (), save_then_load ''SAVE SCHEDULER TO DISK'' ''LOAD SCHEDULER TO RUNTIME''
                         (save_to_disk self) (load_to_runtime self) c2)"
    by (rule manage_config_scheduler_answer [OF a2]) simp
  have "create_schedule self False result c =
          (Inr (result(''changed'' \<mapsto> PBool True, ''msg'' \<mapsto> PStr ''Added schedule to scheduler'',
                       ''schedules'' \<mapsto> PTuple (map PDict (found full rs')))),
           save_then_load ''SAVE SCHEDULER TO DISK'' ''LOAD SCHEDULER TO RUNTIME''
             (save_to_disk self) (load_to_runtime self) c2)"
    unfolding create_schedule_def by (simp add: bind_io_def ins get mc Let_def return_io_def)
  then show ?thesis by (simp add: c2_def c1_def)
qed

lemma delete_schedule_live:
  assumes "rejects c = (\<lambda>_ _ _. None)" and "map_of (tables c) ''scheduler'' = Some rs"
    and "list_all (\<lambda>(col, val). wordy col) (given (config_data self))"
  defines "full \<equiv> sql (schedule_key self @ given (config_data self))"
  defines "c1 \<equiv> replied (get_schedule_config_request self) (tables c)
                   (int (length (found full rs))) [] c"
  shows "delete_schedule self False result c =
           (Inr (result(''schedules'' \<mapsto> PTuple (map PDict (found full rs)),
                        ''changed'' \<mapsto> PTuple [PBool True, PInt (int (length (found full rs)))],
                        ''msg'' \<mapsto> PStr ''Deleted schedule from scheduler'')),
            save_then_load ''SAVE SCHEDULER TO DISK'' ''LOAD SCHEDULER TO RUNTIME''
              (save_to_disk self) (load_to_runtime self)
              (replied (delete_schedule_config_request self)
                 (with_rows ''scheduler'' (filter (\<lambda>r. \<not> matches full r) rs) c1)
                 (int (length (found full rs))) [] c1))"
proof -
  have get: "get_schedule_config self c = (Inr (PTuple (map PDict (found full rs))), c1)"
    unfolding c1_def full_def by (rule get_schedule_config_answer [OF assms(1-3)])
  have a1: "rejects c1 = (\<lambda>_ _ _. None)" and t1: "map_of (tables c1) ''scheduler'' = Some rs"
    by (simp_all add: c1_def assms(1,2))
  define c2 where "c2 = replied (delete_schedule_config_request self)
                 (with_rows ''scheduler'' (filter (\<lambda>r. \<not> matches full r) rs) c1)
                 (int (length (found full rs))) [] c1"
  have del: "delete_schedule_config self c1 =
               (Inr (PTuple [PBool True, PInt (int (length (found full rs)))]), c2)"
    unfolding c2_def full_def by (rule delete_schedule_config_answer [OF a1 t1 assms(3)])
  have a2: "rejects c2 = (\<lambda>_ _ _. None)" by (simp add: c2_def a1)
  have mc: "manage_config_scheduler self (PTuple [PBool True, PInt (int (length (found full rs)))]) c2 =
              (Inr (), save_then_load ''SAVE SCHEDULER TO DISK'' ''LOAD SCHEDULER TO RUNTIME''
                         (save_to_disk self) (load_to_runtime self) c2)"
    by (rule manage_config_scheduler_answer [OF a2]) simp
  have "delete_schedule self False result c =
          (Inr (result(''schedules'' \<mapsto> PTuple (map PDict (found full rs)),
                       ''changed'' \<mapsto> PTuple [PBool True, PInt (int (length (found full rs)))],
                       ''msg'' \<mapsto> PStr ''Deleted schedule from scheduler'')),
           save_then_load ''SAVE SCHEDULER TO DISK'' ''LOAD SCHEDULER TO RUNTIME''
             (save_to_disk self) (load_to_runtime self) c2)"
    unfolding delete_schedule_def by (simp add: bind_io_def get del mc Let_def return_io_def)
  then show ?thesis by (simp add: c2_def)
qed

lemma scheduler_run_module:
  "perform_checks_scheduler m = Inr () \<Longrightarrow>
   run_module (perform_checks_scheduler m) (Inr c) body =
     (case body c of (r, c') \<Rightarrow> (r, Connected c'))"
  by (simp add: run_module_def)

lemma scheduler_present_decision:
  fixes m :: scheduler_module
  assumes "perform_checks_scheduler m = Inr ()" and "rejects c = (\<lambda>_ _ _. None)"
    and "map_of (tables c) ''scheduler'' = Some rs" and "state m = ''present''"
  defines "u \<equiv> ProxySQLSchedule_init m"
  defines "full \<equiv> sql (schedule_key u @ given (config_data u))"
  defines "c1 \<equiv> replied (check_schedule_config_request u) (tables c) 1 [] c"
  shows "main_scheduler m (Inr c) =
     (if found full rs \<noteq> [] then
        (Inr ((scheduler_result m)(''changed'' \<mapsto> PBool False, ''msg'' \<mapsto>
                PStr ''The schedule already exists and doesn't need to be updated.'',
                ''schedules'' \<mapsto> PTuple (map PDict (found full rs)))),
         Connected (replied (get_schedule_config_request u) (tables c)
                      (int (length (found full rs))) [] c1))
      else
        (case except_MySQLdb_Error (create_schedule u (check_mode m) (scheduler_result m))
                ''unable to modify schedule.. '' c1 of (r, c') \<Rightarrow> (r, Connected c')))"
proof -
  have w: "list_all (\<lambda>(col, val). wordy col) (given (config_data u))"
    unfolding u_def by (rule schedule_columns(1))
  have cnt: "check_schedule_config u c = (Inr (int (length (found full rs))), c1)"
    unfolding c1_def full_def by (rule check_schedule_config_answer [OF assms(2,3) w])
  have a1: "rejects c1 = (\<lambda>_ _ _. None)" and t1: "map_of (tables c1) ''scheduler'' = Some rs"
    by (simp_all add: c1_def assms(2,3))
  have get: "get_schedule_config u c1 =
      (Inr (PTuple (map PDict (found full rs))),
       replied (get_schedule_config_request u) (tables c) (int (length (found full rs))) [] c1)"
    using get_schedule_config_answer [OF a1 t1 w] by (simp add: c1_def full_def)
  have res: "[''state'' \<mapsto> PStr (state u), ''filename'' \<mapsto> PStr (filename u)] = scheduler_result m"
    by (simp add: scheduler_result_def u_def)
  have st: "state u = ''present''" using assms(4) by (simp add: u_def)
  show ?thesis
    unfolding main_scheduler_def scheduler_run_module [OF assms(1)] Let_def u_def [symmetric] res
    by (simp add: st except_bind_ok [of "check_schedule_config u" c, OF cnt]
          except_bind_ok [of "get_schedule_config u" c1, OF get])
qed

lemma scheduler_absent_decision:
  fixes m :: scheduler_module
  assumes "perform_checks_scheduler m = Inr ()" and "rejects c = (\<lambda>_ _ _. None)"
    and "map_of (tables c) ''scheduler'' = Some rs" and "state m = ''absent''"
  defines "u \<equiv> ProxySQLSchedule_init m"
  defines "full \<equiv> sql (schedule_key u @ given (config_data u))"
  defines "c1 \<equiv> replied (check_schedule_config_request u) (tables c) 1 [] c"
  shows "main_scheduler m (Inr c) =
     (if found full rs = [] then
        (Inr ((scheduler_result m)(''changed'' \<mapsto> PBool False, ''msg'' \<mapsto>
                PStr ''The schedule is already absent from the memory configuration'')),
         Connected c1)
      else if length (found full rs) = 1 \<or> force_delete m then
        (case except_MySQLdb_Error (delete_schedule u (check_mode m) (scheduler_result m))
                ''unable to remove schedule.. '' c1 of (r, c') \<Rightarrow> (r, Connected c'))
      else
        (Inl (Fail_json ''Operation would delete multiple records use force_delete to override this''),
         Connected c1))"
proof -
  have w: "list_all (\<lambda>(col, val). wordy col) (given (config_data u))"
    unfolding u_def by (rule schedule_columns(1))
  have cnt: "check_schedule_config u c = (Inr (int (length (found full rs))), c1)"
    unfolding c1_def full_def by (rule check_schedule_config_answer [OF assms(2,3) w])
  have res: "[''state'' \<mapsto> PStr (state u), ''filename'' \<mapsto> PStr (filename u)] = scheduler_result m"
    by (simp add: scheduler_result_def u_def)
  have st: "state u = ''absent''" "force_delete u = force_delete m"
    using assms(4) by (simp_all add: u_def)
  show ?thesis
    unfolding main_scheduler_def scheduler_run_module [OF assms(1)] Let_def u_def [symmetric] res
    by (simp add: st except_bind_ok [of "check_schedule_config u" c, OF cnt])
qed

section \<open>proxysql\_global\_variables on a store that answers\<close>

lemma found_truthy:
  "truthy (case found ((col, x) # cs) rs of [] \<Rightarrow> PBool False | r # _ \<Rightarrow> PDict r)
     = (found ((col, x) # cs) rs \<noteq> [])"
proof (cases "found ((col, x) # cs) rs")
  case Nil
  then show ?thesis by simp
next
  case (Cons r rest)
  then have "r \<in> set (found ((col, x) # cs) rs)" by simp
  then have "matches ((col, x) # cs) r" by (simp add: found_def)
  then have "r \<noteq> []" by (auto simp: matches_def)
  then show ?thesis using Cons by simp
qed

lemma found_first_row:
  "found cs rs \<noteq> [] \<Longrightarrow>
   (case found cs rs of [] \<Rightarrow> PBool False | r # _ \<Rightarrow> PDict r) = first_row (found cs rs)"
  by (cases "found cs rs") (simp_all add: first_row_def)

lemma variables_get_path:
  fixes m :: variables_module
  assumes "perform_checks m = Inr ()" and "rejects c = (\<lambda>_ _ _. None)"
    and "map_of (tables c) ''global_variables'' = Some rs" and "\<not> truthy (val m)"
  defines "named \<equiv> found [(''variable_name'', PStr (variable m))] rs"
  defines "c1 \<equiv> replied (get_config_query, [PStr (variable m)]) (tables c)
                   (int (length named)) (tl named) c"
  shows "main_variables m (Inr c) =
     (if named = [] then (Inl (not_found (variable m)), Connected c1)
      else
        (Inr [''changed'' \<mapsto> PBool False,
              ''msg'' \<mapsto> PStr ''Returned the variable and it's current value'',
              ''var'' \<mapsto> first_row named],
         Connected (replied (get_config_query, [PStr (variable m)]) (tables c)
                      (int (length named)) (tl named) c1)))"
proof -
  have get: "get_config (variable m) c =
      (Inr (case named of [] \<Rightarrow> PBool False | r # _ \<Rightarrow> PDict r), c1)"
    unfolding c1_def named_def by (rule get_config_answer [OF assms(2,3)])
  have a1: "rejects c1 = (\<lambda>_ _ _. None)"
    and t1: "map_of (tables c1) ''global_variables'' = Some rs"
    by (simp_all add: c1_def assms(2,3))
  have get1: "get_config (variable m) c1 =
      (Inr (case named of [] \<Rightarrow> PBool False | r # _ \<Rightarrow> PDict r),
       replied (get_config_query, [PStr (variable m)]) (tables c) (int (length named)) (tl named) c1)"
    using get_config_answer [OF a1 t1, of "variable m"] by (simp add: named_def c1_def)
  have tr: "truthy (case named of [] \<Rightarrow> PBool False | r # _ \<Rightarrow> PDict r) = (named \<noteq> [])"
    unfolding named_def by (rule found_truthy)
  show ?thesis
  proof (cases "named = []")
    case True
    then show ?thesis
      unfolding main_variables_def users_run_module [OF assms(1)] Let_def
      using assms(4)
      by (simp add: except_bind_ok [of "get_config (variable m)" c, OF get] not_found_def)
  next
    case False
    then have fr: "(case named of [] \<Rightarrow> PBool False | r # _ \<Rightarrow> PDict r) = first_row named"
      unfolding named_def by (rule found_first_row)
    have tf: "truthy (first_row named)" using tr fr False by simp
    show ?thesis
      unfolding main_variables_def users_run_module [OF assms(1)] Let_def
      using assms(4) False
      by (simp add: except_bind_ok [of "get_config (variable m)" c, OF get] tr
            except_bind_ok [of "get_config (variable m)" c1, OF get1] fr tf)
  qed
qed

lemma variables_set_path:
  fixes m :: variables_module
  assumes "perform_checks m = Inr ()" and "rejects c = (\<lambda>_ _ _. None)"
    and "map_of (tables c) ''global_variables'' = Some rs" and "truthy (val m)"
  defines "named \<equiv> found [(''variable_name'', PStr (variable m))] rs"
  defines "same \<equiv> found [(''variable_name'', PStr (variable m)),
                           (''variable_value'', literal (val m))] rs"
  defines "rs' \<equiv> map (\<lambda>r. if matches [(''variable_name'', PStr (variable m))] r
                            then assign [(''variable_value'', literal (val m))] r else r) rs"
  defines "named' \<equiv> found [(''variable_name'', PStr (variable m))] rs'"
  defines "c1 \<equiv> replied (get_config_query, [PStr (variable m)]) (tables c)
                   (int (length named)) (tl named) c"
  defines "c2 \<equiv> replied (check_config_query, [PStr (variable m), val m]) (tables c) 1 [] c1"
  shows "main_variables m (Inr c) =
     (if named = [] then (Inl (not_found (variable m)), Connected c1)
      else if same \<noteq> [] then
        (Inr [''changed'' \<mapsto> PBool False,
              ''msg'' \<mapsto> PStr ''The variable is already been set to the supplied value'',
              ''var'' \<mapsto> first_row named],
         Connected (replied (get_config_query, [PStr (variable m)]) (tables c)
                      (int (length named)) (tl named) c2))
      else if check_mode m then
        (Inr [''changed'' \<mapsto> PBool True,
              ''msg'' \<mapsto> PStr (''Variable would have been set to the supplied value,'' @
                              '' however check_mode is enabled.'')],
         Connected c2)
      else
        (Inr [''changed'' \<mapsto> PBool True,
              ''msg'' \<mapsto> PStr ''Set the variable to the supplied value'',
              ''var'' \<mapsto> (case named' of [] \<Rightarrow> PBool False | r # _ \<Rightarrow> PDict r)],
         Connected
           (save_then_load
              (if prefix ''admin'' (variable m) then ''SAVE ADMIN VARIABLES TO DISK''
               else ''SAVE MYSQL VARIABLES TO DISK'')
              (if prefix ''admin'' (variable m) then ''LOAD ADMIN VARIABLES TO RUNTIME''
               else ''LOAD MYSQL VARIABLES TO RUNTIME'')
              (save_to_disk m) (load_to_runtime m)
              (replied (get_config_query, [PStr (variable m)])
                 (with_rows ''global_variables'' rs' c) (int (length named')) (tl named')
                 (replied (set_config_query, [val m, PStr (variable m)])
                    (with_rows ''global_variables'' rs' c) (int (length named)) [] c2)))))"
proof -
  have get: "get_config (variable m) c =
      (Inr (case named of [] \<Rightarrow> PBool False | r # _ \<Rightarrow> PDict r), c1)"
    unfolding c1_def named_def by (rule get_config_answer [OF assms(2,3)])
  have a1: "rejects c1 = (\<lambda>_ _ _. None)"
    and t1: "map_of (tables c1) ''global_variables'' = Some rs"
    by (simp_all add: c1_def assms(2,3))
  have chk: "check_config (variable m) (val m) c1 = (Inr (same \<noteq> []), c2)"
    using check_config_answer [OF a1 t1, of "variable m" "val m"]
    by (simp add: same_def c2_def c1_def)
  have a2: "rejects c2 = (\<lambda>_ _ _. None)"
    and t2: "map_of (tables c2) ''global_variables'' = Some rs"
    by (simp_all add: c2_def a1 assms(3))
  have get2: "get_config (variable m) c2 =
      (Inr (case named of [] \<Rightarrow> PBool False | r # _ \<Rightarrow> PDict r),
       replied (get_config_query, [PStr (variable m)]) (tables c) (int (length named)) (tl named) c2)"
    using get_config_answer [OF a2 t2, of "variable m"] by (simp add: named_def c2_def)
  define c3 where "c3 = replied (set_config_query, [val m, PStr (variable m)])
                    (with_rows ''global_variables'' rs' c) (int (length named)) [] c2"
  have set: "set_config (variable m) (val m) c2 = (Inr True, c3)"
    using set_config_answer [OF a2 t2, of "variable m" "val m"]
    by (simp add: c3_def rs'_def named_def with_rows_def c2_def c1_def assms(2,3))
  have a3: "rejects c3 = (\<lambda>_ _ _. None)"
    and t3: "map_of (tables c3) ''global_variables'' = Some rs'"
    by (simp_all add: c3_def a2)
  define c4 where "c4 = replied (get_config_query, [PStr (variable m)])
                    (with_rows ''global_variables'' rs' c) (int (length named')) (tl named') c3"
  have get3: "get_config (variable m) c3 =
      (Inr (case named' of [] \<Rightarrow> PBool False | r # _ \<Rightarrow> PDict r), c4)"
    using get_config_answer [OF a3 t3, of "variable m"] by (simp add: named'_def c4_def c3_def)
  have a4: "rejects c4 = (\<lambda>_ _ _. None)" by (simp add: c4_def a3)
  note mc = manage_config_variables_answer [OF a4, of "variable m" "save_to_disk m" "load_to_runtime m"]
  have tr: "truthy (case named of [] \<Rightarrow> PBool False | r # _ \<Rightarrow> PDict r) = (named \<noteq> [])"
    unfolding named_def by (rule found_truthy)
  show ?thesis
  proof (cases "named = []")
    case True
    then show ?thesis
      unfolding main_variables_def users_run_module [OF assms(1)] Let_def
      using assms(4)
      by (simp add: except_bind_ok [of "get_config (variable m)" c, OF get] not_found_def)
  next
    case False
    then have fr: "(case named of [] \<Rightarrow> PBool False | r # _ \<Rightarrow> PDict r) = first_row named"
      unfolding named_def by (rule found_first_row)
    have tf: "truthy (first_row named)" using tr fr False by simp
    show ?thesis
    proof (cases "same \<noteq> []")
      case True
      then show ?thesis
        unfolding main_variables_def users_run_module [OF assms(1)] Let_def
        using assms(4) False
        by (simp add: except_bind_ok [of "get_config (variable m)" c, OF get] tr
              except_bind_ok [of "check_config (variable m) (val m)" c1, OF chk]
              except_bind_ok [of "get_config (variable m)" c2, OF get2] fr tf)
    next
      case same: False
      show ?thesis
      proof (cases "check_mode m")
        case True
        then show ?thesis
          unfolding main_variables_def users_run_module [OF assms(1)] Let_def
          using assms(4) False same
          by (simp add: except_bind_ok [of "get_config (variable m)" c, OF get] fr tf
                except_bind_ok [of "check_config (variable m) (val m)" c1, OF chk])
      next
        case live: False
        have "main_variables m (Inr c) =
          (Inr [''changed'' \<mapsto> PBool True,
                ''msg'' \<mapsto> PStr ''Set the variable to the supplied value'',
                ''var'' \<mapsto> (case named' of [] \<Rightarrow> PBool False | r # _ \<Rightarrow> PDict r)],
           Connected
             (save_then_load
                (if prefix ''admin'' (variable m) then ''SAVE ADMIN VARIABLES TO DISK''
                 else ''SAVE MYSQL VARIABLES TO DISK'')
                (if prefix ''admin'' (variable m) then ''LOAD ADMIN VARIABLES TO RUNTIME''
                 else ''LOAD MYSQL VARIABLES TO RUNTIME'')
                (save_to_disk m) (load_to_runtime m) c4))"
          unfolding main_variables_def users_run_module [OF assms(1)] Let_def
          using assms(4) False same live
          by (simp add: except_bind_ok [of "get_config (variable m)" c, OF get] fr tf
                except_bind_ok [of "check_config (variable m) (val m)" c1, OF chk]
                except_bind_ok [of "set_config (variable m) (val m)" c2, OF set]
                except_bind_ok [of "get_config (variable m)" c3, OF get3]
                except_bind_ok [of "manage_config_variables (variable m) (save_to_disk m)
                                      (load_to_runtime m) (PBool True)" c4, OF mc])
        then show ?thesis using False same live by (simp add: c4_def c3_def)
      qed
    qed
  qed
qed

section \<open>Running the same call twice\<close>

lemma except_ok:
  "f c = (Inr x, c') \<Longrightarrow> except_MySQLdb_Error f text c = (Inr x, c')"
  by (simp add: except_MySQLdb_Error_def)

lemma found_append: "found cs (rs @ rs') = found cs rs @ found cs rs'"
  by (simp add: found_def)

lemma users_full_matches_assigned:
  fixes m :: users_module
  defines "u \<equiv> ProxySQLUser_init m"
  shows "matches (sql (user_key u @ given (ProxySQLUser.config_data u)))
           (assign (sql (user_key u @ given (ProxySQLUser.config_data u))) r)"
proof (rule matches_assign_self)
  have d: "distinct (map fst (given (ProxySQLUser.config_data u)))"
    unfolding u_def by (rule distinct_fst_given [OF users_columns(2)])
  have "fst ` set (given (ProxySQLUser.config_data u)) \<inter> fst ` set (user_key u) = {}"
    using users_columns(3) [of m] fst_set_given [of "ProxySQLUser.config_data u"]
    unfolding u_def by blast
  then show "distinct (map fst (sql (user_key u @ given (ProxySQLUser.config_data u))))"
    using d user_key_columns(1) [of u] by (auto simp: map_fst_sql)
  show "list_all (\<lambda>(col, v). v \<noteq> PNone) (sql (user_key u @ given (ProxySQLUser.config_data u)))"
    using user_key_columns(2) [of u] sql_given_not_None [of "ProxySQLUser.config_data u"]
    by (simp add: sql_append)
qed

lemma users_updated_matches:
  fixes m :: users_module
  defines "u \<equiv> ProxySQLUser_init m"
  assumes "matches (sql (user_key u)) r"
  shows "matches (sql (user_key u @ given (ProxySQLUser.config_data u)))
           (assign (sql (given (ProxySQLUser.config_data u))) r)"
    and "matches (sql (user_key u)) (assign (sql (given (ProxySQLUser.config_data u))) r)"
proof -
  have dj: "fst ` set (sql (given (ProxySQLUser.config_data u))) \<inter> fst ` set (sql (user_key u)) = {}"
    using users_columns(3) [of m] fst_set_given [of "ProxySQLUser.config_data u"]
    unfolding u_def fst_set_sql by blast
  have d: "distinct (map fst (sql (given (ProxySQLUser.config_data u))))"
    unfolding u_def map_fst_sql by (rule distinct_fst_given [OF users_columns(2)])
  show k: "matches (sql (user_key u)) (assign (sql (given (ProxySQLUser.config_data u))) r)"
    using matches_assign_other [OF dj] assms(2) by simp
  show "matches (sql (user_key u @ given (ProxySQLUser.config_data u)))
           (assign (sql (given (ProxySQLUser.config_data u))) r)"
    using k matches_assign_self [OF d sql_given_not_None]
    by (simp add: sql_append matches_append)
qed

lemma propagation_tokens:
  "tokenize [] ''SAVE MYSQL USERS TO DISK'' = [''SAVE'', ''MYSQL'', ''USERS'', ''TO'', ''DISK'']"
  "tokenize [] ''LOAD MYSQL USERS TO RUNTIME'' = [''LOAD'', ''MYSQL'', ''USERS'', ''TO'', ''RUNTIME'']"
  "tokenize [] ''SAVE SCHEDULER TO DISK'' = [''SAVE'', ''SCHEDULER'', ''TO'', ''DISK'']"
  "tokenize [] ''LOAD SCHEDULER TO RUNTIME'' = [''LOAD'', ''SCHEDULER'', ''TO'', ''RUNTIME'']"
  "tokenize [] ''SAVE MYSQL VARIABLES TO DISK'' = [''SAVE'', ''MYSQL'', ''VARIABLES'', ''TO'', ''DISK'']"
  "tokenize [] ''LOAD MYSQL VARIABLES TO RUNTIME'' =
     [''LOAD'', ''MYSQL'', ''VARIABLES'', ''TO'', ''RUNTIME'']"
  "tokenize [] ''SAVE ADMIN VARIABLES TO DISK'' = [''SAVE'', ''ADMIN'', ''VARIABLES'', ''TO'', ''DISK'']"
  "tokenize [] ''LOAD ADMIN VARIABLES TO RUNTIME'' =
     [''LOAD'', ''ADMIN'', ''VARIABLES'', ''TO'', ''RUNTIME'']"
  by (simp_all add: is_space_def is_punct_def flush_def)

declare tokenize.simps [simp del]

lemma users_idempotent:
  fixes m :: users_module
  defines "u \<equiv> ProxySQLUser_init m"
  assumes checks: "perform_checks m = Inr ()" and acc: "rejects c = (\<lambda>_ _ _. None)"
    and tbl: "map_of (tables c) ''mysql_users'' = Some rs"
    and st: "state m = ''present''" and live: "\<not> check_mode m"
    and save: "bulk c [''SAVE'', ''MYSQL'', ''USERS'', ''TO'', ''DISK''] = id"
    and load: "bulk c [''LOAD'', ''MYSQL'', ''USERS'', ''TO'', ''RUNTIME''] = id"
    and new: "found (sql (user_key u @ given (ProxySQLUser.config_data u))) rs = []"
  shows "\<exists>r1 c1 r2 c2.
           main_users m (Inr c) = (Inr r1, Connected c1) \<and> r1 ''changed'' = Some (PBool True)
         \<and> main_users m (Inr c1) = (Inr r2, Connected c2) \<and> r2 ''changed'' = Some (PBool False)
         \<and> tables c2 = tables c1 \<and> r2 ''user'' = r1 ''user''"
proof -
  define full where "full = sql (user_key u @ given (ProxySQLUser.config_data u))"
  define key where "key = sql (user_key u)"
  define ca where "ca = replied (check_user_privs_request u) (tables c) 1 [] c"
  define cb where "cb = replied (user_count_query, map snd (user_key u)) (tables c) 1 [] ca"
  have ab: "rejects cb = (\<lambda>_ _ _. None)" and tb: "map_of (tables cb) ''mysql_users'' = Some rs"
    and bb: "bulk cb = bulk c"
    by (simp_all add: cb_def ca_def acc tbl)
  have w: "list_all (\<lambda>(col, val). wordy col) (given (ProxySQLUser.config_data u))"
    unfolding u_def by (rule users_columns(1))
  have first: "main_users m (Inr c) =
     (if found key rs = [] then
        (case except_MySQLdb_Error (create_user u False (users_result m))
                ''unable to modify user.. '' cb of (r, c') \<Rightarrow> (r, Connected c'))
      else
        (case except_MySQLdb_Error (update_user u False (users_result m))
                ''unable to modify user.. '' cb of (r, c') \<Rightarrow> (r, Connected c')))"
    using users_present_decision [OF checks acc tbl st] new live
    by (simp add: u_def key_def ca_def cb_def)
  have second: "\<exists>r2 c2. main_users m (Inr c1) = (Inr r2, Connected c2)
                  \<and> r2 ''changed'' = Some (PBool False) \<and> tables c2 = tables c1
                  \<and> r2 ''user'' = Some (first_row (found key rs'))"
    if "rejects c1 = (\<lambda>_ _ _. None)" and "map_of (tables c1) ''mysql_users'' = Some rs'"
      and "found full rs' \<noteq> []" for c1 rs'
    using users_present_decision [OF checks that(1,2) st] that(3)
    by (simp add: full_def key_def u_def)
  have kept: "tables (save_then_load ''SAVE MYSQL USERS TO DISK'' ''LOAD MYSQL USERS TO RUNTIME''
                        s l c3) = tables c3" if "bulk c3 = bulk c" for s l c3
    by (rule tables_save_then_load) (simp_all add: propagation_tokens that save load)
  show ?thesis
  proof (cases "found key rs = []")
    case True
    define rs' where "rs' = rs @ [assign full (defaults cb ''mysql_users'')]"
    define c1 where "c1 = save_then_load ''SAVE MYSQL USERS TO DISK'' ''LOAD MYSQL USERS TO RUNTIME''
              (save_to_disk u) (load_to_runtime u)
              (replied (get_user_config_query, map snd (user_key u))
                 (with_rows ''mysql_users'' rs' cb)
                 (int (length (found key rs'))) (tl (found key rs'))
                 (replied (create_user_config_request u)
                    (with_rows ''mysql_users'' rs' cb) 1 [] cb))"
    define r1 where "r1 = (users_result m)(''changed'' \<mapsto> PBool True,
                        ''msg'' \<mapsto> PStr ''Added user to mysql_users'',
                        ''user'' \<mapsto> first_row (found key rs'))"
    have run: "create_user u False (users_result m) cb = (Inr r1, c1)"
      unfolding r1_def c1_def rs'_def full_def key_def
      by (rule create_user_live [OF ab tb w])
    have c1: "rejects c1 = (\<lambda>_ _ _. None)" "map_of (tables c1) ''mysql_users'' = Some rs'"
      unfolding c1_def by (simp_all add: kept bb ab)
    have m1: "main_users m (Inr c) = (Inr r1, Connected c1)"
      unfolding first using True
      by (simp add: except_ok [of "create_user u False (users_result m)" cb, OF run])
    have "matches full (assign full (defaults cb ''mysql_users''))"
      unfolding full_def u_def by (rule users_full_matches_assigned)
    then have "found full rs' \<noteq> []" by (simp add: rs'_def found_append found_def)
    from second [OF c1 this] m1 show ?thesis by (auto simp: r1_def)
  next
    case False
    have g: "given (ProxySQLUser.config_data u) \<noteq> []"
      using False new by (auto simp: key_def)
    define rs' where "rs' = map (\<lambda>r. if matches key r
                            then assign (sql (given (ProxySQLUser.config_data u))) r else r) rs"
    define c1 where "c1 = save_then_load ''SAVE MYSQL USERS TO DISK'' ''LOAD MYSQL USERS TO RUNTIME''
              (save_to_disk u) (load_to_runtime u)
              (replied (get_user_config_query, map snd (user_key u))
                 (with_rows ''mysql_users'' rs' cb)
                 (int (length (found key rs'))) (tl (found key rs'))
                 (replied (update_user_config_request u)
                    (with_rows ''mysql_users'' rs' cb) (int (length (found key rs))) [] cb))"
    define r1 where "r1 = (users_result m)(''changed'' \<mapsto> PBool True,
                        ''msg'' \<mapsto> PStr ''Updated user in mysql_users'',
                        ''user'' \<mapsto> first_row (found key rs'))"
    have run: "update_user u False (users_result m) cb = (Inr r1, c1)"
      unfolding r1_def c1_def rs'_def key_def
      by (rule update_user_live [OF ab tb w g])
    have c1: "rejects c1 = (\<lambda>_ _ _. None)" "map_of (tables c1) ''mysql_users'' = Some rs'"
      unfolding c1_def by (simp_all add: kept bb ab)
    have m1: "main_users m (Inr c) = (Inr r1, Connected c1)"
      unfolding first using False
      by (simp add: except_ok [of "update_user u False (users_result m)" cb, OF run])
    from False obtain r where r: "r \<in> set rs" "matches key r"
      by (auto simp: found_Nil_iff)
    then have "assign (sql (given (ProxySQLUser.config_data u))) r \<in> set rs'"
      by (force simp: rs'_def)
    moreover have "matches full (assign (sql (given (ProxySQLUser.config_data u))) r)"
      using users_updated_matches(1) [of m r] r(2) by (simp add: full_def key_def u_def)
    ultimately have "found full rs' \<noteq> []" by (auto simp: found_Nil_iff)
    from second [OF c1 this] m1 show ?thesis by (auto simp: r1_def)
  qed
qed

lemma schedule_full_matches_assigned:
  fixes m :: scheduler_module
  defines "u \<equiv> ProxySQLSchedule_init m"
  shows "matches (sql (schedule_key u @ given (config_data u)))
           (assign (sql (schedule_key u @ given (config_data u))) r)"
proof (rule matches_assign_self)
  have d: "distinct (map fst (given (config_data u)))"
    unfolding u_def by (rule distinct_fst_given [OF schedule_columns(2)])
  have "fst ` set (given (config_data u)) \<inter> fst ` set (schedule_key u) = {}"
    using schedule_columns(3) [of m] fst_set_given [of "config_data u"]
    unfolding u_def by blast
  then show "distinct (map fst (sql (schedule_key u @ given (config_data u))))"
    using d schedule_key_columns(1) [of u] by (auto simp: map_fst_sql)
  show "list_all (\<lambda>(col, v). v \<noteq> PNone) (sql (schedule_key u @ given (config_data u)))"
    using schedule_key_columns(2) [of u] sql_given_not_None [of "config_data u"]
    by (simp add: sql_append)
qed

lemma scheduler_idempotent:
  fixes m :: scheduler_module
  defines "u \<equiv> ProxySQLSchedule_init m"
  assumes checks: "perform_checks_scheduler m = Inr ()" and acc: "rejects c = (\<lambda>_ _ _. None)"
    and tbl: "map_of (tables c) ''scheduler'' = Some rs"
    and st: "state m = ''present''" and live: "\<not> check_mode m"
    and save: "bulk c [''SAVE'', ''SCHEDULER'', ''TO'', ''DISK''] = id"
    and load: "bulk c [''LOAD'', ''SCHEDULER'', ''TO'', ''RUNTIME''] = id"
    and new: "found (sql (schedule_key u @ given (config_data u))) rs = []"
  shows "\<exists>r1 c1 r2 c2.
           main_scheduler m (Inr c) = (Inr r1, Connected c1) \<and> r1 ''changed'' = Some (PBool True)
         \<and> main_scheduler m (Inr c1) = (Inr r2, Connected c2) \<and> r2 ''changed'' = Some (PBool False)
         \<and> tables c2 = tables c1 \<and> r2 ''schedules'' = r1 ''schedules''"
proof -
  define full where "full = sql (schedule_key u @ given (config_data u))"
  define ca where "ca = replied (check_schedule_config_request u) (tables c) 1 [] c"
  have ab: "rejects ca = (\<lambda>_ _ _. None)" and tb: "map_of (tables ca) ''scheduler'' = Some rs"
    and bb: "bulk ca = bulk c"
    by (simp_all add: ca_def acc tbl)
  have w: "list_all (\<lambda>(col, val). wordy col) (given (config_data u))"
    unfolding u_def by (rule schedule_columns(1))
  have first: "main_scheduler m (Inr c) =
        (case except_MySQLdb_Error (create_schedule u False (scheduler_result m))
                ''unable to modify schedule.. '' ca of (r, c') \<Rightarrow> (r, Connected c'))"
    using scheduler_present_decision [OF checks acc tbl st] new live
    by (simp add: u_def ca_def)
  have second: "\<exists>r2 c2. main_scheduler m (Inr c1) = (Inr r2, Connected c2)
                  \<and> r2 ''changed'' = Some (PBool False) \<and> tables c2 = tables c1
                  \<and> r2 ''schedules'' = Some (PTuple (map PDict (found full rs')))"
    if "rejects c1 = (\<lambda>_ _ _. None)" and "map_of (tables c1) ''scheduler'' = Some rs'"
      and "found full rs' \<noteq> []" for c1 rs'
    using scheduler_present_decision [OF checks that(1,2) st] that(3)
    by (simp add: full_def u_def)
  have kept: "tables (save_then_load ''SAVE SCHEDULER TO DISK'' ''LOAD SCHEDULER TO RUNTIME''
                        s l c3) = tables c3" if "bulk c3 = bulk c" for s l c3
    by (rule tables_save_then_load) (simp_all add: propagation_tokens that save load)
  define rs' where "rs' = rs @ [assign full (defaults ca ''scheduler'')]"
  define c1 where "c1 = save_then_load ''SAVE SCHEDULER TO DISK'' ''LOAD SCHEDULER TO RUNTIME''
              (save_to_disk u) (load_to_runtime u)
              (replied (get_schedule_config_request u) (with_rows ''scheduler'' rs' ca)
                 (int (length (found full rs'))) []
                 (replied (create_schedule_config_request u)
                    (with_rows ''scheduler'' rs' ca) 1 [] ca))"
  define r1 where "r1 = (scheduler_result m)(''changed'' \<mapsto> PBool True,
                        ''msg'' \<mapsto> PStr ''Added schedule to scheduler'',
                        ''schedules'' \<mapsto> PTuple (map PDict (found full rs')))"
  have run: "create_schedule u False (scheduler_result m) ca = (Inr r1, c1)"
    unfolding r1_def c1_def rs'_def full_def
    by (rule create_schedule_live [OF ab tb w])
  have c1: "rejects c1 = (\<lambda>_ _ _. None)" "map_of (tables c1) ''scheduler'' = Some rs'"
    unfolding c1_def by (simp_all add: kept bb ab)
  have m1: "main_scheduler m (Inr c) = (Inr r1, Connected c1)"
    unfolding first
    by (simp add: except_ok [of "create_schedule u False (scheduler_result m)" ca, OF run])
  have "matches full (assign full (defaults ca ''scheduler''))"
    unfolding full_def u_def by (rule schedule_full_matches_assigned)
  then have "found full rs' \<noteq> []" by (simp add: rs'_def found_append found_def)
  from second [OF c1 this] m1 show ?thesis by (auto simp: r1_def)
qed

lemma truthy_not_None: "truthy v \<Longrightarrow> literal v \<noteq> PNone"
  by (cases v) auto

lemma variables_idempotent:
  fixes m :: variables_module
  assumes checks: "perform_checks m = Inr ()" and acc: "rejects c = (\<lambda>_ _ _. None)"
    and tbl: "map_of (tables c) ''global_variables'' = Some rs"
    and tr: "truthy (val m)" and live: "\<not> check_mode m"
    and save: "bulk c (tokenize [] (if prefix ''admin'' (variable m)
                 then ''SAVE ADMIN VARIABLES TO DISK'' else ''SAVE MYSQL VARIABLES TO DISK'')) = id"
    and load: "bulk c (tokenize [] (if prefix ''admin'' (variable m)
                 then ''LOAD ADMIN VARIABLES TO RUNTIME'' else ''LOAD MYSQL VARIABLES TO RUNTIME'')) = id"
    and ex: "found [(''variable_name'', PStr (variable m))] rs \<noteq> []"
    and new: "found [(''variable_name'', PStr (variable m)),
                     (''variable_value'', literal (val m))] rs = []"
  shows "\<exists>r1 c1 r2 c2.
           main_variables m (Inr c) = (Inr r1, Connected c1) \<and> r1 ''changed'' = Some (PBool True)
         \<and> main_variables m (Inr c1) = (Inr r2, Connected c2) \<and> r2 ''changed'' = Some (PBool False)
         \<and> tables c2 = tables c1 \<and> r2 ''var'' = r1 ''var''
         \<and> r1 ''msg'' = Some (PStr ''Set the variable to the supplied value'')
         \<and> (\<exists>row. r1 ''var'' = Some (PDict row)
                \<and> map_of row ''variable_value'' = Some (literal (val m)))"
proof -
  define name where "name = [(''variable_name'', PStr (variable m))]"
  define both where "both = [(''variable_name'', PStr (variable m)),
                              (''variable_value'', literal (val m))]"
  define rs' where "rs' = map (\<lambda>r. if matches name r
                            then assign [(''variable_value'', literal (val m))] r else r) rs"
  define sv where "sv = (if prefix ''admin'' (variable m) then ''SAVE ADMIN VARIABLES TO DISK''
               else ''SAVE MYSQL VARIABLES TO DISK'')"
  define ld where "ld = (if prefix ''admin'' (variable m) then ''LOAD ADMIN VARIABLES TO RUNTIME''
               else ''LOAD MYSQL VARIABLES TO RUNTIME'')"
  define ca where "ca = replied (get_config_query, [PStr (variable m)]) (tables c)
                   (int (length (found name rs))) (tl (found name rs)) c"
  define cb where "cb = replied (check_config_query, [PStr (variable m), val m]) (tables c) 1 [] ca"
  define c1 where "c1 = save_then_load sv ld (save_to_disk m) (load_to_runtime m)
              (replied (get_config_query, [PStr (variable m)])
                 (with_rows ''global_variables'' rs' c) (int (length (found name rs')))
                 (tl (found name rs'))
                 (replied (set_config_query, [val m, PStr (variable m)])
                    (with_rows ''global_variables'' rs' c) (int (length (found name rs))) [] cb))"
  define r1 where "r1 = [''changed'' \<mapsto> PBool True,
              ''msg'' \<mapsto> PStr ''Set the variable to the supplied value'',
              ''var'' \<mapsto> (case found name rs' of [] \<Rightarrow> PBool False | r # _ \<Rightarrow> PDict r)]"
  have m1: "main_variables m (Inr c) = (Inr r1, Connected c1)"
    using variables_set_path [OF checks acc tbl tr] ex new live
    by (simp add: name_def rs'_def sv_def ld_def ca_def cb_def c1_def r1_def)
  have kept: "tables (save_then_load sv ld s l c3) = tables c3" if "bulk c3 = bulk c" for s l c3
    by (rule tables_save_then_load) (simp_all add: that save load sv_def ld_def)
  have c1: "rejects c1 = (\<lambda>_ _ _. None)" "map_of (tables c1) ''global_variables'' = Some rs'"
    unfolding c1_def by (simp_all add: kept cb_def ca_def acc)
  from ex obtain r where r: "r \<in> set rs" "matches name r"
    by (auto simp: found_Nil_iff name_def)
  have nn: "list_all (\<lambda>(col, v). v \<noteq> PNone) [(''variable_value'', literal (val m))]"
    using truthy_not_None [OF tr] by simp
  have a: "matches [(''variable_value'', literal (val m))]
             (assign [(''variable_value'', literal (val m))] r)"
    by (rule matches_assign_self [OF _ nn]) simp
  have b: "matches name (assign [(''variable_value'', literal (val m))] r)"
    using matches_assign_other [of "[(''variable_value'', literal (val m))]" name r] r(2)
    by (simp add: name_def)
  have in': "assign [(''variable_value'', literal (val m))] r \<in> set rs'"
    using r by (force simp: rs'_def)
  have "matches both (assign [(''variable_value'', literal (val m))] r)"
    using a b matches_append [of name "[(''variable_value'', literal (val m))]"]
    by (simp add: both_def name_def)
  with in' have same: "found both rs' \<noteq> []" by (auto simp: found_Nil_iff)
  from in' b have named: "found name rs' \<noteq> []" by (auto simp: found_Nil_iff)
  have "\<exists>r2 c2. main_variables m (Inr c1) = (Inr r2, Connected c2)
                  \<and> r2 ''changed'' = Some (PBool False) \<and> tables c2 = tables c1
                  \<and> r2 ''var'' = Some (first_row (found name rs'))"
    using variables_set_path [OF checks c1 tr] same named
    by (simp add: both_def name_def)
  moreover obtain r0 rest where r0: "found name rs' = r0 # rest"
    using named by (cases "found name rs'") auto
  moreover have "map_of r0 ''variable_value'' = Some (literal (val m))"
  proof -
    have "r0 \<in> set (found name rs')" using r0 by simp
    then have "r0 \<in> set rs'" and mt: "matches name r0" by (simp_all add: found_def)
    then obtain r' where "r' \<in> set rs"
      and e: "r0 = (if matches name r' then assign [(''variable_value'', literal (val m))] r' else r')"
      by (auto simp: rs'_def)
    with mt have "r0 = assign [(''variable_value'', literal (val m))] r'"
      by (cases "matches name r'") auto
    then show ?thesis by (simp add: map_of_assign)
  qed
  ultimately show ?thesis using m1 by (auto simp: r1_def first_row_def)
qed

section \<open>What a call leaves behind on a store that answers\<close>

lemma added_sent: "sent c' = sent c @ new \<Longrightarrow> map fst (added c c') = map fst new"
  by (simp add: added_def)

lemma users_dry:
  "create_user self True result c =
     (Inr (result(''changed'' \<mapsto> PBool True, ''msg'' \<mapsto>
        PStr ''User would have been added to mysql_users, however check_mode is enabled.'')), c)"
  "update_user self True result c =
     (Inr (result(''changed'' \<mapsto> PBool True, ''msg'' \<mapsto>
        PStr ''User would have been updated in mysql_users, however check_mode is enabled.'')), c)"
  "delete_user self True result c =
     (Inr (result(''changed'' \<mapsto> PBool True, ''msg'' \<mapsto>
        PStr ''User would have been deleted from mysql_users, however check_mode is enabled.'')), c)"
  by (simp_all add: create_user_def update_user_def delete_user_def return_io_def)

lemma schedule_dry:
  "create_schedule self True result c =
     (Inr (result(''changed'' \<mapsto> PBool True, ''msg'' \<mapsto>
        PStr ''Schedule would have been added to scheduler, however check_mode is enabled.'')), c)"
  "delete_schedule self True result c =
     (Inr (result(''changed'' \<mapsto> PBool True, ''msg'' \<mapsto>
        PStr ''Schedule would have been deleted from scheduler, however check_mode is enabled.'')), c)"
  by (simp_all add: create_schedule_def delete_schedule_def return_io_def)

lemma users_present_log:
  fixes m :: users_module
  defines "u \<equiv> ProxySQLUser_init m"
  defines "full \<equiv> sql (user_key u @ given (ProxySQLUser.config_data u))"
  defines "key \<equiv> sql (user_key u)"
  assumes checks: "perform_checks m = Inr ()" and acc: "rejects c = (\<lambda>_ _ _. None)"
    and tbl: "map_of (tables c) ''mysql_users'' = Some rs" and st: "state m = ''present''"
  shows "\<exists>r c'. main_users m (Inr c) = (Inr r, Connected c')
     \<and> r ''changed'' = Some (PBool (found full rs = []))
     \<and> r ''msg'' = Some (PStr
          (if found full rs \<noteq> []
           then ''The user already exists in mysql_users and doesn't need to be updated.''
           else if found key rs = [] then
             (if check_mode m
              then ''User would have been added to mysql_users, however check_mode is enabled.''
              else ''Added user to mysql_users'')
           else
             (if check_mode m
              then ''User would have been updated in mysql_users, however check_mode is enabled.''
              else ''Updated user in mysql_users'')))
     \<and> map fst (added c c') =
         (if found full rs \<noteq> [] then [fst (check_user_privs_request u), get_user_config_query]
          else [fst (check_user_privs_request u), user_count_query] @
            (if check_mode m then []
             else [if found key rs = [] then fst (create_user_config_request u)
                   else fst (update_user_config_request u), get_user_config_query]
               @ (if save_to_disk m then [''SAVE MYSQL USERS TO DISK''] else [])
               @ (if load_to_runtime m then [''LOAD MYSQL USERS TO RUNTIME''] else [])))"
proof -
  define ca where "ca = replied (check_user_privs_request u) (tables c) 1 [] c"
  define cb where "cb = replied (user_count_query, map snd (user_key u)) (tables c) 1 [] ca"
  have ab: "rejects cb = (\<lambda>_ _ _. None)" and tb: "map_of (tables cb) ''mysql_users'' = Some rs"
    by (simp_all add: cb_def ca_def acc tbl)
  have sb: "sent cb = sent c @ [(fst (check_user_privs_request u), snd (check_user_privs_request u), True),
                               (user_count_query, map snd (user_key u), True)]"
    by (simp add: cb_def ca_def)
  have w: "list_all (\<lambda>(col, val). wordy col) (given (ProxySQLUser.config_data u))"
    unfolding u_def by (rule users_columns(1))
  have tog: "save_to_disk u = save_to_disk m" "load_to_runtime u = load_to_runtime m"
    by (simp_all add: u_def)
  have main: "main_users m (Inr c) =
     (if found full rs \<noteq> [] then
        (Inr ((users_result m)(''changed'' \<mapsto> PBool False, ''msg'' \<mapsto>
                PStr ''The user already exists in mysql_users and doesn't need to be updated.'',
                ''user'' \<mapsto> first_row (found key rs))),
         Connected (replied (get_user_config_query, map snd (user_key u)) (tables c)
                      (int (length (found key rs))) (tl (found key rs)) ca))
      else if found key rs = [] then
        (case except_MySQLdb_Error (create_user u (check_mode m) (users_result m))
                ''unable to modify user.. '' cb of (r, c') \<Rightarrow> (r, Connected c'))
      else
        (case except_MySQLdb_Error (update_user u (check_mode m) (users_result m))
                ''unable to modify user.. '' cb of (r, c') \<Rightarrow> (r, Connected c')))"
    using users_present_decision [OF checks acc tbl st]
    by (simp add: u_def key_def full_def ca_def cb_def)
  show ?thesis
  proof (cases "found full rs \<noteq> []")
    case True
    then show ?thesis unfolding main
      by (simp add: added_def ca_def)
  next
    case new: False
    show ?thesis
    proof (cases "check_mode m")
      case True
      then show ?thesis unfolding main using new
        by (simp add: except_ok [of "create_user u True (users_result m)" cb, OF users_dry(1)]
              except_ok [of "update_user u True (users_result m)" cb, OF users_dry(2)]
              added_def sb)
    next
      case live: False
      show ?thesis
      proof (cases "found key rs = []")
        case True
        note run = create_user_live [OF ab tb w, of "users_result m"]
        show ?thesis unfolding main using new live True
          by (simp add: except_ok [of "create_user u False (users_result m)" cb, OF run]
                added_def sent_save_then_load sb tog)
      next
        case False
        then have g: "given (ProxySQLUser.config_data u) \<noteq> []"
          using new by (auto simp: key_def full_def)
        note run = update_user_live [OF ab tb w g, of "users_result m"]
        show ?thesis unfolding main using new live False
          by (simp add: except_ok [of "update_user u False (users_result m)" cb, OF run]
                added_def sent_save_then_load sb tog)
      qed
    qed
  qed
qed

lemma users_absent_log:
  fixes m :: users_module
  defines "u \<equiv> ProxySQLUser_init m"
  defines "key \<equiv> sql (user_key u)"
  assumes checks: "perform_checks m = Inr ()" and acc: "rejects c = (\<lambda>_ _ _. None)"
    and tbl: "map_of (tables c) ''mysql_users'' = Some rs" and st: "state m = ''absent''"
  shows "\<exists>r c'. main_users m (Inr c) = (Inr r, Connected c')
     \<and> r ''changed'' = Some (PBool (found key rs \<noteq> []))
     \<and> map fst (added c c') =
         [user_count_query] @
         (if found key rs = [] \<or> check_mode m then []
          else [get_user_config_query, delete_user_config_query]
            @ (if save_to_disk m then [''SAVE MYSQL USERS TO DISK''] else [])
            @ (if load_to_runtime m then [''LOAD MYSQL USERS TO RUNTIME''] else []))"
proof -
  define ca where "ca = replied (user_count_query, map snd (user_key u)) (tables c) 1 [] c"
  have ab: "rejects ca = (\<lambda>_ _ _. None)" and tb: "map_of (tables ca) ''mysql_users'' = Some rs"
    by (simp_all add: ca_def acc tbl)
  have sb: "sent ca = sent c @ [(user_count_query, map snd (user_key u), True)]"
    by (simp add: ca_def)
  have tog: "save_to_disk u = save_to_disk m" "load_to_runtime u = load_to_runtime m"
    by (simp_all add: u_def)
  have main: "main_users m (Inr c) =
     (if found key rs \<noteq> [] then
        (case except_MySQLdb_Error (delete_user u (check_mode m) (users_result m))
                ''unable to remove user.. '' ca of (r, c') \<Rightarrow> (r, Connected c'))
      else
        (Inr ((users_result m)(''changed'' \<mapsto> PBool False, ''msg'' \<mapsto>
                PStr ''The user is already absent from the mysql_users memory configuration'')),
         Connected ca))"
    using users_absent_decision [OF checks acc tbl st]
    by (simp add: u_def key_def ca_def)
  show ?thesis
  proof (cases "found key rs = []")
    case True
    then show ?thesis unfolding main by (simp add: added_def sb)
  next
    case ex: False
    show ?thesis
    proof (cases "check_mode m")
      case True
      then show ?thesis unfolding main using ex
        by (simp add: except_ok [of "delete_user u True (users_result m)" ca, OF users_dry(3)]
              added_def sb)
    next
      case False
      note run = delete_user_live [OF ab tb, of u "users_result m"]
      show ?thesis unfolding main using ex False
        by (simp add: except_ok [of "delete_user u False (users_result m)" ca, OF run]
              added_def sent_save_then_load sb tog key_def)
    qed
  qed
qed

lemma scheduler_present_log:
  fixes m :: scheduler_module
  defines "u \<equiv> ProxySQLSchedule_init m"
  defines "full \<equiv> sql (schedule_key u @ given (config_data u))"
  assumes checks: "perform_checks_scheduler m = Inr ()" and acc: "rejects c = (\<lambda>_ _ _. None)"
    and tbl: "map_of (tables c) ''scheduler'' = Some rs" and st: "state m = ''present''"
  shows "\<exists>r c'. main_scheduler m (Inr c) = (Inr r, Connected c')
     \<and> r ''changed'' = Some (PBool (found full rs = []))
     \<and> r ''msg'' = Some (PStr
          (if found full rs \<noteq> []
           then ''The schedule already exists and doesn't need to be updated.''
           else if check_mode m
           then ''Schedule would have been added to scheduler, however check_mode is enabled.''
           else ''Added schedule to scheduler''))
     \<and> map fst (added c c') =
         [fst (check_schedule_config_request u)] @
         (if found full rs \<noteq> [] then [fst (get_schedule_config_request u)]
          else if check_mode m then []
          else [fst (create_schedule_config_request u), fst (get_schedule_config_request u)]
            @ (if save_to_disk m then [''SAVE SCHEDULER TO DISK''] else [])
            @ (if load_to_runtime m then [''LOAD SCHEDULER TO RUNTIME''] else []))"
proof -
  define ca where "ca = replied (check_schedule_config_request u) (tables c) 1 [] c"
  have ab: "rejects ca = (\<lambda>_ _ _. None)" and tb: "map_of (tables ca) ''scheduler'' = Some rs"
    by (simp_all add: ca_def acc tbl)
  have sb: "sent ca = sent c @ [(fst (check_schedule_config_request u),
                                snd (check_schedule_config_request u), True)]"
    by (simp add: ca_def)
  have w: "list_all (\<lambda>(col, val). wordy col) (given (config_data u))"
    unfolding u_def by (rule schedule_columns(1))
  have tog: "save_to_disk u = save_to_disk m" "load_to_runtime u = load_to_runtime m"
    by (simp_all add: u_def)
  have main: "main_scheduler m (Inr c) =
     (if found full rs \<noteq> [] then
        (Inr ((scheduler_result m)(''changed'' \<mapsto> PBool False, ''msg'' \<mapsto>
                PStr ''The schedule already exists and doesn't need to be updated.'',
                ''schedules'' \<mapsto> PTuple (map PDict (found full rs)))),
         Connected (replied (get_schedule_config_request u) (tables c)
                      (int (length (found full rs))) [] ca))
      else
        (case except_MySQLdb_Error (create_schedule u (check_mode m) (scheduler_result m))
                ''unable to modify schedule.. '' ca of (r, c') \<Rightarrow> (r, Connected c')))"
    using scheduler_present_decision [OF checks acc tbl st]
    by (simp add: u_def full_def ca_def)
  show ?thesis
  proof (cases "found full rs \<noteq> []")
    case True
    then show ?thesis unfolding main by (simp add: added_def sb)
  next
    case new: False
    show ?thesis
    proof (cases "check_mode m")
      case True
      then show ?thesis unfolding main using new
        by (simp add: except_ok [of "create_schedule u True (scheduler_result m)" ca,
                                 OF schedule_dry(1)] added_def sb)
    next
      case False
      note run = create_schedule_live [OF ab tb w, of "scheduler_result m"]
      show ?thesis unfolding main using new False
        by (simp add: except_ok [of "create_schedule u False (scheduler_result m)" ca, OF run]
              added_def sent_save_then_load sb tog)
    qed
  qed
qed

lemma scheduler_absent_log:
  fixes m :: scheduler_module
  defines "u \<equiv> ProxySQLSchedule_init m"
  defines "full \<equiv> sql (schedule_key u @ given (config_data u))"
  assumes checks: "perform_checks_scheduler m = Inr ()" and acc: "rejects c = (\<lambda>_ _ _. None)"
    and tbl: "map_of (tables c) ''scheduler'' = Some rs" and st: "state m = ''absent''"
  shows "\<exists>r c'. main_scheduler m (Inr c) = (r, Connected c')
     \<and> (case r of
          Inl e \<Rightarrow> 1 < length (found full rs) \<and> \<not> force_delete m \<and> e = Fail_json
                     ''Operation would delete multiple records use force_delete to override this''
        | Inr res \<Rightarrow> (length (found full rs) \<le> 1 \<or> force_delete m) \<and>
            res ''changed'' = Some (if found full rs = [] then PBool False
                                    else if check_mode m then PBool True
                                    else PTuple [PBool True, PInt (int (length (found full rs)))]))
     \<and> map fst (added c c') =
         [fst (check_schedule_config_request u)] @
         (if found full rs = [] \<or> check_mode m
             \<or> (1 < length (found full rs) \<and> \<not> force_delete m) then []
          else [fst (get_schedule_config_request u), fst (delete_schedule_config_request u)]
            @ (if save_to_disk m then [''SAVE SCHEDULER TO DISK''] else [])
            @ (if load_to_runtime m then [''LOAD SCHEDULER TO RUNTIME''] else []))"
proof -
  define ca where "ca = replied (check_schedule_config_request u) (tables c) 1 [] c"
  have ab: "rejects ca = (\<lambda>_ _ _. None)" and tb: "map_of (tables ca) ''scheduler'' = Some rs"
    by (simp_all add: ca_def acc tbl)
  have sb: "sent ca = sent c @ [(fst (check_schedule_config_request u),
                                snd (check_schedule_config_request u), True)]"
    by (simp add: ca_def)
  have w: "list_all (\<lambda>(col, val). wordy col) (given (config_data u))"
    unfolding u_def by (rule schedule_columns(1))
  have tog: "save_to_disk u = save_to_disk m" "load_to_runtime u = load_to_runtime m"
    by (simp_all add: u_def)
  have main: "main_scheduler m (Inr c) =
     (if found full rs = [] then
        (Inr ((scheduler_result m)(''changed'' \<mapsto> PBool False, ''msg'' \<mapsto>
                PStr ''The schedule is already absent from the memory configuration'')),
         Connected ca)
      else if length (found full rs) = 1 \<or> force_delete m then
        (case except_MySQLdb_Error (delete_schedule u (check_mode m) (scheduler_result m))
                ''unable to remove schedule.. '' ca of (r, c') \<Rightarrow> (r, Connected c'))
      else
        (Inl (Fail_json ''Operation would delete multiple records use force_delete to override this''),
         Connected ca))"
    using scheduler_absent_decision [OF checks acc tbl st]
    by (simp add: u_def full_def ca_def)
  show ?thesis
  proof (cases "found full rs = []")
    case True
    then show ?thesis unfolding main by (simp add: added_def sb)
  next
    case ex: False
    then have pos: "0 < length (found full rs)" by simp
    show ?thesis
    proof (cases "length (found full rs) = 1 \<or> force_delete m")
      case False
      then have "1 < length (found full rs)" using pos by arith
      then show ?thesis unfolding main using ex False by (simp add: added_def sb)
    next
      case go: True
      then have le: "length (found full rs) \<le> 1 \<or> force_delete m" by auto
      have no: "\<not> (1 < length (found full rs) \<and> \<not> force_delete m)" using go by auto
      show ?thesis
      proof (cases "check_mode m")
        case True
        then show ?thesis unfolding main using ex go le no
          by (simp add: except_ok [of "delete_schedule u True (scheduler_result m)" ca,
                                   OF schedule_dry(2)] added_def sb)
      next
        case False
        note run = delete_schedule_live [OF ab tb w, of "scheduler_result m"]
        show ?thesis unfolding main using ex go le no False
          by (simp add: except_ok [of "delete_schedule u False (scheduler_result m)" ca, OF run]
                added_def sent_save_then_load sb tog full_def)
      qed
    qed
  qed
qed

lemma variables_set_log:
  fixes m :: variables_module and rs :: "row list"
  defines "named \<equiv> found [(''variable_name'', PStr (variable m))] rs"
  defines "same \<equiv> found [(''variable_name'', PStr (variable m)),
                           (''variable_value'', literal (val m))] rs"
  assumes checks: "perform_checks m = Inr ()" and acc: "rejects c = (\<lambda>_ _ _. None)"
    and tbl: "map_of (tables c) ''global_variables'' = Some rs" and tr: "truthy (val m)"
  shows "\<exists>r c'. main_variables m (Inr c) = (r, Connected c')
     \<and> (case r of
          Inl e \<Rightarrow> named = [] \<and> e = not_found (variable m)
        | Inr res \<Rightarrow> named \<noteq> [] \<and> res ''changed'' = Some (PBool (same = []))
            \<and> res ''msg'' = Some (PStr
                 (if same \<noteq> [] then ''The variable is already been set to the supplied value''
                  else if check_mode m
                  then ''Variable would have been set to the supplied value, however check_mode is enabled.''
                  else ''Set the variable to the supplied value'')))
     \<and> map fst (added c c') =
         [get_config_query] @
         (if named = [] then []
          else [check_config_query] @
            (if same \<noteq> [] then [get_config_query]
             else if check_mode m then []
             else [set_config_query, get_config_query]
               @ (if save_to_disk m
                  then [if prefix ''admin'' (variable m) then ''SAVE ADMIN VARIABLES TO DISK''
                        else ''SAVE MYSQL VARIABLES TO DISK''] else [])
               @ (if load_to_runtime m
                  then [if prefix ''admin'' (variable m) then ''LOAD ADMIN VARIABLES TO RUNTIME''
                        else ''LOAD MYSQL VARIABLES TO RUNTIME''] else [])))"
proof -
  note main = variables_set_path [OF checks acc tbl tr, folded named_def same_def]
  show ?thesis
  proof (cases "named = []")
    case True
    then show ?thesis unfolding main by (simp add: added_def)
  next
    case ex: False
    show ?thesis
    proof (cases "same = []")
      case False
      then show ?thesis unfolding main using ex by (simp add: added_def)
    next
      case new: True
      show ?thesis
      proof (cases "check_mode m")
        case True
        then show ?thesis unfolding main using ex new by (simp add: added_def)
      next
        case False
        then show ?thesis unfolding main using ex new
          by (simp add: added_def sent_save_then_load)
      qed
    qed
  qed
qed

lemma verb_word:
  "list_all (\<lambda>c. \<not> is_space c) w \<Longrightarrow> verb (w @ CHR '' '' # rest) = w"
  by (induction w) (auto simp: verb_def is_space_def)

lemma verb_users:
  "verb (fst (check_user_privs_request self)) = ''SELECT''"
  "verb user_count_query = ''SELECT''"
  "verb get_user_config_query = ''SELECT''"
  "verb (fst (create_user_config_request self)) = ''INSERT''"
  "verb delete_user_config_query = ''DELETE''"
  by (simp_all add: check_user_privs_request_def and_conditions_eq create_user_config_request_eq
        user_count_query_def get_user_config_query_def delete_user_config_query_def
        verb_def is_space_def)

lemma verb_update_user:
  "verb (fst (update_user_config_request self)) = ''UPDATE''"
proof (cases "given (ProxySQLUser.config_data self)")
  case Nil
  have "fold (\<lambda>(col, val) (cols, query_string, query_data).
                   if val \<noteq> PNone then
                     (let cols = cols + 1;
                          query_data = query_data @ [val] in
                      if cols = 1
                      then (cols, query_string @ ''\<newline>SET '' @ col @ ''= %s,'', query_data)
                      else (cols, query_string @ ''\<newline>    '' @ col @ '' = %s,'', query_data))
                   else (cols, query_string, query_data)) ps (n :: nat, q, d) = (n, q, d)"
    if "given ps = []" for ps n q d
    using that by (induction ps) (auto simp: given_def split: if_splits)
  from this [OF Nil] show ?thesis
    by (simp add: update_user_config_request_def verb_def is_space_def)
next
  case (Cons p rest)
  obtain col x where "p = (col, x)" by (cases p)
  with Cons show ?thesis
    by (simp add: update_user_config_request_eq [of self col x rest] verb_def is_space_def)
qed

lemma verb_scheduler:
  "verb (fst (check_schedule_config_request self)) = ''SELECT''"
  "verb (fst (get_schedule_config_request self)) = ''SELECT''"
  "verb (fst (create_schedule_config_request self)) = ''INSERT''"
  "verb (fst (delete_schedule_config_request self)) = ''DELETE''"
  by (simp_all add: check_schedule_config_request_def get_schedule_config_request_def
        delete_schedule_config_request_def and_conditions_eq create_schedule_config_request_eq
        schedule_count_query_def get_schedule_config_query_def delete_schedule_config_query_def
        verb_def is_space_def)

lemma verb_variables:
  "verb get_config_query = ''SELECT''"
  "verb check_config_query = ''SELECT''"
  "verb set_config_query = ''UPDATE''"
  by (simp_all add: get_config_query_def check_config_query_def set_config_query_def
        verb_def is_space_def)

lemma verb_propagation:
  "verb ''SAVE MYSQL USERS TO DISK'' = ''SAVE''"
  "verb ''LOAD MYSQL USERS TO RUNTIME'' = ''LOAD''"
  "verb ''SAVE SCHEDULER TO DISK'' = ''SAVE''"
  "verb ''LOAD SCHEDULER TO RUNTIME'' = ''LOAD''"
  "verb ''SAVE MYSQL VARIABLES TO DISK'' = ''SAVE''"
  "verb ''LOAD MYSQL VARIABLES TO RUNTIME'' = ''LOAD''"
  "verb ''SAVE ADMIN VARIABLES TO DISK'' = ''SAVE''"
  "verb ''LOAD ADMIN VARIABLES TO RUNTIME'' = ''LOAD''"
  by (simp_all add: verb_def is_space_def)

lemmas verbs = verb_users verb_update_user verb_scheduler verb_variables verb_propagation

lemma map_verb: "map (verb \<circ> fst) xs = map verb (map fst xs)"
  by simp

lemma users_present_verbs:
  fixes m :: users_module
  assumes "perform_checks m = Inr ()" and "rejects c = (\<lambda>_ _ _. None)"
    and "map_of (tables c) ''mysql_users'' = Some rs" and "state m = ''present''"
  shows "\<exists>r c'. main_users m (Inr c) = (Inr r, Connected c')
     \<and> r ''changed'' = Some (PBool (found (desired_user m) rs = []))
     \<and> r ''msg'' = Some (PStr
          (if found (desired_user m) rs \<noteq> []
           then ''The user already exists in mysql_users and doesn't need to be updated.''
           else if found (keyed_user m) rs = [] then
             (if check_mode m
              then ''User would have been added to mysql_users, however check_mode is enabled.''
              else ''Added user to mysql_users'')
           else
             (if check_mode m
              then ''User would have been updated in mysql_users, however check_mode is enabled.''
              else ''Updated user in mysql_users'')))
     \<and> verbs c c' =
         (if found (desired_user m) rs \<noteq> [] then [''SELECT'', ''SELECT'']
          else [''SELECT'', ''SELECT''] @
            (if check_mode m then []
             else [if found (keyed_user m) rs = [] then ''INSERT'' else ''UPDATE'', ''SELECT'']
               @ propagation (save_to_disk m) (load_to_runtime m)))"
proof -
  from users_present_log [OF assms] obtain r c' where
    run: "main_users m (Inr c) = (Inr r, Connected c')"
    and ch: "r ''changed'' = Some (PBool (found (desired_user m) rs = []))"
    and msg: "r ''msg'' = Some (PStr
          (if found (desired_user m) rs \<noteq> []
           then ''The user already exists in mysql_users and doesn't need to be updated.''
           else if found (keyed_user m) rs = [] then
             (if check_mode m
              then ''User would have been added to mysql_users, however check_mode is enabled.''
              else ''Added user to mysql_users'')
           else
             (if check_mode m
              then ''User would have been updated in mysql_users, however check_mode is enabled.''
              else ''Updated user in mysql_users'')))"
    and log: "map fst (added c c') =
         (if found (desired_user m) rs \<noteq> []
          then [fst (check_user_privs_request (ProxySQLUser_init m)), get_user_config_query]
          else [fst (check_user_privs_request (ProxySQLUser_init m)), user_count_query] @
            (if check_mode m then []
             else [if found (keyed_user m) rs = []
                   then fst (create_user_config_request (ProxySQLUser_init m))
                   else fst (update_user_config_request (ProxySQLUser_init m)),
                   get_user_config_query]
               @ (if save_to_disk m then [''SAVE MYSQL USERS TO DISK''] else [])
               @ (if load_to_runtime m then [''LOAD MYSQL USERS TO RUNTIME''] else [])))"
    unfolding desired_user_def keyed_user_def by blast
  have "verbs c c' = map verb (map fst (added c c'))" by (simp add: verbs_def)
  also have "\<dots> = (if found (desired_user m) rs \<noteq> [] then [''SELECT'', ''SELECT'']
          else [''SELECT'', ''SELECT''] @
            (if check_mode m then []
             else [if found (keyed_user m) rs = [] then ''INSERT'' else ''UPDATE'', ''SELECT'']
               @ propagation (save_to_disk m) (load_to_runtime m)))"
    unfolding log by (simp add: verbs propagation_def)
  finally show ?thesis using run ch msg by blast
qed

lemma scheduler_present_verbs:
  fixes m :: scheduler_module
  assumes "perform_checks_scheduler m = Inr ()" and "rejects c = (\<lambda>_ _ _. None)"
    and "map_of (tables c) ''scheduler'' = Some rs" and "state m = ''present''"
  shows "\<exists>r c'. main_scheduler m (Inr c) = (Inr r, Connected c')
     \<and> r ''changed'' = Some (PBool (found (desired_schedule m) rs = []))
     \<and> r ''msg'' = Some (PStr
          (if found (desired_schedule m) rs \<noteq> []
           then ''The schedule already exists and doesn't need to be updated.''
           else if check_mode m
           then ''Schedule would have been added to scheduler, however check_mode is enabled.''
           else ''Added schedule to scheduler''))
     \<and> verbs c c' =
         [''SELECT''] @
         (if found (desired_schedule m) rs \<noteq> [] then [''SELECT'']
          else if check_mode m then []
          else [''INSERT'', ''SELECT''] @ propagation (save_to_disk m) (load_to_runtime m))"
proof -
  from scheduler_present_log [OF assms] obtain r c' where
    run: "main_scheduler m (Inr c) = (Inr r, Connected c')"
    and ch: "r ''changed'' = Some (PBool (found (desired_schedule m) rs = []))"
    and msg: "r ''msg'' = Some (PStr
          (if found (desired_schedule m) rs \<noteq> []
           then ''The schedule already exists and doesn't need to be updated.''
           else if check_mode m
           then ''Schedule would have been added to scheduler, however check_mode is enabled.''
           else ''Added schedule to scheduler''))"
    and log: "map fst (added c c') =
         [fst (check_schedule_config_request (ProxySQLSchedule_init m))] @
         (if found (desired_schedule m) rs \<noteq> []
          then [fst (get_schedule_config_request (ProxySQLSchedule_init m))]
          else if check_mode m then []
          else [fst (create_schedule_config_request (ProxySQLSchedule_init m)),
                fst (get_schedule_config_request (ProxySQLSchedule_init m))]
            @ (if save_to_disk m then [''SAVE SCHEDULER TO DISK''] else [])
            @ (if load_to_runtime m then [''LOAD SCHEDULER TO RUNTIME''] else []))"
    unfolding desired_schedule_def by blast
  have "verbs c c' = map verb (map fst (added c c'))" by (simp add: verbs_def)
  also have "\<dots> = [''SELECT''] @
         (if found (desired_schedule m) rs \<noteq> [] then [''SELECT'']
          else if check_mode m then []
          else [''INSERT'', ''SELECT''] @ propagation (save_to_disk m) (load_to_runtime m))"
    unfolding log by (simp add: verbs propagation_def)
  finally show ?thesis using run ch msg by blast
qed

lemma variables_set_verbs:
  fixes m :: variables_module
  assumes "perform_checks m = Inr ()" and "rejects c = (\<lambda>_ _ _. None)"
    and "map_of (tables c) ''global_variables'' = Some rs" and "truthy (val m)"
  shows "\<exists>r c'. main_variables m (Inr c) = (r, Connected c')
     \<and> (case r of
          Inl e \<Rightarrow> found (named_variable m) rs = [] \<and> e = not_found (variable m)
        | Inr res \<Rightarrow> found (named_variable m) rs \<noteq> []
            \<and> res ''changed'' = Some (PBool (found (desired_variable m) rs = []))
            \<and> res ''msg'' = Some (PStr
                 (if found (desired_variable m) rs \<noteq> []
                  then ''The variable is already been set to the supplied value''
                  else if check_mode m
                  then ''Variable would have been set to the supplied value, however check_mode is enabled.''
                  else ''Set the variable to the supplied value'')))
     \<and> verbs c c' =
         [''SELECT''] @
         (if found (named_variable m) rs = [] then []
          else [''SELECT''] @
            (if found (desired_variable m) rs \<noteq> [] then [''SELECT'']
             else if check_mode m then []
             else [''UPDATE'', ''SELECT''] @ propagation (save_to_disk m) (load_to_runtime m)))"
proof -
  from variables_set_log [OF assms] obtain r c' where
    run: "main_variables m (Inr c) = (r, Connected c')"
    and res: "(case r of
          Inl e \<Rightarrow> found (named_variable m) rs = [] \<and> e = not_found (variable m)
        | Inr res \<Rightarrow> found (named_variable m) rs \<noteq> []
            \<and> res ''changed'' = Some (PBool (found (desired_variable m) rs = []))
            \<and> res ''msg'' = Some (PStr
                 (if found (desired_variable m) rs \<noteq> []
                  then ''The variable is already been set to the supplied value''
                  else if check_mode m
                  then ''Variable would have been set to the supplied value, however check_mode is enabled.''
                  else ''Set the variable to the supplied value'')))"
    and log: "map fst (added c c') =
         [get_config_query] @
         (if found (named_variable m) rs = [] then []
          else [check_config_query] @
            (if found (desired_variable m) rs \<noteq> [] then [get_config_query]
             else if check_mode m then []
             else [set_config_query, get_config_query]
               @ (if save_to_disk m
                  then [if prefix ''admin'' (variable m) then ''SAVE ADMIN VARIABLES TO DISK''
                        else ''SAVE MYSQL VARIABLES TO DISK''] else [])
               @ (if load_to_runtime m
                  then [if prefix ''admin'' (variable m) then ''LOAD ADMIN VARIABLES TO RUNTIME''
                        else ''LOAD MYSQL VARIABLES TO RUNTIME''] else [])))"
    unfolding named_variable_def desired_variable_def by blast
  have "verbs c c' = map verb (map fst (added c c'))" by (simp add: verbs_def)
  also have "\<dots> = [''SELECT''] @
         (if found (named_variable m) rs = [] then []
          else [''SELECT''] @
            (if found (desired_variable m) rs \<noteq> [] then [''SELECT'']
             else if check_mode m then []
             else [''UPDATE'', ''SELECT''] @ propagation (save_to_disk m) (load_to_runtime m)))"
    unfolding log by (simp add: verbs propagation_def)
  finally show ?thesis using run res by blast
qed

lemma users_absent_verbs:
  fixes m :: users_module
  assumes "perform_checks m = Inr ()" and "rejects c = (\<lambda>_ _ _. None)"
    and "map_of (tables c) ''mysql_users'' = Some rs" and "state m = ''absent''"
  shows "\<exists>r c'. main_users m (Inr c) = (Inr r, Connected c')
     \<and> r ''changed'' = Some (PBool (found (keyed_user m) rs \<noteq> []))
     \<and> verbs c c' =
         [''SELECT''] @
         (if found (keyed_user m) rs = [] \<or> check_mode m then []
          else [''SELECT'', ''DELETE''] @ propagation (save_to_disk m) (load_to_runtime m))"
proof -
  from users_absent_log [OF assms] obtain r c' where
    run: "main_users m (Inr c) = (Inr r, Connected c')"
    and ch: "r ''changed'' = Some (PBool (found (keyed_user m) rs \<noteq> []))"
    and log: "map fst (added c c') =
         [user_count_query] @
         (if found (keyed_user m) rs = [] \<or> check_mode m then []
          else [get_user_config_query, delete_user_config_query]
            @ (if save_to_disk m then [''SAVE MYSQL USERS TO DISK''] else [])
            @ (if load_to_runtime m then [''LOAD MYSQL USERS TO RUNTIME''] else []))"
    unfolding keyed_user_def by blast
  have "verbs c c' = map verb (map fst (added c c'))" by (simp add: verbs_def)
  also have "\<dots> = [''SELECT''] @
         (if found (keyed_user m) rs = [] \<or> check_mode m then []
          else [''SELECT'', ''DELETE''] @ propagation (save_to_disk m) (load_to_runtime m))"
    unfolding log by (simp add: verbs propagation_def)
  finally show ?thesis using run ch by blast
qed

lemma scheduler_absent_verbs:
  fixes m :: scheduler_module
  assumes "perform_checks_scheduler m = Inr ()" and "rejects c = (\<lambda>_ _ _. None)"
    and "map_of (tables c) ''scheduler'' = Some rs" and "state m = ''absent''"
  shows "\<exists>r c'. main_scheduler m (Inr c) = (r, Connected c')
     \<and> (case r of
          Inl e \<Rightarrow> 1 < length (found (desired_schedule m) rs) \<and> \<not> force_delete m
                     \<and> e = Fail_json
                     ''Operation would delete multiple records use force_delete to override this''
        | Inr res \<Rightarrow> (length (found (desired_schedule m) rs) \<le> 1 \<or> force_delete m) \<and>
            res ''changed'' = Some
              (if found (desired_schedule m) rs = [] then PBool False
               else if check_mode m then PBool True
               else PTuple [PBool True, PInt (int (length (found (desired_schedule m) rs)))]))
     \<and> verbs c c' =
         [''SELECT''] @
         (if found (desired_schedule m) rs = [] \<or> check_mode m
             \<or> (1 < length (found (desired_schedule m) rs) \<and> \<not> force_delete m) then []
          else [''SELECT'', ''DELETE''] @ propagation (save_to_disk m) (load_to_runtime m))"
proof -
  from scheduler_absent_log [OF assms] obtain r c' where
    run: "main_scheduler m (Inr c) = (r, Connected c')"
    and res: "(case r of
          Inl e \<Rightarrow> 1 < length (found (desired_schedule m) rs) \<and> \<not> force_delete m
                     \<and> e = Fail_json
                     ''Operation would delete multiple records use force_delete to override this''
        | Inr res \<Rightarrow> (length (found (desired_schedule m) rs) \<le> 1 \<or> force_delete m) \<and>
            res ''changed'' = Some
              (if found (desired_schedule m) rs = [] then PBool False
               else if check_mode m then PBool True
               else PTuple [PBool True, PInt (int (length (found (desired_schedule m) rs)))]))"
    and log: "map fst (added c c') =
         [fst (check_schedule_config_request (ProxySQLSchedule_init m))] @
         (if found (desired_schedule m) rs = [] \<or> check_mode m
             \<or> (1 < length (found (desired_schedule m) rs) \<and> \<not> force_delete m) then []
          else [fst (get_schedule_config_request (ProxySQLSchedule_init m)),
                fst (delete_schedule_config_request (ProxySQLSchedule_init m))]
            @ (if save_to_disk m then [''SAVE SCHEDULER TO DISK''] else [])
            @ (if load_to_runtime m then [''LOAD SCHEDULER TO RUNTIME''] else []))"
    unfolding desired_schedule_def by blast
  have "verbs c c' = map verb (map fst (added c c'))" by (simp add: verbs_def)
  also have "\<dots> = [''SELECT''] @
         (if found (desired_schedule m) rs = [] \<or> check_mode m
             \<or> (1 < length (found (desired_schedule m) rs) \<and> \<not> force_delete m) then []
          else [''SELECT'', ''DELETE''] @ propagation (save_to_disk m) (load_to_runtime m))"
    unfolding log by (simp add: verbs propagation_def)
  finally show ?thesis using run res by blast
qed

lemma scheduler_absent_rejected:
  fixes m :: scheduler_module
  assumes "perform_checks_scheduler m = Inr ()" and "rejects c = (\<lambda>_ _ _. None)"
    and "map_of (tables c) ''scheduler'' = Some rs" and "state m = ''absent''"
    and many: "1 < length (found (desired_schedule m) rs)" and "\<not> force_delete m"
  shows "\<exists>c'. main_scheduler m (Inr c) =
           (Inl (Fail_json ''Operation would delete multiple records use force_delete to override this''),
            Connected c')
         \<and> tables c' = tables c \<and> verbs c c' = [''SELECT'']"
proof -
  from many have "found (desired_schedule m) rs \<noteq> []" by auto
  then show ?thesis
    using scheduler_absent_decision [OF assms(1-4)] many assms(6)
    by (simp add: desired_schedule_def verbs_def added_def verbs)
qed

lemma scheduler_absent_deletes:
  fixes m :: scheduler_module
  assumes checks: "perform_checks_scheduler m = Inr ()" and acc: "rejects c = (\<lambda>_ _ _. None)"
    and tbl: "map_of (tables c) ''scheduler'' = Some rs" and st: "state m = ''absent''"
    and ex: "found (desired_schedule m) rs \<noteq> []"
    and go: "length (found (desired_schedule m) rs) = 1 \<or> force_delete m"
    and live: "\<not> check_mode m"
    and save: "bulk c [''SAVE'', ''SCHEDULER'', ''TO'', ''DISK''] = id"
    and load: "bulk c [''LOAD'', ''SCHEDULER'', ''TO'', ''RUNTIME''] = id"
  shows "\<exists>r c'. main_scheduler m (Inr c) = (Inr r, Connected c')
         \<and> r ''schedules'' = Some (PTuple (map PDict (found (desired_schedule m) rs)))
         \<and> tables c' = with_rows ''scheduler''
                          (filter (\<lambda>r. \<not> matches (desired_schedule m) r) rs) c"
proof -
  define u where "u = ProxySQLSchedule_init m"
  define ca where "ca = replied (check_schedule_config_request u) (tables c) 1 [] c"
  have ab: "rejects ca = (\<lambda>_ _ _. None)" and tb: "map_of (tables ca) ''scheduler'' = Some rs"
    and bb: "bulk ca = bulk c" and ta: "tables ca = tables c"
    by (simp_all add: ca_def acc tbl)
  have w: "list_all (\<lambda>(col, val). wordy col) (given (config_data u))"
    unfolding u_def by (rule schedule_columns(1))
  have main: "main_scheduler m (Inr c) =
        (case except_MySQLdb_Error (delete_schedule u False (scheduler_result m))
                ''unable to remove schedule.. '' ca of (r, c') \<Rightarrow> (r, Connected c'))"
    using scheduler_absent_decision [OF checks acc tbl st] ex go live
    by (simp add: u_def ca_def desired_schedule_def)
  have kept: "tables (save_then_load ''SAVE SCHEDULER TO DISK'' ''LOAD SCHEDULER TO RUNTIME''
                        s l c3) = tables c3" if "bulk c3 = bulk c" for s l c3
    by (rule tables_save_then_load) (simp_all add: propagation_tokens that save load)
  note run = delete_schedule_live [OF ab tb w, of "scheduler_result m"]
  have d: "desired_schedule m = sql (schedule_key u @ given (config_data u))"
    by (simp add: desired_schedule_def u_def)
  show ?thesis
    unfolding main d
    by (simp add: except_ok [of "delete_schedule u False (scheduler_result m)" ca, OF run]
          kept bb with_rows_def ta)
qed

lemma users_absent_deletes:
  fixes m :: users_module
  assumes checks: "perform_checks m = Inr ()" and acc: "rejects c = (\<lambda>_ _ _. None)"
    and tbl: "map_of (tables c) ''mysql_users'' = Some rs" and st: "state m = ''absent''"
    and ex: "found (keyed_user m) rs \<noteq> []" and live: "\<not> check_mode m"
    and save: "bulk c [''SAVE'', ''MYSQL'', ''USERS'', ''TO'', ''DISK''] = id"
    and load: "bulk c [''LOAD'', ''MYSQL'', ''USERS'', ''TO'', ''RUNTIME''] = id"
  shows "\<exists>r c'. main_users m (Inr c) = (Inr r, Connected c')
         \<and> r ''changed'' = Some (PBool True)
         \<and> r ''user'' = Some (first_row (found (keyed_user m) rs))
         \<and> tables c' = with_rows ''mysql_users''
                          (filter (\<lambda>r. \<not> matches (keyed_user m) r) rs) c"
proof -
  define u where "u = ProxySQLUser_init m"
  define ca where "ca = replied (user_count_query, map snd (user_key u)) (tables c) 1 [] c"
  have ab: "rejects ca = (\<lambda>_ _ _. None)" and tb: "map_of (tables ca) ''mysql_users'' = Some rs"
    and bb: "bulk ca = bulk c" and ta: "tables ca = tables c"
    by (simp_all add: ca_def acc tbl)
  have main: "main_users m (Inr c) =
        (case except_MySQLdb_Error (delete_user u False (users_result m))
                ''unable to remove user.. '' ca of (r, c') \<Rightarrow> (r, Connected c'))"
    using users_absent_decision [OF checks acc tbl st] ex live
    by (simp add: u_def ca_def keyed_user_def)
  have kept: "tables (save_then_load ''SAVE MYSQL USERS TO DISK'' ''LOAD MYSQL USERS TO RUNTIME''
                        s l c3) = tables c3" if "bulk c3 = bulk c" for s l c3
    by (rule tables_save_then_load) (simp_all add: propagation_tokens that save load)
  note run = delete_user_live [OF ab tb, of u "users_result m"]
  have d: "keyed_user m = sql (user_key u)"
    by (simp add: keyed_user_def u_def)
  show ?thesis
    unfolding main d
    by (simp add: except_ok [of "delete_user u False (users_result m)" ca, OF run]
          kept bb with_rows_def ta)
qed

(*LIB-END*)

section \<open>The cursor\<close>

lemma execute_sent:
  "sent (snd (execute q d c)) = sent c @ [(q, d, ran (fst (execute q d c)))]"
  by (simp add: execute_def split: prod.splits)

section \<open>Layer transfers\<close>

text \<open>
  C7. With \<^verbatim>\<open>config_layer = CONFIG\<close> (and a valid port), \<^verbatim>\<open>LOAD ... FROM\<close> passes
  the checks; every other action and direction makes \<^verbatim>\<open>main\<close> fail before
  \<^verbatim>\<open>mysql_connect\<close> is called, and the message names the action, the direction, or both.
\<close>

theorem config_layer_rule:
  assumes "config_layer m = Some ''CONFIG''" and "0 \<le> login_port m" and "login_port m \<le> 65535"
  shows "(action m = ''LOAD'' \<and> direction m = ''FROM'' \<and> mysqldb_found m \<longrightarrow>
            perform_checks_config m = Inr ())
       \<and> (action m \<noteq> ''LOAD'' \<and> direction m \<noteq> ''FROM'' \<longrightarrow>
            main_config m conn =
              (Inl (Fail_json (''Neither the action '' @ dq @ action m @ dq
                 @ '' nor the direction '' @ dq @ direction m @ dq
                 @ '' are valid combination with the CONFIG config_layer'')), Not_connected))
       \<and> (action m \<noteq> ''LOAD'' \<and> direction m = ''FROM'' \<longrightarrow>
            main_config m conn =
              (Inl (Fail_json (''The action '' @ dq @ action m @ dq
                 @ '' is not a valid combination with the CONFIG config_layer'')), Not_connected))
       \<and> (action m = ''LOAD'' \<and> direction m \<noteq> ''FROM'' \<longrightarrow>
            main_config m conn =
              (Inl (Fail_json (''The direction '' @ dq @ direction m @ dq
                 @ '' is not a valid combination with the CONFIG config_layer'')), Not_connected))"
  using assms by (simp add: main_config_def run_module_def perform_checks_config_def)

theorem config_layer_rule_witness:
  "perform_checks_config (config_call ''LOAD'' ''FROM'' ''CONFIG'') = Inr ()
   \<and> main_config (config_call ''SAVE'' ''TO'' ''CONFIG'') (Inr store0) =
       (Inl (Fail_json (''Neither the action '' @ dq @ ''SAVE'' @ dq @ '' nor the direction ''
          @ dq @ ''TO'' @ dq @ '' are valid combination with the CONFIG config_layer'')),
        Not_connected)
   \<and> main_config (config_call ''SAVE'' ''FROM'' ''CONFIG'') (Inr store0) =
       (Inl (Fail_json (''The action '' @ dq @ ''SAVE'' @ dq
          @ '' is not a valid combination with the CONFIG config_layer'')), Not_connected)
   \<and> main_config (config_call ''LOAD'' ''TO'' ''CONFIG'') (Inr store0) =
       (Inl (Fail_json (''The direction '' @ dq @ ''TO'' @ dq
          @ '' is not a valid combination with the CONFIG config_layer'')), Not_connected)"
  using config_layer_rule [of "config_call ''LOAD'' ''FROM'' ''CONFIG''" "Inr store0"]
        config_layer_rule [of "config_call ''SAVE'' ''TO'' ''CONFIG''" "Inr store0"]
        config_layer_rule [of "config_call ''SAVE'' ''FROM'' ''CONFIG''" "Inr store0"]
        config_layer_rule [of "config_call ''LOAD'' ''TO'' ''CONFIG''" "Inr store0"]
  by (simp add: config_call_def)

text \<open>
  C8. For a legal combination whose four words are supplied, \<^verbatim>\<open>main\<close> sends exactly
  one statement, the four words joined by blanks, in check mode or not; when the store
  runs it without error the result is \<^verbatim>\<open>changed = True\<close>, whatever the command did.
\<close>

theorem bulk_transfer_changed:
  assumes "0 \<le> login_port m" and "login_port m \<le> 65535" and "mysqldb_found m"
    and "config_settings m = Some s" and "config_layer m = Some l"
    and "l = ''CONFIG'' \<longrightarrow> action m = ''LOAD'' \<and> direction m = ''FROM''"
    and "command = action m @ '' '' @ s @ '' '' @ direction m @ '' '' @ l"
  shows "snd (main_config m (Inr c)) = Connected (snd (execute command [] c))
       \<and> sent (snd (execute command [] c)) =
           sent c @ [(command, [], ran (fst (execute command [] c)))]
       \<and> (fst (execute command [] c) = Inr () \<longrightarrow>
            fst (main_config m (Inr c)) = Inr [''changed'' \<mapsto> PBool True])"
  using assms
  by (auto simp: main_config_def run_module_def perform_checks_config_def manage_config_def
        except_MySQLdb_Error_def bind_io_def return_io_def execute_sent
        split: prod.splits sum.splits error.splits)

theorem bulk_transfer_changed_witness:
  "snd (main_config (config_call ''SAVE'' ''TO'' ''DISK'') (Inr store0)) =
     Connected (store0\<lparr>sent := [(''SAVE MYSQL USERS TO DISK'', [], True)]\<rparr>)
   \<and> fst (main_config (config_call ''SAVE'' ''TO'' ''DISK'') (Inr store0)) =
       Inr [''changed'' \<mapsto> PBool True]"
  using bulk_transfer_changed [of "config_call ''SAVE'' ''TO'' ''DISK''" "''MYSQL USERS''"
          "''DISK''" "''SAVE MYSQL USERS TO DISK''" store0]
  by (simp add: config_call_def store0_def execute_def perform_def ran_def statement_def
        propagation_tokens)

section \<open>Reading a variable\<close>

lemma get_config_reads:
  "\<exists>ok. tables (snd (get_config name c)) = tables c
        \<and> sent (snd (get_config name c)) = sent c @ [(get_config_query, [PStr name], ok)]"
proof -
  have p: "statement (tokenize [] get_config_query) (map literal [PStr name]) =
             Some (Select_rows ''global_variables'' [(''variable_name'', PStr name)])"
    by (rule parse_get_config)
  have "tables (snd (perform get_config_query [PStr name] c)) = tables c
      \<and> sent (snd (perform get_config_query [PStr name] c)) = sent c"
    unfolding perform_def p
    by (simp add: no_such_table_def raise_io_def split: option.splits)
  then show ?thesis
    unfolding get_config_def Let_def
    by (auto simp: bind_io_def execute_def get_rowcount_def fetchone_def return_io_def
          split: prod.splits sum.splits list.splits)
qed

lemma added_append [simp]: "sent c' = sent c @ new \<Longrightarrow> added c c' = new"
  by (simp add: added_def)

text \<open>
  C10. When \<^verbatim>\<open>value\<close> is falsy (omitted or \<^verbatim>\<open>None\<close>, the empty string, 0, \<^verbatim>\<open>False\<close>),
  \<^verbatim>\<open>main\<close> only asks for the variable: whatever the store answers, the statements
  sent are that one query (once or twice) and the tables stay as they were; on a store that
  answers, the result is the stored row with \<^verbatim>\<open>changed = False\<close>, or the failure
  that the variable was not found.
\<close>

theorem falsy_value_only_reads:
  assumes "\<not> truthy (val m)" and "perform_checks m = Inr ()"
  shows "(\<exists>r c'. main_variables m (Inr c) = (r, Connected c') \<and> tables c' = tables c
            \<and> list_all (\<lambda>(q, d, ok). q = get_config_query) (added c c'))
       \<and> (rejects c = (\<lambda>_ _ _. None) \<and> map_of (tables c) ''global_variables'' = Some rs \<longrightarrow>
            fst (main_variables m (Inr c)) =
              (if found [(''variable_name'', PStr (variable m))] rs = []
               then Inl (Fail_json (''The variable '' @ dq @ variable m @ dq @ '' was not found''))
               else Inr [''changed'' \<mapsto> PBool False,
                         ''msg'' \<mapsto> PStr ''Returned the variable and it's current value'',
                         ''var'' \<mapsto> first_row (found [(''variable_name'', PStr (variable m))] rs)]))"
proof
  obtain r1 c1 where g1: "get_config (variable m) c = (r1, c1)"
    by (cases "get_config (variable m) c")
  obtain r2 c2 where g2: "get_config (variable m) c1 = (r2, c2)"
    by (cases "get_config (variable m) c1")
  from get_config_reads [of "variable m" c] g1
  obtain ok1 where c1: "tables c1 = tables c"
    "sent c1 = sent c @ [(get_config_query, [PStr (variable m)], ok1)]" by auto
  from get_config_reads [of "variable m" c1] g2 c1
  obtain ok2 where c2: "tables c2 = tables c"
    "sent c2 = sent c @ [(get_config_query, [PStr (variable m)], ok1),
                         (get_config_query, [PStr (variable m)], ok2)]" by auto
  have "\<exists>r c'. main_variables m (Inr c) = (r, Connected c') \<and> (c' = c1 \<or> c' = c2)"
    unfolding main_variables_def users_run_module [OF assms(2)] Let_def
    using assms(1) g1 g2
    by (auto simp: except_MySQLdb_Error_def bind_io_def return_io_def raise_io_def
          split: prod.splits sum.splits error.splits)
  then show "\<exists>r c'. main_variables m (Inr c) = (r, Connected c') \<and> tables c' = tables c
            \<and> list_all (\<lambda>(q, d, ok). q = get_config_query) (added c c')"
    using c1 c2 by auto
next
  show "rejects c = (\<lambda>_ _ _. None) \<and> map_of (tables c) ''global_variables'' = Some rs \<longrightarrow>
            fst (main_variables m (Inr c)) =
              (if found [(''variable_name'', PStr (variable m))] rs = []
               then Inl (Fail_json (''The variable '' @ dq @ variable m @ dq @ '' was not found''))
               else Inr [''changed'' \<mapsto> PBool False,
                         ''msg'' \<mapsto> PStr ''Returned the variable and it's current value'',
                         ''var'' \<mapsto> first_row (found [(''variable_name'', PStr (variable m))] rs)])"
    using variables_get_path [OF assms(2) _ _ assms(1), of c rs]
    by (simp add: not_found_def)
qed

theorem falsy_value_only_reads_witness:
  "(\<exists>r c'. main_variables (variable_call ''mysql-max_connections'' (PStr [])) (Inr variables_store)
             = (r, Connected c') \<and> tables c' = tables variables_store
           \<and> list_all (\<lambda>(q, d, ok). q = get_config_query) (added variables_store c'))
   \<and> fst (main_variables (variable_call ''mysql-max_connections'' (PStr [])) (Inr variables_store)) =
       Inr [''changed'' \<mapsto> PBool False,
            ''msg'' \<mapsto> PStr ''Returned the variable and it's current value'',
            ''var'' \<mapsto> PDict [(''variable_name'', PStr ''mysql-max_connections''),
                              (''variable_value'', PStr ''2000'')]]"
  using falsy_value_only_reads [of "variable_call ''mysql-max_connections'' (PStr [])"
          variables_store "[[(''variable_name'', PStr ''mysql-max_connections''),
                              (''variable_value'', PStr ''2000'')]]"]
  by (simp add: variable_call_def variables_store_def store0_def perform_checks_def found_def
        matches_def first_row_def)

section \<open>Idempotence\<close>

text \<open>
  C3. On a store that answers, whose \<^verbatim>\<open>SAVE\<close> and \<^verbatim>\<open>LOAD\<close> commands leave the
  staging tables alone, a live call with \<^verbatim>\<open>state = present\<close> (for a variable: with a
  truthy value, the variable existing) that does not find what it asks for reports
  \<^verbatim>\<open>changed = True\<close>; the same call run again on the store the first one left reports
  \<^verbatim>\<open>changed = False\<close>, leaves the tables as they are and returns the same record. For
  a variable the first call is the update and returns a row holding the new value.
\<close>

theorem present_twice:
  fixes mu :: users_module and ms :: scheduler_module and mv :: variables_module
  assumes "rejects c = (\<lambda>_ _ _. None)"
  shows "(perform_checks mu = Inr () \<and> map_of (tables c) ''mysql_users'' = Some us
          \<and> state mu = ''present'' \<and> \<not> check_mode mu
          \<and> bulk c [''SAVE'', ''MYSQL'', ''USERS'', ''TO'', ''DISK''] = id
          \<and> bulk c [''LOAD'', ''MYSQL'', ''USERS'', ''TO'', ''RUNTIME''] = id
          \<and> found (sql (user_key (ProxySQLUser_init mu)
                         @ given (ProxySQLUser.config_data (ProxySQLUser_init mu)))) us = []
          \<longrightarrow> (\<exists>r1 c1 r2 c2.
                 main_users mu (Inr c) = (Inr r1, Connected c1) \<and> r1 ''changed'' = Some (PBool True)
               \<and> main_users mu (Inr c1) = (Inr r2, Connected c2)
               \<and> r2 ''changed'' = Some (PBool False)
               \<and> tables c2 = tables c1 \<and> r2 ''user'' = r1 ''user''))
       \<and> (perform_checks_scheduler ms = Inr () \<and> map_of (tables c) ''scheduler'' = Some ss
          \<and> state ms = ''present'' \<and> \<not> check_mode ms
          \<and> bulk c [''SAVE'', ''SCHEDULER'', ''TO'', ''DISK''] = id
          \<and> bulk c [''LOAD'', ''SCHEDULER'', ''TO'', ''RUNTIME''] = id
          \<and> found (sql (schedule_key (ProxySQLSchedule_init ms)
                         @ given (config_data (ProxySQLSchedule_init ms)))) ss = []
          \<longrightarrow> (\<exists>r1 c1 r2 c2.
                 main_scheduler ms (Inr c) = (Inr r1, Connected c1)
               \<and> r1 ''changed'' = Some (PBool True)
               \<and> main_scheduler ms (Inr c1) = (Inr r2, Connected c2)
               \<and> r2 ''changed'' = Some (PBool False)
               \<and> tables c2 = tables c1 \<and> r2 ''schedules'' = r1 ''schedules''))
       \<and> (perform_checks mv = Inr () \<and> map_of (tables c) ''global_variables'' = Some vs
          \<and> truthy (val mv) \<and> \<not> check_mode mv
          \<and> bulk c (tokenize [] (if prefix ''admin'' (variable mv)
                 then ''SAVE ADMIN VARIABLES TO DISK'' else ''SAVE MYSQL VARIABLES TO DISK'')) = id
          \<and> bulk c (tokenize [] (if prefix ''admin'' (variable mv)
                 then ''LOAD ADMIN VARIABLES TO RUNTIME''
                 else ''LOAD MYSQL VARIABLES TO RUNTIME'')) = id
          \<and> found [(''variable_name'', PStr (variable mv))] vs \<noteq> []
          \<and> found [(''variable_name'', PStr (variable mv)),
                    (''variable_value'', literal (val mv))] vs = []
          \<longrightarrow> (\<exists>r1 c1 r2 c2.
                 main_variables mv (Inr c) = (Inr r1, Connected c1)
               \<and> r1 ''changed'' = Some (PBool True)
               \<and> main_variables mv (Inr c1) = (Inr r2, Connected c2)
               \<and> r2 ''changed'' = Some (PBool False)
               \<and> tables c2 = tables c1 \<and> r2 ''var'' = r1 ''var''
               \<and> r1 ''msg'' = Some (PStr ''Set the variable to the supplied value'')
               \<and> (\<exists>row. r1 ''var'' = Some (PDict row)
                      \<and> map_of row ''variable_value'' = Some (literal (val mv)))))"
proof (intro conjI impI)
  assume h: "perform_checks mu = Inr () \<and> map_of (tables c) ''mysql_users'' = Some us
          \<and> state mu = ''present'' \<and> \<not> check_mode mu
          \<and> bulk c [''SAVE'', ''MYSQL'', ''USERS'', ''TO'', ''DISK''] = id
          \<and> bulk c [''LOAD'', ''MYSQL'', ''USERS'', ''TO'', ''RUNTIME''] = id
          \<and> found (sql (user_key (ProxySQLUser_init mu)
                         @ given (ProxySQLUser.config_data (ProxySQLUser_init mu)))) us = []"
  show "\<exists>r1 c1 r2 c2.
                 main_users mu (Inr c) = (Inr r1, Connected c1) \<and> r1 ''changed'' = Some (PBool True)
               \<and> main_users mu (Inr c1) = (Inr r2, Connected c2)
               \<and> r2 ''changed'' = Some (PBool False)
               \<and> tables c2 = tables c1 \<and> r2 ''user'' = r1 ''user''"
    by (rule users_idempotent [OF _ assms]) (use h in blast)+
next
  assume h: "perform_checks_scheduler ms = Inr () \<and> map_of (tables c) ''scheduler'' = Some ss
          \<and> state ms = ''present'' \<and> \<not> check_mode ms
          \<and> bulk c [''SAVE'', ''SCHEDULER'', ''TO'', ''DISK''] = id
          \<and> bulk c [''LOAD'', ''SCHEDULER'', ''TO'', ''RUNTIME''] = id
          \<and> found (sql (schedule_key (ProxySQLSchedule_init ms)
                         @ given (config_data (ProxySQLSchedule_init ms)))) ss = []"
  show "\<exists>r1 c1 r2 c2.
                 main_scheduler ms (Inr c) = (Inr r1, Connected c1)
               \<and> r1 ''changed'' = Some (PBool True)
               \<and> main_scheduler ms (Inr c1) = (Inr r2, Connected c2)
               \<and> r2 ''changed'' = Some (PBool False)
               \<and> tables c2 = tables c1 \<and> r2 ''schedules'' = r1 ''schedules''"
    by (rule scheduler_idempotent [OF _ assms]) (use h in blast)+
next
  assume h: "perform_checks mv = Inr () \<and> map_of (tables c) ''global_variables'' = Some vs
          \<and> truthy (val mv) \<and> \<not> check_mode mv
          \<and> bulk c (tokenize [] (if prefix ''admin'' (variable mv)
                 then ''SAVE ADMIN VARIABLES TO DISK'' else ''SAVE MYSQL VARIABLES TO DISK'')) = id
          \<and> bulk c (tokenize [] (if prefix ''admin'' (variable mv)
                 then ''LOAD ADMIN VARIABLES TO RUNTIME''
                 else ''LOAD MYSQL VARIABLES TO RUNTIME'')) = id
          \<and> found [(''variable_name'', PStr (variable mv))] vs \<noteq> []
          \<and> found [(''variable_name'', PStr (variable mv)),
                    (''variable_value'', literal (val mv))] vs = []"
  show "\<exists>r1 c1 r2 c2.
                 main_variables mv (Inr c) = (Inr r1, Connected c1)
               \<and> r1 ''changed'' = Some (PBool True)
               \<and> main_variables mv (Inr c1) = (Inr r2, Connected c2)
               \<and> r2 ''changed'' = Some (PBool False)
               \<and> tables c2 = tables c1 \<and> r2 ''var'' = r1 ''var''
               \<and> r1 ''msg'' = Some (PStr ''Set the variable to the supplied value'')
               \<and> (\<exists>row. r1 ''var'' = Some (PDict row)
                      \<and> map_of row ''variable_value'' = Some (literal (val mv)))"
    by (rule variables_idempotent [OF _ assms]) (use h in blast)+
qed

theorem present_twice_witness:
  "(\<exists>r1 c1 r2 c2.
      main_users (user_call ''present'' (Some ''secret'')) (Inr (users_store [user_row ''old'' 100]))
        = (Inr r1, Connected c1)
    \<and> r1 ''changed'' = Some (PBool True)
    \<and> main_users (user_call ''present'' (Some ''secret'')) (Inr c1) = (Inr r2, Connected c2)
    \<and> r2 ''changed'' = Some (PBool False)
    \<and> tables c2 = tables c1 \<and> r2 ''user'' = r1 ''user'')
   \<and> (\<exists>r1 c1 r2 c2.
      main_scheduler (schedule_call ''present'' (Some ''a'')) (Inr (scheduler_store []))
        = (Inr r1, Connected c1)
    \<and> r1 ''changed'' = Some (PBool True)
    \<and> main_scheduler (schedule_call ''present'' (Some ''a'')) (Inr c1) = (Inr r2, Connected c2)
    \<and> r2 ''changed'' = Some (PBool False)
    \<and> tables c2 = tables c1 \<and> r2 ''schedules'' = r1 ''schedules'')
   \<and> (\<exists>r1 c1 r2 c2.
      main_variables (variable_call ''mysql-max_connections'' (PStr ''4096'')) (Inr variables_store)
        = (Inr r1, Connected c1)
    \<and> r1 ''changed'' = Some (PBool True)
    \<and> main_variables (variable_call ''mysql-max_connections'' (PStr ''4096'')) (Inr c1)
        = (Inr r2, Connected c2)
    \<and> r2 ''changed'' = Some (PBool False)
    \<and> tables c2 = tables c1 \<and> r2 ''var'' = r1 ''var''
    \<and> r1 ''msg'' = Some (PStr ''Set the variable to the supplied value'')
    \<and> (\<exists>row. r1 ''var'' = Some (PDict row)
           \<and> map_of row ''variable_value'' = Some (PStr ''4096'')))"
proof (intro conjI)
  show "\<exists>r1 c1 r2 c2.
      main_users (user_call ''present'' (Some ''secret'')) (Inr (users_store [user_row ''old'' 100]))
        = (Inr r1, Connected c1)
    \<and> r1 ''changed'' = Some (PBool True)
    \<and> main_users (user_call ''present'' (Some ''secret'')) (Inr c1) = (Inr r2, Connected c2)
    \<and> r2 ''changed'' = Some (PBool False)
    \<and> tables c2 = tables c1 \<and> r2 ''user'' = r1 ''user''"
    using present_twice [of "users_store [user_row ''old'' 100]"
            "user_call ''present'' (Some ''secret'')" "[user_row ''old'' 100]"]
    by (simp add: users_store_def store0_def user_call_def user_row_def perform_checks_def
          users_config_data iteritems_def optional_def user_key_def given_def sql_def found_def
          matches_def fun_eq_iff)
  show "\<exists>r1 c1 r2 c2.
      main_scheduler (schedule_call ''present'' (Some ''a'')) (Inr (scheduler_store []))
        = (Inr r1, Connected c1)
    \<and> r1 ''changed'' = Some (PBool True)
    \<and> main_scheduler (schedule_call ''present'' (Some ''a'')) (Inr c1) = (Inr r2, Connected c2)
    \<and> r2 ''changed'' = Some (PBool False)
    \<and> tables c2 = tables c1 \<and> r2 ''schedules'' = r1 ''schedules''"
    using present_twice [of "scheduler_store []" _ _ "schedule_call ''present'' (Some ''a'')" "[]"]
    by (simp add: scheduler_store_def store0_def schedule_call_def perform_checks_scheduler_def
          found_def fun_eq_iff)
  show "\<exists>r1 c1 r2 c2.
      main_variables (variable_call ''mysql-max_connections'' (PStr ''4096'')) (Inr variables_store)
        = (Inr r1, Connected c1)
    \<and> r1 ''changed'' = Some (PBool True)
    \<and> main_variables (variable_call ''mysql-max_connections'' (PStr ''4096'')) (Inr c1)
        = (Inr r2, Connected c2)
    \<and> r2 ''changed'' = Some (PBool False)
    \<and> tables c2 = tables c1 \<and> r2 ''var'' = r1 ''var''
    \<and> r1 ''msg'' = Some (PStr ''Set the variable to the supplied value'')
    \<and> (\<exists>row. r1 ''var'' = Some (PDict row)
           \<and> map_of row ''variable_value'' = Some (PStr ''4096''))"
    using present_twice [of variables_store _ _ _ _
            "variable_call ''mysql-max_connections'' (PStr ''4096'')"
            "[[(''variable_name'', PStr ''mysql-max_connections''),
               (''variable_value'', PStr ''2000'')]]"]
    by (simp add: variables_store_def store0_def variable_call_def perform_checks_def
          found_def matches_def fun_eq_iff)
qed

section \<open>The action chosen for \<^verbatim>\<open>state = present\<close>\<close>

text \<open>
  C1, as the claim has it, fails for schedules and for variables. A schedule whose key
  columns match a stored row while \<^verbatim>\<open>arg1\<close> differs is not updated: \<^verbatim>\<open>main\<close> inserts
  a second row. A variable that the store does not hold is not created: \<^verbatim>\<open>main\<close> fails,
  having sent one \<^verbatim>\<open>SELECT\<close>.
\<close>

theorem present_neither_updates_nor_creates:
  "found (sql (schedule_key (ProxySQLSchedule_init (schedule_call ''present'' (Some ''b'')))))
     [schedule_row 1 ''a''] = [schedule_row 1 ''a'']
   \<and> (case main_scheduler (schedule_call ''present'' (Some ''b''))
              (Inr (scheduler_store [schedule_row 1 ''a''])) of
        (Inr r, Connected c') \<Rightarrow>
          r ''msg'' = Some (PStr ''Added schedule to scheduler'')
          \<and> verbs (scheduler_store [schedule_row 1 ''a'']) c' =
              [''SELECT'', ''INSERT'', ''SELECT'', ''SAVE'', ''LOAD'']
          \<and> tables c' = [(''scheduler'', [schedule_row 1 ''a'',
                [(''id'', PNone), (''active'', PInt 1), (''arg1'', PStr ''b''),
                 (''interval_ms'', PInt 10000), (''filename'', PStr ''/opt/test.py'')]])]
      | _ \<Rightarrow> False)
   \<and> (case main_variables (variable_call ''mysql-threads'' (PStr ''4'')) (Inr variables_store) of
        (Inl e, Connected c') \<Rightarrow>
          e = Fail_json (''The variable '' @ dq @ ''mysql-threads'' @ dq @ '' was not found'')
          \<and> verbs variables_store c' = [''SELECT'']
          \<and> tables c' = tables variables_store
      | _ \<Rightarrow> False)"
  by code_simp

text \<open>
  C1, amended. On a store that answers, a call with \<^verbatim>\<open>state = present\<close> does this.
  For a user: nothing when a stored row matches the key columns and every attribute given;
  else an \<^verbatim>\<open>INSERT\<close> when no row matches the key columns, an \<^verbatim>\<open>UPDATE\<close> when one does.
  For a schedule: nothing when a stored row matches the key columns and every argument
  given, else an \<^verbatim>\<open>INSERT\<close>; a schedule is never updated. For a variable with a truthy
  value: the failure that it was not found when no row has the name, nothing when a row has
  the name and the value, else an \<^verbatim>\<open>UPDATE\<close>; a variable is never created. In check
  mode the statement that would change the store is not sent, and the message says what it
  would have been.
\<close>

theorem present_actions:
  fixes mu :: users_module and ms :: scheduler_module and mv :: variables_module
  assumes "rejects c = (\<lambda>_ _ _. None)"
  shows "(perform_checks mu = Inr () \<and> map_of (tables c) ''mysql_users'' = Some us
          \<and> state mu = ''present'' \<longrightarrow>
          (\<exists>r c'. main_users mu (Inr c) = (Inr r, Connected c')
             \<and> r ''changed'' = Some (PBool (found (desired_user mu) us = []))
             \<and> r ''msg'' = Some (PStr
                  (if found (desired_user mu) us \<noteq> []
                   then ''The user already exists in mysql_users and doesn't need to be updated.''
                   else if found (keyed_user mu) us = [] then
                     (if check_mode mu
                      then ''User would have been added to mysql_users, however check_mode is enabled.''
                      else ''Added user to mysql_users'')
                   else
                     (if check_mode mu
                      then ''User would have been updated in mysql_users, however check_mode is enabled.''
                      else ''Updated user in mysql_users'')))
             \<and> verbs c c' =
                 (if found (desired_user mu) us \<noteq> [] then [''SELECT'', ''SELECT'']
                  else [''SELECT'', ''SELECT''] @
                    (if check_mode mu then []
                     else [if found (keyed_user mu) us = [] then ''INSERT'' else ''UPDATE'',
                           ''SELECT'']
                       @ propagation (save_to_disk mu) (load_to_runtime mu)))))
       \<and> (perform_checks_scheduler ms = Inr () \<and> map_of (tables c) ''scheduler'' = Some ss
          \<and> state ms = ''present'' \<longrightarrow>
          (\<exists>r c'. main_scheduler ms (Inr c) = (Inr r, Connected c')
             \<and> r ''changed'' = Some (PBool (found (desired_schedule ms) ss = []))
             \<and> r ''msg'' = Some (PStr
                  (if found (desired_schedule ms) ss \<noteq> []
                   then ''The schedule already exists and doesn't need to be updated.''
                   else if check_mode ms
                   then ''Schedule would have been added to scheduler, however check_mode is enabled.''
                   else ''Added schedule to scheduler''))
             \<and> verbs c c' =
                 [''SELECT''] @
                 (if found (desired_schedule ms) ss \<noteq> [] then [''SELECT'']
                  else if check_mode ms then []
                  else [''INSERT'', ''SELECT'']
                    @ propagation (save_to_disk ms) (load_to_runtime ms))))
       \<and> (perform_checks mv = Inr () \<and> map_of (tables c) ''global_variables'' = Some vs
          \<and> truthy (val mv) \<longrightarrow>
          (\<exists>r c'. main_variables mv (Inr c) = (r, Connected c')
             \<and> (case r of
                  Inl e \<Rightarrow> found (named_variable mv) vs = [] \<and> e = not_found (variable mv)
                | Inr res \<Rightarrow> found (named_variable mv) vs \<noteq> []
                    \<and> res ''changed'' = Some (PBool (found (desired_variable mv) vs = []))
                    \<and> res ''msg'' = Some (PStr
                         (if found (desired_variable mv) vs \<noteq> []
                          then ''The variable is already been set to the supplied value''
                          else if check_mode mv
                          then ''Variable would have been set to the supplied value, however check_mode is enabled.''
                          else ''Set the variable to the supplied value'')))
             \<and> verbs c c' =
                 [''SELECT''] @
                 (if found (named_variable mv) vs = [] then []
                  else [''SELECT''] @
                    (if found (desired_variable mv) vs \<noteq> [] then [''SELECT'']
                     else if check_mode mv then []
                     else [''UPDATE'', ''SELECT'']
                       @ propagation (save_to_disk mv) (load_to_runtime mv)))))"
  using users_present_verbs [of mu c us] scheduler_present_verbs [of ms c ss]
    variables_set_verbs [of mv c vs] assms
  by blast

theorem present_actions_witness:
  "(\<exists>r c'. main_users (user_call ''present'' (Some ''secret''))
              (Inr (users_store [user_row ''old'' 100])) = (Inr r, Connected c')
      \<and> r ''changed'' = Some (PBool True)
      \<and> r ''msg'' = Some (PStr ''Updated user in mysql_users'')
      \<and> verbs (users_store [user_row ''old'' 100]) c' =
          [''SELECT'', ''SELECT'', ''UPDATE'', ''SELECT'', ''SAVE'', ''LOAD''])
   \<and> (\<exists>r c'. main_scheduler (schedule_call ''present'' (Some ''b''))
              (Inr (scheduler_store [schedule_row 1 ''a''])) = (Inr r, Connected c')
      \<and> r ''changed'' = Some (PBool True)
      \<and> r ''msg'' = Some (PStr ''Added schedule to scheduler'')
      \<and> verbs (scheduler_store [schedule_row 1 ''a'']) c' =
          [''SELECT'', ''INSERT'', ''SELECT'', ''SAVE'', ''LOAD''])
   \<and> (\<exists>r c'. main_variables (variable_call ''mysql-max_connections'' (PStr ''2000''))
              (Inr variables_store) = (Inr r, Connected c')
      \<and> r ''changed'' = Some (PBool False)
      \<and> r ''msg'' = Some (PStr ''The variable is already been set to the supplied value'')
      \<and> verbs variables_store c' = [''SELECT'', ''SELECT'', ''SELECT''])"
proof (intro conjI)
  show "\<exists>r c'. main_users (user_call ''present'' (Some ''secret''))
              (Inr (users_store [user_row ''old'' 100])) = (Inr r, Connected c')
      \<and> r ''changed'' = Some (PBool True)
      \<and> r ''msg'' = Some (PStr ''Updated user in mysql_users'')
      \<and> verbs (users_store [user_row ''old'' 100]) c' =
          [''SELECT'', ''SELECT'', ''UPDATE'', ''SELECT'', ''SAVE'', ''LOAD'']"
    using present_actions [of "users_store [user_row ''old'' 100]"
            "user_call ''present'' (Some ''secret'')" "[user_row ''old'' 100]"]
    by (simp add: users_store_def store0_def user_call_def user_row_def perform_checks_def
          desired_user_def keyed_user_def users_config_data iteritems_def optional_def
          user_key_def given_def sql_def found_def matches_def propagation_def)
  show "\<exists>r c'. main_scheduler (schedule_call ''present'' (Some ''b''))
              (Inr (scheduler_store [schedule_row 1 ''a''])) = (Inr r, Connected c')
      \<and> r ''changed'' = Some (PBool True)
      \<and> r ''msg'' = Some (PStr ''Added schedule to scheduler'')
      \<and> verbs (scheduler_store [schedule_row 1 ''a'']) c' =
          [''SELECT'', ''INSERT'', ''SELECT'', ''SAVE'', ''LOAD'']"
    using present_actions [of "scheduler_store [schedule_row 1 ''a'']" _ _
            "schedule_call ''present'' (Some ''b'')" "[schedule_row 1 ''a'']"]
    by (simp add: scheduler_store_def store0_def schedule_call_def schedule_row_def
          perform_checks_scheduler_def desired_schedule_def schedule_config_data iteritems_def
          optional_def schedule_key_def given_def sql_def found_def matches_def propagation_def)
  show "\<exists>r c'. main_variables (variable_call ''mysql-max_connections'' (PStr ''2000''))
              (Inr variables_store) = (Inr r, Connected c')
      \<and> r ''changed'' = Some (PBool False)
      \<and> r ''msg'' = Some (PStr ''The variable is already been set to the supplied value'')
      \<and> verbs variables_store c' = [''SELECT'', ''SELECT'', ''SELECT'']"
    using present_actions [of variables_store _ _ _ _
            "variable_call ''mysql-max_connections'' (PStr ''2000'')"
            "[[(''variable_name'', PStr ''mysql-max_connections''),
               (''variable_value'', PStr ''2000'')]]"]
    apply (auto simp: variables_store_def store0_def variable_call_def perform_checks_def
          named_variable_def desired_variable_def found_def matches_def propagation_def
          split: sum.splits)
    subgoal for r by (cases r) auto
    done
qed

section \<open>Removing more than one row\<close>

text \<open>
  C2, as the claim has it, fails for users: \<^verbatim>\<open>proxysql_mysql_users\<close> has no
  \<^verbatim>\<open>force_delete\<close> and counts nothing but whether a row exists. On a store where two
  rows match the call, key columns and attributes given, \<^verbatim>\<open>state = absent\<close> is not
  rejected: the \<^verbatim>\<open>DELETE\<close> is sent, both rows go and the change is propagated.
\<close>

theorem absent_users_unguarded:
  "length (found (desired_user (user_call ''absent'' None))
             [user_row ''one'' 100, user_row ''two'' 100]) = 2
   \<and> (case main_users (user_call ''absent'' None)
              (Inr (users_store [user_row ''one'' 100, user_row ''two'' 100])) of
        (Inr r, Connected c') \<Rightarrow>
          r ''changed'' = Some (PBool True)
          \<and> r ''msg'' = Some (PStr ''Deleted user from mysql_users'')
          \<and> verbs (users_store [user_row ''one'' 100, user_row ''two'' 100]) c' =
              [''SELECT'', ''SELECT'', ''DELETE'', ''SAVE'', ''LOAD'']
          \<and> tables c' = [(''mysql_users'', [])]
      | _ \<Rightarrow> False)"
  by code_simp

text \<open>
  C2, amended. On a store that answers, a schedule call with \<^verbatim>\<open>state = absent\<close> whose
  conditions (key columns and every argument given) match more than one row fails, when
  \<^verbatim>\<open>force_delete\<close> is not set, with the message that the operation would delete
  multiple records: the counting \<^verbatim>\<open>SELECT\<close> is all that was sent and the tables are as
  they were. With \<^verbatim>\<open>force_delete\<close> set, a live call deletes every matching row and
  then propagates as the call opted. A user call with \<^verbatim>\<open>state = absent\<close> has no such
  guard: when a row matches the key columns, a live call deletes every row that matches them
  and reports \<^verbatim>\<open>changed = True\<close>. (The \<^verbatim>\<open>SAVE\<close> and \<^verbatim>\<open>LOAD\<close> commands are taken
  to leave the staging tables alone.)
\<close>

theorem absent_cardinality:
  fixes mu :: users_module and ms :: scheduler_module
  assumes "rejects c = (\<lambda>_ _ _. None)"
  shows "(perform_checks_scheduler ms = Inr () \<and> map_of (tables c) ''scheduler'' = Some ss
          \<and> state ms = ''absent'' \<and> 1 < length (found (desired_schedule ms) ss)
          \<and> \<not> force_delete ms \<longrightarrow>
          (\<exists>c'. main_scheduler ms (Inr c) =
                  (Inl (Fail_json
                     ''Operation would delete multiple records use force_delete to override this''),
                   Connected c')
               \<and> tables c' = tables c \<and> verbs c c' = [''SELECT'']))
       \<and> (perform_checks_scheduler ms = Inr () \<and> map_of (tables c) ''scheduler'' = Some ss
          \<and> state ms = ''absent'' \<and> found (desired_schedule ms) ss \<noteq> []
          \<and> force_delete ms \<and> \<not> check_mode ms
          \<and> bulk c [''SAVE'', ''SCHEDULER'', ''TO'', ''DISK''] = id
          \<and> bulk c [''LOAD'', ''SCHEDULER'', ''TO'', ''RUNTIME''] = id \<longrightarrow>
          (\<exists>r c'. main_scheduler ms (Inr c) = (Inr r, Connected c')
               \<and> tables c' = with_rows ''scheduler''
                                (filter (\<lambda>r. \<not> matches (desired_schedule ms) r) ss) c
               \<and> verbs c c' = [''SELECT'', ''SELECT'', ''DELETE'']
                                @ propagation (save_to_disk ms) (load_to_runtime ms)))
       \<and> (perform_checks mu = Inr () \<and> map_of (tables c) ''mysql_users'' = Some us
          \<and> state mu = ''absent'' \<and> found (keyed_user mu) us \<noteq> [] \<and> \<not> check_mode mu
          \<and> bulk c [''SAVE'', ''MYSQL'', ''USERS'', ''TO'', ''DISK''] = id
          \<and> bulk c [''LOAD'', ''MYSQL'', ''USERS'', ''TO'', ''RUNTIME''] = id \<longrightarrow>
          (\<exists>r c'. main_users mu (Inr c) = (Inr r, Connected c')
               \<and> r ''changed'' = Some (PBool True)
               \<and> tables c' = with_rows ''mysql_users''
                                (filter (\<lambda>r. \<not> matches (keyed_user mu) r) us) c
               \<and> verbs c c' = [''SELECT'', ''SELECT'', ''DELETE'']
                                @ propagation (save_to_disk mu) (load_to_runtime mu)))"
proof (intro conjI impI)
  assume "perform_checks_scheduler ms = Inr () \<and> map_of (tables c) ''scheduler'' = Some ss
          \<and> state ms = ''absent'' \<and> 1 < length (found (desired_schedule ms) ss)
          \<and> \<not> force_delete ms"
  then show "\<exists>c'. main_scheduler ms (Inr c) =
                  (Inl (Fail_json
                     ''Operation would delete multiple records use force_delete to override this''),
                   Connected c')
               \<and> tables c' = tables c \<and> verbs c c' = [''SELECT'']"
    using scheduler_absent_rejected [of ms c ss] assms by blast
next
  assume h: "perform_checks_scheduler ms = Inr () \<and> map_of (tables c) ''scheduler'' = Some ss
          \<and> state ms = ''absent'' \<and> found (desired_schedule ms) ss \<noteq> []
          \<and> force_delete ms \<and> \<not> check_mode ms
          \<and> bulk c [''SAVE'', ''SCHEDULER'', ''TO'', ''DISK''] = id
          \<and> bulk c [''LOAD'', ''SCHEDULER'', ''TO'', ''RUNTIME''] = id"
  from scheduler_absent_deletes [of ms c ss] assms h
  obtain r c' where run: "main_scheduler ms (Inr c) = (Inr r, Connected c')"
    and t: "tables c' = with_rows ''scheduler''
                          (filter (\<lambda>r. \<not> matches (desired_schedule ms) r) ss) c"
    by blast
  from scheduler_absent_verbs [of ms c ss] assms h run
  have "verbs c c' = [''SELECT''] @
         (if found (desired_schedule ms) ss = [] \<or> check_mode ms
             \<or> (1 < length (found (desired_schedule ms) ss) \<and> \<not> force_delete ms) then []
          else [''SELECT'', ''DELETE''] @ propagation (save_to_disk ms) (load_to_runtime ms))"
    by auto
  with h have "verbs c c' = [''SELECT'', ''SELECT'', ''DELETE'']
                                @ propagation (save_to_disk ms) (load_to_runtime ms)"
    by simp
  with run t show "\<exists>r c'. main_scheduler ms (Inr c) = (Inr r, Connected c')
               \<and> tables c' = with_rows ''scheduler''
                                (filter (\<lambda>r. \<not> matches (desired_schedule ms) r) ss) c
               \<and> verbs c c' = [''SELECT'', ''SELECT'', ''DELETE'']
                                @ propagation (save_to_disk ms) (load_to_runtime ms)"
    by blast
next
  assume h: "perform_checks mu = Inr () \<and> map_of (tables c) ''mysql_users'' = Some us
          \<and> state mu = ''absent'' \<and> found (keyed_user mu) us \<noteq> [] \<and> \<not> check_mode mu
          \<and> bulk c [''SAVE'', ''MYSQL'', ''USERS'', ''TO'', ''DISK''] = id
          \<and> bulk c [''LOAD'', ''MYSQL'', ''USERS'', ''TO'', ''RUNTIME''] = id"
  from users_absent_deletes [of mu c us] assms h
  obtain r c' where run: "main_users mu (Inr c) = (Inr r, Connected c')"
    and ch: "r ''changed'' = Some (PBool True)"
    and t: "tables c' = with_rows ''mysql_users''
                          (filter (\<lambda>r. \<not> matches (keyed_user mu) r) us) c"
    by blast
  from users_absent_verbs [of mu c us] assms h run
  have "verbs c c' = [''SELECT''] @
         (if found (keyed_user mu) us = [] \<or> check_mode mu then []
          else [''SELECT'', ''DELETE''] @ propagation (save_to_disk mu) (load_to_runtime mu))"
    by auto
  with h have "verbs c c' = [''SELECT'', ''SELECT'', ''DELETE'']
                                @ propagation (save_to_disk mu) (load_to_runtime mu)"
    by simp
  with run ch t show "\<exists>r c'. main_users mu (Inr c) = (Inr r, Connected c')
               \<and> r ''changed'' = Some (PBool True)
               \<and> tables c' = with_rows ''mysql_users''
                                (filter (\<lambda>r. \<not> matches (keyed_user mu) r) us) c
               \<and> verbs c c' = [''SELECT'', ''SELECT'', ''DELETE'']
                                @ propagation (save_to_disk mu) (load_to_runtime mu)"
    by blast
qed

theorem absent_cardinality_witness:
  "(\<exists>c'. main_scheduler (schedule_call ''absent'' None)
            (Inr (scheduler_store [schedule_row 1 ''a'', schedule_row 2 ''b''])) =
            (Inl (Fail_json
               ''Operation would delete multiple records use force_delete to override this''),
             Connected c')
      \<and> tables c' = [(''scheduler'', [schedule_row 1 ''a'', schedule_row 2 ''b''])]
      \<and> verbs (scheduler_store [schedule_row 1 ''a'', schedule_row 2 ''b'']) c' = [''SELECT''])
   \<and> (\<exists>r c'. main_scheduler ((schedule_call ''absent'' None)\<lparr>force_delete := True\<rparr>)
            (Inr (scheduler_store [schedule_row 1 ''a'', schedule_row 2 ''b''])) =
            (Inr r, Connected c')
      \<and> tables c' = [(''scheduler'', [])]
      \<and> verbs (scheduler_store [schedule_row 1 ''a'', schedule_row 2 ''b'']) c' =
          [''SELECT'', ''SELECT'', ''DELETE'', ''SAVE'', ''LOAD''])
   \<and> (\<exists>r c'. main_users (user_call ''absent'' (Some ''secret''))
            (Inr (users_store [user_row ''old'' 100])) = (Inr r, Connected c')
      \<and> r ''changed'' = Some (PBool True)
      \<and> tables c' = [(''mysql_users'', [])]
      \<and> verbs (users_store [user_row ''old'' 100]) c' =
          [''SELECT'', ''SELECT'', ''DELETE'', ''SAVE'', ''LOAD''])"
proof (intro conjI)
  show "\<exists>c'. main_scheduler (schedule_call ''absent'' None)
            (Inr (scheduler_store [schedule_row 1 ''a'', schedule_row 2 ''b''])) =
            (Inl (Fail_json
               ''Operation would delete multiple records use force_delete to override this''),
             Connected c')
      \<and> tables c' = [(''scheduler'', [schedule_row 1 ''a'', schedule_row 2 ''b''])]
      \<and> verbs (scheduler_store [schedule_row 1 ''a'', schedule_row 2 ''b'']) c' = [''SELECT'']"
    using absent_cardinality [of "scheduler_store [schedule_row 1 ''a'', schedule_row 2 ''b'']"
            "schedule_call ''absent'' None" "[schedule_row 1 ''a'', schedule_row 2 ''b'']"]
    by (simp add: scheduler_store_def store0_def schedule_call_def schedule_row_def
          perform_checks_scheduler_def desired_schedule_def schedule_config_data iteritems_def
          optional_def schedule_key_def given_def sql_def found_def matches_def)
  show "\<exists>r c'. main_scheduler ((schedule_call ''absent'' None)\<lparr>force_delete := True\<rparr>)
            (Inr (scheduler_store [schedule_row 1 ''a'', schedule_row 2 ''b''])) =
            (Inr r, Connected c')
      \<and> tables c' = [(''scheduler'', [])]
      \<and> verbs (scheduler_store [schedule_row 1 ''a'', schedule_row 2 ''b'']) c' =
          [''SELECT'', ''SELECT'', ''DELETE'', ''SAVE'', ''LOAD'']"
    using absent_cardinality [of "scheduler_store [schedule_row 1 ''a'', schedule_row 2 ''b'']"
            "(schedule_call ''absent'' None)\<lparr>force_delete := True\<rparr>"
            "[schedule_row 1 ''a'', schedule_row 2 ''b'']"]
    by (simp add: scheduler_store_def store0_def schedule_call_def schedule_row_def
          perform_checks_scheduler_def desired_schedule_def schedule_config_data iteritems_def
          optional_def schedule_key_def given_def sql_def found_def matches_def
          propagation_def with_rows_def fun_eq_iff)
  show "\<exists>r c'. main_users (user_call ''absent'' (Some ''secret''))
            (Inr (users_store [user_row ''old'' 100])) = (Inr r, Connected c')
      \<and> r ''changed'' = Some (PBool True)
      \<and> tables c' = [(''mysql_users'', [])]
      \<and> verbs (users_store [user_row ''old'' 100]) c' =
          [''SELECT'', ''SELECT'', ''DELETE'', ''SAVE'', ''LOAD'']"
    using absent_cardinality [of "users_store [user_row ''old'' 100]" _ _
            "user_call ''absent'' (Some ''secret'')" "[user_row ''old'' 100]"]
    by (simp add: users_store_def store0_def user_call_def user_row_def perform_checks_def
          keyed_user_def user_key_def sql_def found_def matches_def
          propagation_def with_rows_def fun_eq_iff)
qed

section \<open>What a delete removes and returns\<close>

text \<open>
  C6, as the claim has it, fails for users: \<^verbatim>\<open>delete_user_config\<close> deletes by the key
  columns alone and returns \<^verbatim>\<open>True\<close>. A call that gives a password no stored row has
  (so that the conditions of \<^verbatim>\<open>check_user_privs\<close> match nothing) still removes the row
  with its user name.
\<close>

theorem delete_user_ignores_attributes:
  "found (desired_user (user_call ''absent'' (Some ''secret''))) [user_row ''old'' 100] = []
   \<and> (case delete_user_config (ProxySQLUser_init (user_call ''absent'' (Some ''secret'')))
              (users_store [user_row ''old'' 100]) of
        (Inr b, c') \<Rightarrow> b = True \<and> tables c' = [(''mysql_users'', [])] \<and> rowcount c' = 1
      | _ \<Rightarrow> False)"
  by code_simp

text \<open>
  C6, amended. \<^verbatim>\<open>delete_schedule_config\<close> sends a \<^verbatim>\<open>DELETE\<close> whose conditions are
  those of \<^verbatim>\<open>check_schedule_config\<close>, the key columns and every argument given; on a
  store that answers it removes the rows that match them and returns the pair of
  \<^verbatim>\<open>True\<close> and the number of rows removed. \<^verbatim>\<open>delete_user_config\<close> sends a
  \<^verbatim>\<open>DELETE\<close> whose conditions are the key columns only, where \<^verbatim>\<open>check_user_privs\<close>
  also asks for every attribute given; on a store that answers it removes the rows that
  match the key columns and returns \<^verbatim>\<open>True\<close>.
\<close>

theorem delete_predicates:
  fixes mu :: users_module and ms :: scheduler_module
  assumes "rejects c = (\<lambda>_ _ _. None)"
  shows "(case delete_schedule_config_request (ProxySQLSchedule_init ms) of (q, d) \<Rightarrow>
            statement (tokenize [] q) (map literal d)
              = Some (Delete_from ''scheduler'' (desired_schedule ms)))
       \<and> (case check_schedule_config_request (ProxySQLSchedule_init ms) of (q, d) \<Rightarrow>
            statement (tokenize [] q) (map literal d)
              = Some (Select_count ''schedule_count'' ''scheduler'' (desired_schedule ms)))
       \<and> (map_of (tables c) ''scheduler'' = Some ss \<longrightarrow>
            (\<exists>c'. delete_schedule_config (ProxySQLSchedule_init ms) c =
                     (Inr (PTuple [PBool True,
                             PInt (int (length (found (desired_schedule ms) ss)))]), c')
                 \<and> tables c' = with_rows ''scheduler''
                                  (filter (\<lambda>r. \<not> matches (desired_schedule ms) r) ss) c))
       \<and> statement (tokenize [] delete_user_config_query)
            (map literal (map snd (user_key (ProxySQLUser_init mu))))
           = Some (Delete_from ''mysql_users'' (keyed_user mu))
       \<and> (case check_user_privs_request (ProxySQLUser_init mu) of (q, d) \<Rightarrow>
            statement (tokenize [] q) (map literal d)
              = Some (Select_count ''user_count'' ''mysql_users'' (desired_user mu)))
       \<and> (map_of (tables c) ''mysql_users'' = Some us \<longrightarrow>
            (\<exists>c'. delete_user_config (ProxySQLUser_init mu) c = (Inr True, c')
                 \<and> tables c' = with_rows ''mysql_users''
                                  (filter (\<lambda>r. \<not> matches (keyed_user mu) r) us) c))"
proof (intro conjI impI)
  show "case delete_schedule_config_request (ProxySQLSchedule_init ms) of (q, d) \<Rightarrow>
            statement (tokenize [] q) (map literal d)
              = Some (Delete_from ''scheduler'' (desired_schedule ms))"
    unfolding desired_schedule_def by (rule parse_delete_schedule_config [OF schedule_columns(1)])
  show "case check_schedule_config_request (ProxySQLSchedule_init ms) of (q, d) \<Rightarrow>
            statement (tokenize [] q) (map literal d)
              = Some (Select_count ''schedule_count'' ''scheduler'' (desired_schedule ms))"
    unfolding desired_schedule_def by (rule parse_check_schedule_config [OF schedule_columns(1)])
  show "statement (tokenize [] delete_user_config_query)
            (map literal (map snd (user_key (ProxySQLUser_init mu))))
           = Some (Delete_from ''mysql_users'' (keyed_user mu))"
    unfolding keyed_user_def by (rule parse_delete_user_config)
  show "case check_user_privs_request (ProxySQLUser_init mu) of (q, d) \<Rightarrow>
            statement (tokenize [] q) (map literal d)
              = Some (Select_count ''user_count'' ''mysql_users'' (desired_user mu))"
    unfolding desired_user_def by (rule parse_check_user_privs [OF users_columns(1)])
next
  assume t: "map_of (tables c) ''scheduler'' = Some ss"
  show "\<exists>c'. delete_schedule_config (ProxySQLSchedule_init ms) c =
                     (Inr (PTuple [PBool True,
                             PInt (int (length (found (desired_schedule ms) ss)))]), c')
                 \<and> tables c' = with_rows ''scheduler''
                                  (filter (\<lambda>r. \<not> matches (desired_schedule ms) r) ss) c"
    unfolding desired_schedule_def
    by (simp add: delete_schedule_config_answer [OF assms t schedule_columns(1)])
next
  assume t: "map_of (tables c) ''mysql_users'' = Some us"
  show "\<exists>c'. delete_user_config (ProxySQLUser_init mu) c = (Inr True, c')
                 \<and> tables c' = with_rows ''mysql_users''
                                  (filter (\<lambda>r. \<not> matches (keyed_user mu) r) us) c"
    unfolding keyed_user_def by (simp add: delete_user_config_answer [OF assms t])
qed

theorem delete_predicates_witness:
  "(\<exists>c'. delete_schedule_config (ProxySQLSchedule_init (schedule_call ''absent'' (Some ''a'')))
            (scheduler_store [schedule_row 1 ''a'', schedule_row 2 ''b'']) =
            (Inr (PTuple [PBool True, PInt 1]), c')
        \<and> tables c' = [(''scheduler'', [schedule_row 2 ''b''])])
   \<and> (\<exists>c'. delete_user_config (ProxySQLUser_init (user_call ''absent'' (Some ''secret'')))
            (users_store [user_row ''old'' 100]) = (Inr True, c')
        \<and> tables c' = [(''mysql_users'', [])])"
proof (intro conjI)
  show "\<exists>c'. delete_schedule_config (ProxySQLSchedule_init (schedule_call ''absent'' (Some ''a'')))
            (scheduler_store [schedule_row 1 ''a'', schedule_row 2 ''b'']) =
            (Inr (PTuple [PBool True, PInt 1]), c')
        \<and> tables c' = [(''scheduler'', [schedule_row 2 ''b''])]"
    using delete_predicates [of "scheduler_store [schedule_row 1 ''a'', schedule_row 2 ''b'']"
            "schedule_call ''absent'' (Some ''a'')" "[schedule_row 1 ''a'', schedule_row 2 ''b'']"]
    by (simp add: scheduler_store_def store0_def schedule_call_def schedule_row_def
          desired_schedule_def schedule_config_data iteritems_def
          optional_def schedule_key_def given_def sql_def found_def matches_def with_rows_def)
  show "\<exists>c'. delete_user_config (ProxySQLUser_init (user_call ''absent'' (Some ''secret'')))
            (users_store [user_row ''old'' 100]) = (Inr True, c')
        \<and> tables c' = [(''mysql_users'', [])]"
    using delete_predicates [of "users_store [user_row ''old'' 100]" _ _
            "user_call ''absent'' (Some ''secret'')" "[user_row ''old'' 100]"]
    by (simp add: users_store_def store0_def user_call_def user_row_def
          keyed_user_def user_key_def sql_def found_def matches_def with_rows_def)
qed

section \<open>The order of the attributes in a statement\<close>

text \<open>
  C9, as the claim has it, fails: the attributes are written in the order in which
  \<^verbatim>\<open>iteritems()\<close> walks the dictionary \<^verbatim>\<open>config_data\<close>, and that order is the
  interpreter's. The same parameters under two placings of the keys give two texts for the
  query of \<^verbatim>\<open>check_user_privs\<close>, for the \<^verbatim>\<open>UPDATE\<close> of \<^verbatim>\<open>update_user_config\<close>
  and for the query of \<^verbatim>\<open>check_schedule_config\<close>.
\<close>

theorem attribute_order_varies:
  "fst (check_user_privs_request (ProxySQLUser_init (user_call ''present'' (Some ''secret''))))
     \<noteq> fst (check_user_privs_request (ProxySQLUser_init
            ((user_call ''present'' (Some ''secret''))
               \<lparr>hash := (\<lambda>k. if k = ''password'' then 1 else 0)\<rparr>)))
   \<and> fst (update_user_config_request (ProxySQLUser_init (user_call ''present'' (Some ''secret''))))
     \<noteq> fst (update_user_config_request (ProxySQLUser_init
            ((user_call ''present'' (Some ''secret''))
               \<lparr>hash := (\<lambda>k. if k = ''password'' then 1 else 0)\<rparr>)))
   \<and> fst (check_schedule_config_request (ProxySQLSchedule_init
            ((schedule_call ''present'' (Some ''a''))\<lparr>comment := Some ''nightly''\<rparr>)))
     \<noteq> fst (check_schedule_config_request (ProxySQLSchedule_init
            ((schedule_call ''present'' (Some ''a''))
               \<lparr>hash := (\<lambda>k. if k = ''arg1'' then 1 else 0), comment := Some ''nightly''\<rparr>)))"
  by code_simp

text \<open>
  C9, amended. The key columns come first, in the order the source writes them. The
  attributes that were given follow in the order of \<^verbatim>\<open>config_data\<close>, placeholders and
  data alike; \<^verbatim>\<open>config_data\<close> holds the declared parameters, each once, in the order
  in which the interpreter's dictionary yields them (here: sorted by \<^verbatim>\<open>hash\<close>), so the
  text is fixed once that order is.
\<close>

theorem attribute_order:
  fixes mu :: users_module and ms :: scheduler_module
  shows "check_user_privs_request (ProxySQLUser_init mu) =
           (user_count_query @ and_text (given (ProxySQLUser.config_data (ProxySQLUser_init mu))),
            map snd (user_key (ProxySQLUser_init mu))
              @ map snd (given (ProxySQLUser.config_data (ProxySQLUser_init mu))))
       \<and> (given (ProxySQLUser.config_data (ProxySQLUser_init mu)) = (col, x) # rest \<longrightarrow>
            update_user_config_request (ProxySQLUser_init mu) =
              (''UPDATE mysql_users\<newline>SET '' @ col @ ''= %s'' @ set_text rest @
               ''\<newline>WHERE username = %s\<newline>  AND backend = %s\<newline>  AND frontend = %s'',
               (x # map snd rest) @ map snd (user_key (ProxySQLUser_init mu))))
       \<and> check_schedule_config_request (ProxySQLSchedule_init ms) =
           (schedule_count_query @ and_text (given (config_data (ProxySQLSchedule_init ms))),
            map snd (schedule_key (ProxySQLSchedule_init ms))
              @ map snd (given (config_data (ProxySQLSchedule_init ms))))
       \<and> sorted (map (hash mu \<circ> fst) (ProxySQLUser.config_data (ProxySQLUser_init mu)))
       \<and> sorted (map (hash ms \<circ> fst) (config_data (ProxySQLSchedule_init ms)))
       \<and> set (ProxySQLUser.config_data (ProxySQLUser_init mu)) =
           {(''password'', optional PStr (password mu)),
            (''active'', optional PBool (users_module.active mu)),
            (''use_ssl'', optional PBool (use_ssl mu)),
            (''default_hostgroup'', optional PInt (default_hostgroup mu)),
            (''default_schema'', optional PStr (default_schema mu)),
            (''transaction_persistent'', optional PBool (transaction_persistent mu)),
            (''fast_forward'', optional PBool (fast_forward mu)),
            (''max_connections'', optional PInt (max_connections mu))}
       \<and> set (config_data (ProxySQLSchedule_init ms)) =
           {(''arg1'', optional PStr (arg1 ms)), (''arg2'', optional PStr (arg2 ms)),
            (''arg3'', optional PStr (arg3 ms)), (''arg4'', optional PStr (arg4 ms)),
            (''arg5'', optional PStr (arg5 ms)), (''comment'', optional PStr (comment ms))}
       \<and> distinct (map fst (ProxySQLUser.config_data (ProxySQLUser_init mu)))
       \<and> distinct (map fst (config_data (ProxySQLSchedule_init ms)))"
proof (intro conjI impI)
  show "check_user_privs_request (ProxySQLUser_init mu) =
           (user_count_query @ and_text (given (ProxySQLUser.config_data (ProxySQLUser_init mu))),
            map snd (user_key (ProxySQLUser_init mu))
              @ map snd (given (ProxySQLUser.config_data (ProxySQLUser_init mu))))"
    unfolding check_user_privs_request_def Let_def and_conditions_eq user_key_data ..
  show "check_schedule_config_request (ProxySQLSchedule_init ms) =
           (schedule_count_query @ and_text (given (config_data (ProxySQLSchedule_init ms))),
            map snd (schedule_key (ProxySQLSchedule_init ms))
              @ map snd (given (config_data (ProxySQLSchedule_init ms))))"
    unfolding check_schedule_config_request_def Let_def and_conditions_eq schedule_key_data ..
  have f: "(\<lambda>(k, v). h k) = h \<circ> fst" for h :: "string \<Rightarrow> nat"
    by (simp add: fun_eq_iff)
  show "sorted (map (hash mu \<circ> fst) (ProxySQLUser.config_data (ProxySQLUser_init mu)))"
    unfolding users_config_data iteritems_def f by (rule sorted_sort_key)
  show "sorted (map (hash ms \<circ> fst) (config_data (ProxySQLSchedule_init ms)))"
    unfolding schedule_config_data iteritems_def f by (rule sorted_sort_key)
  show "set (ProxySQLUser.config_data (ProxySQLUser_init mu)) =
           {(''password'', optional PStr (password mu)),
            (''active'', optional PBool (users_module.active mu)),
            (''use_ssl'', optional PBool (use_ssl mu)),
            (''default_hostgroup'', optional PInt (default_hostgroup mu)),
            (''default_schema'', optional PStr (default_schema mu)),
            (''transaction_persistent'', optional PBool (transaction_persistent mu)),
            (''fast_forward'', optional PBool (fast_forward mu)),
            (''max_connections'', optional PInt (max_connections mu))}"
    unfolding users_config_data by simp
  show "set (config_data (ProxySQLSchedule_init ms)) =
           {(''arg1'', optional PStr (arg1 ms)), (''arg2'', optional PStr (arg2 ms)),
            (''arg3'', optional PStr (arg3 ms)), (''arg4'', optional PStr (arg4 ms)),
            (''arg5'', optional PStr (arg5 ms)), (''comment'', optional PStr (comment ms))}"
    unfolding schedule_config_data by simp
  show "distinct (map fst (ProxySQLUser.config_data (ProxySQLUser_init mu)))"
    by (rule users_columns(2))
  show "distinct (map fst (config_data (ProxySQLSchedule_init ms)))"
    by (rule schedule_columns(2))
next
  assume "given (ProxySQLUser.config_data (ProxySQLUser_init mu)) = (col, x) # rest"
  then show "update_user_config_request (ProxySQLUser_init mu) =
              (''UPDATE mysql_users\<newline>SET '' @ col @ ''= %s'' @ set_text rest @
               ''\<newline>WHERE username = %s\<newline>  AND backend = %s\<newline>  AND frontend = %s'',
               (x # map snd rest) @ map snd (user_key (ProxySQLUser_init mu)))"
    by (rule update_user_config_request_eq)
qed

theorem attribute_order_witness:
  "update_user_config_request (ProxySQLUser_init (user_call ''present'' (Some ''secret''))) =
     (''UPDATE mysql_users\<newline>SET password= %s,\<newline>    max_connections = %s'' @
      ''\<newline>WHERE username = %s\<newline>  AND backend = %s\<newline>  AND frontend = %s'',
      [PStr ''secret'', PInt 100, PStr ''app'', PBool True, PBool True])
   \<and> update_user_config_request (ProxySQLUser_init
        ((user_call ''present'' (Some ''secret''))
           \<lparr>hash := (\<lambda>k. if k = ''password'' then 1 else 0)\<rparr>)) =
     (''UPDATE mysql_users\<newline>SET max_connections= %s,\<newline>    password = %s'' @
      ''\<newline>WHERE username = %s\<newline>  AND backend = %s\<newline>  AND frontend = %s'',
      [PInt 100, PStr ''secret'', PStr ''app'', PBool True, PBool True])"
  using attribute_order [of "user_call ''present'' (Some ''secret'')" "''password''"
          "PStr ''secret''" "[(''max_connections'', PInt 100)]"]
        attribute_order [of "(user_call ''present'' (Some ''secret''))
           \<lparr>hash := (\<lambda>k. if k = ''password'' then 1 else 0)\<rparr>" "''max_connections''"
          "PInt 100" "[(''password'', PStr ''secret'')]"]
  by (simp add: user_call_def users_config_data iteritems_def optional_def given_def
        user_key_def set_text_def)

(*CLAIMS-END*)

end
